theory Spec2Isabelle
  imports Complex_Main
begin

section \<open>The dashboard script \<^verbatim>\<open>src/frontend/main.js\<close>\<close>

text \<open>
  The script is a browser program: it fetches pass/fail counts from an HTTP service,
  reshapes them and writes them into four charts, a table and a handful of selector
  widgets. The embedding below follows it function by function. What the script leaves
  to the platform (numbers, strings, \<^verbatim>\<open>Date\<close>, \<^verbatim>\<open>select\<close> elements) is modelled
  first, as far as the script uses it.
\<close>

subsection \<open>Strings\<close>

text \<open>
  A JavaScript string is a sequence of UTF-16 code units (integers from 0 to 65535). The labels of the charts
  (\<^verbatim>\<open>Tu\<close>\<open>\<dots>\<close>\<^verbatim>\<open>n 3\<close>, \<^verbatim>\<open>Th\<close>\<open>\<dots>\<close>\<^verbatim>\<open>ng 7\<close>) hold letters beyond ASCII, so a
  string is a list of code units; \<open>ascii\<close> embeds an ASCII literal.
\<close>

type_synonym jsstr = "int list"

definition ascii :: "string \<Rightarrow> jsstr" where
  "ascii s = map of_char s"

definition is_digit :: "int \<Rightarrow> bool" where
  "is_digit c = (48 \<le> c \<and> c \<le> 57)"

text \<open>The value of a run of decimal digits, most significant first.\<close>

definition digits_val :: "jsstr \<Rightarrow> int" where
  "digits_val ds = foldl (\<lambda>a c. 10 * a + (c - 48)) 0 ds"

text \<open>
  \<^verbatim>\<open>String(n)\<close> for an integer: its decimal digits, no leading zero, a minus sign
  before a negative one.
\<close>

function digits_of :: "int \<Rightarrow> jsstr" where
  "digits_of n = (if n < 10 then [48 + n] else digits_of (n div 10) @ [48 + n mod 10])"
  by pat_completeness auto
termination
  by (relation "measure nat") auto

declare digits_of.simps [simp del]

definition String_int :: "int \<Rightarrow> jsstr" where
  "String_int n = (if n < 0 then 45 # digits_of (- n) else digits_of n)"

subsection \<open>Numbers and payload values\<close>

text \<open>
  The counts the service sends are integers, and the script only adds them, so a number
  is an integer or \<^verbatim>\<open>NaN\<close>. (Doubles add integers exactly below \<open>2^53\<close>; larger
  counts are outside the model.) The one place where the script leaves the integers is
  the pass rate, a quotient: there the rounding of doubles is modelled exactly, below.

  An entry of a \<^verbatim>\<open>pass\<close> or \<^verbatim>\<open>fail\<close> array is a JSON number or \<^verbatim>\<open>null\<close>; reading
  an array beyond its end, or a property an object does not have, gives
  \<^verbatim>\<open>undefined\<close>. Entries of other kinds (booleans, strings, objects) are treated
  in the section on entries of any kind.
\<close>

datatype jsnum = NaN | Fin int

datatype jsval = JUndefined | JNull | JNum int

text \<open>Truthiness, \<^verbatim>\<open>v || w\<close>, \<^verbatim>\<open>Number(v)\<close>, \<^verbatim>\<open>a + b\<close> on numbers, \<^verbatim>\<open>n || 0\<close>.\<close>

fun truthy :: "jsval \<Rightarrow> bool" where
  "truthy JUndefined = False"
| "truthy JNull = False"
| "truthy (JNum n) = (n \<noteq> 0)"

definition js_or :: "jsval \<Rightarrow> jsval \<Rightarrow> jsval" where
  "js_or v w = (if truthy v then v else w)"

fun Number_js :: "jsval \<Rightarrow> jsnum" where
  "Number_js JUndefined = NaN"
| "Number_js JNull = Fin 0"
| "Number_js (JNum n) = Fin n"

fun js_add :: "jsnum \<Rightarrow> jsnum \<Rightarrow> jsnum" where
  "js_add (Fin a) (Fin b) = Fin (a + b)"
| "js_add _ _ = NaN"

fun num_or0 :: "jsnum \<Rightarrow> jsnum" where
  "num_or0 NaN = Fin 0"
| "num_or0 (Fin n) = Fin n"

text \<open>\<^verbatim>\<open>arr[i]\<close>: an index beyond the end reads \<^verbatim>\<open>undefined\<close>.\<close>

definition at_index :: "jsval list \<Rightarrow> nat \<Rightarrow> jsval" where
  "at_index xs i = (if i < length xs then xs ! i else JUndefined)"

text \<open>\<^verbatim>\<open>Number(v || 0)\<close>, as the script reads every count.\<close>

definition count_of :: "jsval \<Rightarrow> jsnum" where
  "count_of v = Number_js (js_or v (JNum 0))"

text \<open>
  \<^verbatim>\<open>const sum = arr => (arr && arr.length) ? arr.reduce((a,b)=>a+(Number(b)||0),0) : 0;\<close>
  The argument is \<open>None\<close> when the property is absent.
\<close>

definition sum_js :: "jsval list option \<Rightarrow> jsnum" where
  "sum_js arr =
     (case arr of
        None \<Rightarrow> Fin 0
      | Some xs \<Rightarrow>
          if length xs \<noteq> 0
          then foldl (\<lambda>a b. js_add a (num_or0 (Number_js b))) (Fin 0) xs
          else Fin 0)"

text \<open>The integer a payload entry stands for in a sum: \<^verbatim>\<open>null\<close> and absent entries count 0.\<close>

fun entry_int :: "jsval \<Rightarrow> int" where
  "entry_int (JNum n) = n"
| "entry_int _ = 0"

subsection \<open>Doubles: the quotient of the pass rate\<close>

text \<open>
  \<^verbatim>\<open>Math.round((p/tot)*100)\<close> divides two integers and multiplies by 100 in IEEE 754
  binary64, rounding each result to the nearest double, ties to even. A double in the
  normal range is \<open>m * 2^e\<close> with \<open>2^52 \<le> m < 2^53\<close>; \<open>fl x\<close> is the double nearest
  to the rational \<open>x\<close>. (Quotients of counts and their products with 100 are far from
  the subnormal and the overflow range.) \<^verbatim>\<open>Math.round\<close> rounds to the nearest
  integer, halves upwards.
\<close>

function blen :: "int \<Rightarrow> int" where
  "blen n = (if n \<le> 0 then 0 else 1 + blen (n div 2))"
  by pat_completeness auto
termination
  by (relation "measure nat") auto

declare blen.simps [simp del]

definition pow2 :: "int \<Rightarrow> rat" where
  "pow2 k = (if 0 \<le> k then 2 ^ nat k else 1 / 2 ^ nat (- k))"

text \<open>\<open>ilog2 x\<close> is \<open>\<lfloor>log\<^sub>2 x\<rfloor>\<close> for \<open>x > 0\<close>, from the bit lengths of numerator and denominator.\<close>

definition ilog2 :: "rat \<Rightarrow> int" where
  "ilog2 x = (let (a, b) = quotient_of x; k = blen a - blen b
              in if pow2 k \<le> x then k else k - 1)"

definition round_half_even :: "rat \<Rightarrow> int" where
  "round_half_even m =
     (let f = \<lfloor>m\<rfloor>; d = m - of_int f
      in if d < 1 / 2 then f else if 1 / 2 < d then f + 1 else if even f then f else f + 1)"

definition fl :: "rat \<Rightarrow> rat" where
  "fl x =
     (if x = 0 then 0
      else let s = pow2 (52 - ilog2 \<bar>x\<bar>);
               r = of_int (round_half_even (\<bar>x\<bar> * s)) / s
           in if x < 0 then - r else r)"

definition Math_round :: "rat \<Rightarrow> int" where
  "Math_round x = \<lfloor>x + 1 / 2\<rfloor>"

subsection \<open>The pass rate of \<^verbatim>\<open>loadMonth\<close> and \<^verbatim>\<open>loadYear\<close>\<close>

text \<open>
  \<^verbatim>\<open>
  const rate = j.labels.map((_,i)=>{
    const p = Number(j.pass[i]||0), f = Number(j.fail[i]||0);
    const tot = p+f;
    return tot? Math.round((p/tot)*100) : 0;
  });\<close>
  \<^verbatim>\<open>tot\<close> is falsy when it is 0 or \<^verbatim>\<open>NaN\<close>. \<^verbatim>\<open>loadYear\<close> repeats the same lines.
\<close>

definition rate_of :: "jsnum \<Rightarrow> jsnum \<Rightarrow> jsnum" where
  "rate_of p f =
     (case js_add p f of
        NaN \<Rightarrow> Fin 0
      | Fin tot \<Rightarrow>
          if tot \<noteq> 0
          then (case p of
                  Fin a \<Rightarrow> Fin (Math_round (fl (fl (of_int a / of_int tot) * 100)))
                | NaN \<Rightarrow> NaN)
          else Fin 0)"

definition loadMonth_rate :: "'a list \<Rightarrow> jsval list \<Rightarrow> jsval list \<Rightarrow> jsnum list" where
  "loadMonth_rate labels pass fail =
     map (\<lambda>i. let p = count_of (at_index pass i); f = count_of (at_index fail i)
              in rate_of p f) [0..<length labels]"

definition loadYear_rate :: "'a list \<Rightarrow> jsval list \<Rightarrow> jsval list \<Rightarrow> jsnum list" where
  "loadYear_rate labels pass fail =
     map (\<lambda>i. let p = count_of (at_index pass i); f = count_of (at_index fail i)
              in rate_of p f) [0..<length labels]"

text \<open>
  The rule as the specification words it, in exact arithmetic:
  \<open>round(100 * pass / (pass + fail))\<close> if \<open>pass + fail > 0\<close>, else 0.
\<close>

definition spec_passRatePct :: "int \<Rightarrow> int \<Rightarrow> int" where
  "spec_passRatePct p f =
     (if 0 < p + f then \<lfloor>(100 * of_int p / of_int (p + f) :: rat) + 1 / 2\<rfloor> else 0)"

subsection \<open>The cumulative series of \<^verbatim>\<open>loadDay\<close>\<close>

text \<open>
  \<^verbatim>\<open>
  const passCum = []; const failCum = [];
  let pSum=0, fSum=0;
  for(let i=0;i<weekData.labels.length;i++){
    pSum += Number(weekData.pass[i]||0);
    fSum += Number(weekData.fail[i]||0);
    passCum.push(pSum);
    failCum.push(fSum);
  }\<close>
  The loop state is \<open>(pSum, fSum, passCum, failCum)\<close>; the loop runs over the indices
  of \<^verbatim>\<open>labels\<close>.
\<close>

type_synonym cum_state = "jsnum \<times> jsnum \<times> jsnum list \<times> jsnum list"

definition cum_step :: "jsval list \<Rightarrow> jsval list \<Rightarrow> cum_state \<Rightarrow> nat \<Rightarrow> cum_state" where
  "cum_step pass fail st i =
     (case st of (pSum, fSum, passCum, failCum) \<Rightarrow>
        let pSum' = js_add pSum (count_of (at_index pass i));
            fSum' = js_add fSum (count_of (at_index fail i))
        in (pSum', fSum', passCum @ [pSum'], failCum @ [fSum']))"

definition loadDay_cumulative ::
  "'a list \<Rightarrow> jsval list \<Rightarrow> jsval list \<Rightarrow> jsnum list \<times> jsnum list" where
  "loadDay_cumulative labels pass fail =
     (case foldl (cum_step pass fail) (Fin 0, Fin 0, [], []) [0..<length labels] of
        (pSum, fSum, passCum, failCum) \<Rightarrow> (passCum, failCum))"

text \<open>The running sum after \<open>k\<close> rounds of the loop, for the statements below.\<close>

fun psum :: "jsval list \<Rightarrow> nat \<Rightarrow> jsnum" where
  "psum xs 0 = Fin 0"
| "psum xs (Suc k) = js_add (psum xs k) (count_of (at_index xs k))"

subsection \<open>Month lengths and week blocks\<close>

text \<open>
  \<^verbatim>\<open>new Date(y,m,0).getDate()\<close> is the length of month \<open>m\<close> (1 to 12) of year \<open>y\<close>:
  day 0 of the month with index \<open>m\<close> is the last day of the month before it. The
  constructor reads a year from 0 to 99 as 1900 + y and carries a month index outside
  0 to 11 into the year.
\<close>

definition js_year :: "int \<Rightarrow> int" where
  "js_year y = (if 0 \<le> y \<and> y \<le> 99 then 1900 + y else y)"

definition leap :: "int \<Rightarrow> bool" where
  "leap y = (y mod 4 = 0 \<and> (y mod 100 \<noteq> 0 \<or> y mod 400 = 0))"

definition month_length :: "int \<Rightarrow> int \<Rightarrow> int" where
  "month_length y m =
     (if m = 2 then (if leap y then 29 else 28)
      else if m = 4 \<or> m = 6 \<or> m = 9 \<or> m = 11 then 30 else 31)"

definition daysInMonth :: "int \<Rightarrow> int \<Rightarrow> int" where
  "daysInMonth y m =
     (let ym = js_year y * 12 + (m - 1) in month_length (ym div 12) (ym mod 12 + 1))"

text \<open>
  The week of the month a day falls into, \<^verbatim>\<open>Math.floor((day-1)/7)+1\<close>
  (in \<^verbatim>\<open>loadDay\<close> and in \<^verbatim>\<open>syncSelectionsFromDate\<close>).
\<close>

definition weekIdx :: "int \<Rightarrow> int" where
  "weekIdx day = (day - 1) div 7 + 1"

text \<open>
  The loop of \<^verbatim>\<open>buildWeekIndex\<close>, one triple \<open>(idx, start, end)\<close> per option it writes:
  \<^verbatim>\<open>
  let start=1, idx=1, html='';
  while(start<=days){
    const end = Math.min(start+6, days);
    html += `<option value="${idx}">... ${idx} (${start}-${end})</option>`;
    start+=7; idx++;
  }\<close>
\<close>

function buildWeekIndex_loop :: "int \<Rightarrow> int \<Rightarrow> int \<Rightarrow> (int \<times> int \<times> int) list" where
  "buildWeekIndex_loop days start idx =
     (if start \<le> days
      then (idx, start, min (start + 6) days) # buildWeekIndex_loop days (start + 7) (idx + 1)
      else [])"
  by pat_completeness auto
termination
  by (relation "measure (\<lambda>(days, start, idx). nat (days + 1 - start))") auto

declare buildWeekIndex_loop.simps [simp del]



subsection \<open>Calendar dates\<close>

text \<open>
  A \<^verbatim>\<open>Date\<close> is a number of milliseconds since 1970-01-01T00:00Z. The script builds
  dates from strings of the form \<^verbatim>\<open>YYYY-MM-DD\<close>, which \<^verbatim>\<open>new Date\<close> reads as midnight
  UTC of that day, and reads them back with \<^verbatim>\<open>toISOString\<close> (UTC) and with
  \<^verbatim>\<open>getDay\<close>, \<^verbatim>\<open>getDate\<close>, \<^verbatim>\<open>getMonth\<close>, \<^verbatim>\<open>getFullYear\<close>, \<^verbatim>\<open>setDate\<close> (local time).
  Local time is UTC plus the offset of the browser's time zone, \<open>tz\<close> minutes east of
  Greenwich (a fixed offset: daylight-saving changes are not modelled).

  Day numbers and civil dates (proleptic Gregorian) are converted by the usual
  era-based formulas; 1970-01-01 is day 0, a Thursday.
\<close>

definition days_from_civil :: "int \<Rightarrow> int \<Rightarrow> int \<Rightarrow> int" where
  "days_from_civil y m d =
     (let y' = (if m \<le> 2 then y - 1 else y);
          era = y' div 400;
          yoe = y' - era * 400;
          mp = (if 2 < m then m - 3 else m + 9);
          doy = (153 * mp + 2) div 5 + d - 1;
          doe = yoe * 365 + yoe div 4 - yoe div 100 + doy
      in era * 146097 + doe - 719468)"

definition civil_from_days :: "int \<Rightarrow> int \<times> int \<times> int" where
  "civil_from_days z =
     (let z' = z + 719468;
          era = z' div 146097;
          doe = z' - era * 146097;
          yoe = (doe - doe div 1460 + doe div 36524 - doe div 146096) div 365;
          y = yoe + era * 400;
          doy = doe - (365 * yoe + yoe div 4 - yoe div 100);
          mp = (5 * doy + 2) div 153;
          d = doy - (153 * mp + 2) div 5 + 1;
          m = (if mp < 10 then mp + 3 else mp - 9)
      in (if m \<le> 2 then y + 1 else y, m, d))"

text \<open>\<^verbatim>\<open>s.slice(i, j)\<close> and \<^verbatim>\<open>s.slice(i)\<close> for indices that are not negative.\<close>

definition slice :: "nat \<Rightarrow> nat \<Rightarrow> jsstr \<Rightarrow> jsstr" where
  "slice i j s = take (j - i) (drop i s)"

definition slice_from :: "nat \<Rightarrow> jsstr \<Rightarrow> jsstr" where
  "slice_from i s = drop i s"

text \<open>The regular expression \<^verbatim>\<open>/^\d{4}-\d{2}-\d{2}$/\<close>.\<close>

definition is_day_format :: "jsstr \<Rightarrow> bool" where
  "is_day_format s =
     (length s = 10 \<and> list_all is_digit (slice 0 4 s) \<and> slice 4 5 s = [45]
      \<and> list_all is_digit (slice 5 7 s) \<and> slice 7 8 s = [45] \<and> list_all is_digit (slice 8 10 s))"

text \<open>
  \<^verbatim>\<open>new Date(dateStr)\<close> for a date-only string: the time value, or \<open>None\<close> for
  \<^verbatim>\<open>Invalid Date\<close>. Only the form \<^verbatim>\<open>YYYY-MM-DD\<close> with a month from 1 to 12 and a
  day that the month has is read as a date (engines differ on days such as
  \<^verbatim>\<open>02-30\<close>, and the script is never given the other formats \<^verbatim>\<open>Date.parse\<close> accepts).
\<close>

definition msPerDay :: int where
  "msPerDay = 86400000"

definition new_Date :: "jsstr \<Rightarrow> int option" where
  "new_Date s =
     (if is_day_format s
      then (let y = digits_val (slice 0 4 s); m = digits_val (slice 5 7 s);
                d = digits_val (slice 8 10 s)
            in if 1 \<le> m \<and> m \<le> 12 \<and> 1 \<le> d \<and> d \<le> month_length y m
               then Some (days_from_civil y m d * msPerDay) else None)
      else None)"

definition local_day :: "int \<Rightarrow> int \<Rightarrow> int" where
  "local_day tz t = (t + tz * 60000) div msPerDay"

definition getDay :: "int \<Rightarrow> int \<Rightarrow> int" where
  "getDay tz t = (local_day tz t + 4) mod 7"

definition getFullYear :: "int \<Rightarrow> int \<Rightarrow> int" where
  "getFullYear tz t = fst (civil_from_days (local_day tz t))"

definition getMonth :: "int \<Rightarrow> int \<Rightarrow> int" where
  "getMonth tz t = fst (snd (civil_from_days (local_day tz t))) - 1"

definition getDate :: "int \<Rightarrow> int \<Rightarrow> int" where
  "getDate tz t = snd (snd (civil_from_days (local_day tz t)))"

text \<open>
  \<^verbatim>\<open>x.setDate(x.getDate() + k)\<close> moves the local date by \<open>k\<close> days and keeps the local
  time of day; with a fixed offset that is \<open>k\<close> days later on the time line.
  (Across a daylight-saving change the time line moves by an hour more or less; a week
  with such a change is outside the model.)
\<close>

definition add_days :: "int \<Rightarrow> int \<Rightarrow> int" where
  "add_days t k = t + k * msPerDay"

text \<open>Decimal digits padded with zeros to a width, as in \<^verbatim>\<open>toISOString\<close> (years 0 to 9999).\<close>

fun pad_digits :: "nat \<Rightarrow> int \<Rightarrow> jsstr" where
  "pad_digits 0 n = []"
| "pad_digits (Suc w) n = pad_digits w (n div 10) @ [48 + n mod 10]"

text \<open>\<^verbatim>\<open>x.toISOString().slice(0,10)\<close>: the UTC date of the time value.\<close>

definition toISODate :: "int \<Rightarrow> jsstr" where
  "toISODate t =
     (case civil_from_days (t div msPerDay) of (y, m, d) \<Rightarrow>
        pad_digits 4 y @ [45] @ pad_digits 2 m @ [45] @ pad_digits 2 d)"

subsection \<open>\<^verbatim>\<open>weekDatesFrom\<close>\<close>

text \<open>
  \<^verbatim>\<open>
  function weekDatesFrom(dateStr){
    const d = new Date(dateStr);
    const day = d.getDay();
    const diffToMon = (day === 0) ? -6 : 1 - day;
    const mon = new Date(d);
    mon.setDate(d.getDate() + diffToMon);
    const arr = [];
    for(let i=0;i<7;i++){
      const dd = new Date(mon);
      dd.setDate(mon.getDate() + i);
      arr.push(dd.toISOString().slice(0,10));
    }
    return arr;
  }\<close>
  On an invalid date \<^verbatim>\<open>toISOString\<close> throws a \<^verbatim>\<open>RangeError\<close>.
  \<open>weekDays\<close> are the time values the loop formats.
\<close>

datatype js_error = JsError jsstr | JsTypeError jsstr | JsRangeError jsstr | JsSyntaxError jsstr

definition weekDays :: "int \<Rightarrow> int \<Rightarrow> int list" where
  "weekDays tz d =
     (let day = getDay tz d;
          diffToMon = (if day = 0 then - 6 else 1 - day);
          mon = add_days d diffToMon
      in map (\<lambda>i. add_days mon (int i)) [0..<7])"

definition weekDatesFrom :: "int \<Rightarrow> jsstr \<Rightarrow> js_error + jsstr list" where
  "weekDatesFrom tz dateStr =
     (case new_Date dateStr of
        None \<Rightarrow> Inl (JsRangeError (ascii ''Invalid time value''))
      | Some d \<Rightarrow> Inr (map toISODate (weekDays tz d)))"

text \<open>The day of the week of a date string, 0 for Sunday, read in UTC.\<close>

definition weekday_of :: "jsstr \<Rightarrow> int option" where
  "weekday_of s = map_option (getDay 0) (new_Date s)"


subsection \<open>Responses of the data service\<close>

text \<open>
  A response body, once parsed, is taken at the shapes the endpoints are documented to
  send. \<^verbatim>\<open>/logs/day\<close> sends an array of per-device objects with \<^verbatim>\<open>pass\<close> and
  \<^verbatim>\<open>fail\<close>; an element may also be \<^verbatim>\<open>null\<close>, on which \<^verbatim>\<open>item.pass\<close> throws (an element
  that is a number or a string has no such properties and reads as an object without
  them). The other endpoints send an object with some of \<^verbatim>\<open>labels\<close>, \<^verbatim>\<open>pass\<close>,
  \<^verbatim>\<open>fail\<close>, \<^verbatim>\<open>range\<close>, \<^verbatim>\<open>month\<close>; a property that is absent is \<open>None\<close>. Labels are
  strings, counts are numbers or \<^verbatim>\<open>null\<close>.
\<close>

datatype logitem = Stat jsval jsval | NullItem

record payload =
  p_labels :: "jsstr list option"
  p_pass :: "jsval list option"
  p_fail :: "jsval list option"
  p_range :: "jsstr option"
  p_month :: "jsstr option"

datatype json = JsonNull | JsonArray "logitem list" | JsonObject payload

text \<open>
  What \<^verbatim>\<open>fetch(url)\<close> settles to: a rejection (no connection), or a response with its
  status line, its body as text and, when the body is valid JSON, its parsed value.
\<close>

record http_response =
  status :: int
  statusText :: jsstr
  body_text :: jsstr
  body_json :: "json option"

datatype fetched = NetworkFailure | Responded http_response

text \<open>
  \<^verbatim>\<open>
  async function fetchJSON(url){
    const r = await fetch(url);
    if(!r.ok){
      const t = await r.text();
      throw new Error(`${r.status} ${r.statusText} - ${t}`);
    }
    return await r.json();
  }\<close>
  \<^verbatim>\<open>r.ok\<close> holds for a status from 200 to 299.
\<close>

definition fetchJSON_of :: "fetched \<Rightarrow> js_error + json" where
  "fetchJSON_of r =
     (case r of
        NetworkFailure \<Rightarrow> Inl (JsTypeError (ascii ''Failed to fetch''))
      | Responded resp \<Rightarrow>
          if \<not> (200 \<le> status resp \<and> status resp \<le> 299)
          then Inl (JsError (String_int (status resp) @ ascii '' '' @ statusText resp
                              @ ascii '' - '' @ body_text resp))
          else (case body_json resp of
                  None \<Rightarrow> Inl (JsSyntaxError (ascii ''Unexpected token''))
                | Some j \<Rightarrow> Inr j))"

text \<open>
  The environment of the page: the base address of the service, the offset of the
  local time zone in minutes, and what each address answers.
\<close>

record env =
  env_api :: jsstr
  env_tz :: int
  env_fetch :: "jsstr \<Rightarrow> fetched"

definition fetchJSON :: "env \<Rightarrow> jsstr \<Rightarrow> js_error + json" where
  "fetchJSON e url = fetchJSON_of (env_fetch e url)"

text \<open>Reading \<^verbatim>\<open>j.labels\<close>, \<^verbatim>\<open>j.pass\<close>, \<^verbatim>\<open>j.fail\<close> for a method call: absent is a \<^verbatim>\<open>TypeError\<close>.\<close>

definition j_payload :: "json \<Rightarrow> js_error + payload" where
  "j_payload j =
     (case j of
        JsonNull \<Rightarrow> Inl (JsTypeError (ascii ''Cannot read properties of null''))
      | JsonArray xs \<Rightarrow> Inr \<lparr>p_labels = None, p_pass = None, p_fail = None,
                              p_range = None, p_month = None\<rparr>
      | JsonObject p \<Rightarrow> Inr p)"

definition need :: "'a option \<Rightarrow> js_error + 'a" where
  "need x = (case x of None \<Rightarrow> Inl (JsTypeError (ascii ''Cannot read properties of undefined''))
                     | Some v \<Rightarrow> Inr v)"

subsection \<open>The page\<close>

text \<open>
  A chart holds its labels and the data of its datasets: pass, fail and, for the month
  and the year chart, the rate line. A \<^verbatim>\<open>select\<close> element holds the values of its
  options and the value of the selected one, \<^verbatim>\<open>''\<close> when none is selected. Writing
  \<^verbatim>\<open>value\<close> selects the option with that value, or none when no option has it;
  replacing the options through \<^verbatim>\<open>innerHTML\<close> selects the first of them.
\<close>

record chart =
  ch_labels :: "jsstr list"
  ch_pass :: "jsnum list"
  ch_fail :: "jsnum list"
  ch_rate :: "jsnum list"

record select_el =
  sel_options :: "jsstr list"
  sel_value :: jsstr

definition set_value :: "jsstr \<Rightarrow> select_el \<Rightarrow> select_el" where
  "set_value v el = el\<lparr>sel_value := (if v \<in> set (sel_options el) then v else [])\<rparr>"

definition set_options :: "jsstr list \<Rightarrow> select_el" where
  "set_options opts = \<lparr>sel_options = opts, sel_value = (case opts of [] \<Rightarrow> [] | x # xs \<Rightarrow> x)\<rparr>"

datatype log_entry = Warn jsstr jsstr js_error | Err jsstr js_error

record ui =
  chartDay :: chart
  chartWeek :: chart
  chartMonth :: chart
  chartYear :: chart
  weekLabel :: jsstr
  monthLabel :: jsstr
  yearLabel :: jsstr
  logSummary :: "jsstr \<times> jsnum \<times> jsnum"
  logTable :: "(nat \<times> jsval \<times> jsval) list"
  dayInput :: jsstr
  weekYear :: select_el
  monthYear :: select_el
  yearSelect :: select_el
  weekMonth :: select_el
  monthSelect :: select_el
  weekIndex :: select_el
  selectedDevice :: jsstr
  console :: "log_entry list"
  alerts :: "jsstr list"

text \<open>The placeholder \<^verbatim>\<open>'L\<close>\<open>\<dots>\<close>\<^verbatim>\<open>i'\<close> (``error''): L, U+1ED7, i.\<close>

definition loi :: jsstr where
  "loi = [76, 7895, 105]"

text \<open>\<^verbatim>\<open>selectedDevice !== 'all' ? `?device=${selectedDevice}` : ''\<close>\<close>

definition deviceParam :: "ui \<Rightarrow> jsstr" where
  "deviceParam s =
     (if selectedDevice s \<noteq> ascii ''all'' then ascii ''?device='' @ selectedDevice s else [])"

subsection \<open>\<^verbatim>\<open>renderDayLog\<close>\<close>

text \<open>
  \<^verbatim>\<open>
  tbl.innerHTML = '';
  summary.innerText = `... ${dateStr} ... ${sum(data.pass)} ... ${sum(data.fail)}`;
  tbl.insertAdjacentHTML('beforeend', thead);
  for(let h=0; h<24; h++){
    const p = data.pass && data.pass[h] != null ? data.pass[h] : 0;
    const f = data.fail && data.fail[h] != null ? data.fail[h] : 0;
    tbl.insertAdjacentHTML('beforeend', tr);
  }\<close>
  The table of the model holds the rows below the header, \<open>(h, p, f)\<close>; the summary
  holds the date and the two sums. The table element is taken to be in the page.
  A function that can throw returns the page as it left it and the error, if any.
\<close>

definition hour_cell :: "jsval list option \<Rightarrow> nat \<Rightarrow> jsval" where
  "hour_cell arr h =
     (case arr of
        None \<Rightarrow> JNum 0
      | Some xs \<Rightarrow> (case at_index xs h of JUndefined \<Rightarrow> JNum 0 | JNull \<Rightarrow> JNum 0 | JNum n \<Rightarrow> JNum n))"

definition renderDayLog :: "jsstr \<Rightarrow> json \<Rightarrow> ui \<Rightarrow> ui \<times> js_error option" where
  "renderDayLog dateStr data s =
     (let s0 = s\<lparr>logTable := []\<rparr>
      in case j_payload data of
           Inl e \<Rightarrow> (s0, Some e)
         | Inr p \<Rightarrow>
             (s0\<lparr>logSummary := (dateStr, sum_js (p_pass p), sum_js (p_fail p)),
                 logTable := map (\<lambda>h. (h, hour_cell (p_pass p) h, hour_cell (p_fail p) h)) [0..<24]\<rparr>,
              None))"

subsection \<open>\<^verbatim>\<open>loadDay\<close>\<close>

text \<open>
  The seven requests of the grouped bar chart, each with its own \<^verbatim>\<open>catch\<close>:
  \<^verbatim>\<open>
  const promises = weekDates.map(dt => fetchJSON(`${API}/logs/day/${dt}${deviceParam}`)
      .catch(e=>{ console.warn('logs/day failed',dt,e); return []; }));
  const perDayArr = await Promise.all(promises);\<close>
\<close>

definition logs_url :: "env \<Rightarrow> ui \<Rightarrow> jsstr \<Rightarrow> jsstr" where
  "logs_url e s dt = env_api e @ ascii ''/logs/day/'' @ dt @ deviceParam s"

definition fetch_day_logs :: "env \<Rightarrow> ui \<Rightarrow> jsstr \<Rightarrow> json" where
  "fetch_day_logs e s dt =
     (case fetchJSON e (logs_url e s dt) of Inl err \<Rightarrow> JsonArray [] | Inr j \<Rightarrow> j)"

definition day_log_warnings :: "env \<Rightarrow> ui \<Rightarrow> jsstr list \<Rightarrow> log_entry list" where
  "day_log_warnings e s weekDates =
     concat (map (\<lambda>dt. case fetchJSON e (logs_url e s dt) of
                          Inl err \<Rightarrow> [Warn (ascii ''logs/day failed'') dt err]
                        | Inr j \<Rightarrow> []) weekDates)"

text \<open>
  \<^verbatim>\<open>
  perDayArr.forEach((arr, idx) => {
    if(!Array.isArray(arr)) return;
    let dayPass = 0, dayFail = 0;
    arr.forEach(item => {
      dayPass += Number(item.pass || 0);
      dayFail += Number(item.fail || 0);
    });
    passArr[idx] = dayPass;
    failArr[idx] = dayFail;
  });\<close>
\<close>

fun day_totals :: "jsnum \<Rightarrow> jsnum \<Rightarrow> logitem list \<Rightarrow> js_error + (jsnum \<times> jsnum)" where
  "day_totals dayPass dayFail [] = Inr (dayPass, dayFail)"
| "day_totals dayPass dayFail (Stat p f # items) =
     day_totals (js_add dayPass (count_of p)) (js_add dayFail (count_of f)) items"
| "day_totals dayPass dayFail (NullItem # items) =
     Inl (JsTypeError (ascii ''Cannot read properties of null''))"

fun perDay_forEach ::
  "json list \<Rightarrow> nat \<Rightarrow> jsnum list \<times> jsnum list \<Rightarrow> js_error + (jsnum list \<times> jsnum list)" where
  "perDay_forEach [] idx acc = Inr acc"
| "perDay_forEach (JsonArray items # rest) idx (passArr, failArr) =
     (case day_totals (Fin 0) (Fin 0) items of
        Inl e \<Rightarrow> Inl e
      | Inr (dayPass, dayFail) \<Rightarrow>
          perDay_forEach rest (Suc idx) (passArr[idx := dayPass], failArr[idx := dayFail]))"
| "perDay_forEach (j # rest) idx (passArr, failArr) =
     perDay_forEach rest (Suc idx) (passArr, failArr)"

text \<open>
  \<^verbatim>\<open>`${weekdays[dd.getDay() === 0 ? 6 : dd.getDay()-1]} ${d.slice(5)}`\<close> with
  \<^verbatim>\<open>dd = new Date(d)\<close>; an index that is \<^verbatim>\<open>NaN\<close> reads \<^verbatim>\<open>undefined\<close>.
\<close>

definition weekdays :: "jsstr list" where
  "weekdays = map ascii [''T2'', ''T3'', ''T4'', ''T5'', ''T6'', ''T7'', ''CN'']"

definition day_label :: "int \<Rightarrow> jsstr \<Rightarrow> jsstr" where
  "day_label tz d =
     (case new_Date d of
        None \<Rightarrow> ascii ''undefined''
      | Some dd \<Rightarrow> weekdays ! nat (if getDay tz dd = 0 then 6 else getDay tz dd - 1))
     @ ascii '' '' @ slice_from 5 d"

text \<open>
  Lines 119 to 144: the week of the date, the seven requests, the sums, and the grouped
  bar chart. The two arrays start as \<^verbatim>\<open>Array(7).fill(0)\<close>.
\<close>

definition loadDay_grouped :: "env \<Rightarrow> jsstr \<Rightarrow> ui \<Rightarrow> ui \<times> js_error option" where
  "loadDay_grouped e dateStr s =
     (case weekDatesFrom (env_tz e) dateStr of
        Inl err \<Rightarrow> (s, Some err)
      | Inr weekDates \<Rightarrow>
          let s1 = s\<lparr>console := console s @ day_log_warnings e s weekDates\<rparr>;
              perDayArr = map (fetch_day_logs e s) weekDates
          in case perDay_forEach perDayArr 0 (replicate 7 (Fin 0), replicate 7 (Fin 0)) of
               Inl err \<Rightarrow> (s1, Some err)
             | Inr (passArr, failArr) \<Rightarrow>
                 (s1\<lparr>chartDay := (chartDay s1)\<lparr>ch_labels := map (day_label (env_tz e)) weekDates,
                                               ch_pass := passArr, ch_fail := failArr\<rparr>\<rparr>,
                  None))"

text \<open>
  \<^verbatim>\<open>Number(str)\<close> for the slices of a date string (digits; the empty string is 0),
  \<^verbatim>\<open>Math.floor((day-1)/7)+1\<close> on a number, and a number in a template literal.
\<close>

definition Number_str :: "jsstr \<Rightarrow> jsnum" where
  "Number_str s = (if s = [] then Fin 0 else if list_all is_digit s then Fin (digits_val s) else NaN)"

fun weekIdx_num :: "jsnum \<Rightarrow> jsnum" where
  "weekIdx_num NaN = NaN"
| "weekIdx_num (Fin day) = Fin (weekIdx day)"

fun String_num :: "jsnum \<Rightarrow> jsstr" where
  "String_num NaN = ascii ''NaN''"
| "String_num (Fin n) = String_int n"

definition week_url :: "env \<Rightarrow> ui \<Rightarrow> jsstr \<Rightarrow> jsstr \<Rightarrow> jsstr \<Rightarrow> jsstr" where
  "week_url e s y m w =
     env_api e @ ascii ''/data/week/'' @ y @ ascii ''/'' @ m @ ascii ''/'' @ w @ deviceParam s"

text \<open>
  Lines 147 to 165: the week block of the date and the area chart of cumulative counts.
  With a label to read, \<^verbatim>\<open>weekData.pass[i]\<close> throws when \<^verbatim>\<open>pass\<close> is absent. Nothing
  is written to the chart before the three series are complete: \<open>growth_week\<close> is what
  the lines compute, \<open>loadDay_growth\<close> writes it.
\<close>

definition growth_week :: "env \<Rightarrow> jsstr \<Rightarrow> ui \<Rightarrow> js_error + (jsstr list \<times> jsnum list \<times> jsnum list)" where
  "growth_week e dateStr s =
     (let y = slice 0 4 dateStr; m = Number_str (slice 5 7 dateStr);
          day = Number_str (slice 8 10 dateStr);
          weekIdx = weekIdx_num day
      in case fetchJSON e (week_url e s y (String_num m) (String_num weekIdx)) of
           Inl err \<Rightarrow> Inl err
         | Inr weekData \<Rightarrow>
            (case j_payload weekData of
               Inl err \<Rightarrow> Inl err
             | Inr p \<Rightarrow>
                (case need (p_labels p) of
                   Inl err \<Rightarrow> Inl err
                 | Inr labels \<Rightarrow>
                    if labels \<noteq> [] \<and> (p_pass p = None \<or> p_fail p = None)
                    then Inl (JsTypeError (ascii ''Cannot read properties of undefined''))
                    else (case loadDay_cumulative labels (case p_pass p of None \<Rightarrow> [] | Some xs \<Rightarrow> xs)
                                 (case p_fail p of None \<Rightarrow> [] | Some xs \<Rightarrow> xs) of
                            (passCum, failCum) \<Rightarrow>
                              Inr (map (slice_from 5) labels, passCum, failCum)))))"

definition loadDay_growth :: "env \<Rightarrow> jsstr \<Rightarrow> ui \<Rightarrow> ui \<times> js_error option" where
  "loadDay_growth e dateStr s =
     (case growth_week e dateStr s of
        Inl err \<Rightarrow> (s, Some err)
      | Inr (labels, passCum, failCum) \<Rightarrow>
          (s\<lparr>chartWeek := (chartWeek s)\<lparr>ch_labels := labels, ch_pass := passCum,
                                        ch_fail := failCum\<rparr>\<rparr>, None))"

text \<open>
  \<^verbatim>\<open>loadDay\<close>: the hourly table, the grouped bars, the area chart, and one \<^verbatim>\<open>catch\<close>
  around all of it that logs the error.
\<close>

definition day_url :: "env \<Rightarrow> ui \<Rightarrow> jsstr \<Rightarrow> jsstr" where
  "day_url e s dateStr = env_api e @ ascii ''/data/day/'' @ dateStr @ deviceParam s"

definition loadDay_try :: "env \<Rightarrow> jsstr \<Rightarrow> ui \<Rightarrow> ui \<times> js_error option" where
  "loadDay_try e dateStr s =
     (case fetchJSON e (day_url e s dateStr) of
        Inl err \<Rightarrow> (s, Some err)
      | Inr hourly \<Rightarrow>
         (case renderDayLog dateStr hourly s of
            (s1, Some err) \<Rightarrow> (s1, Some err)
          | (s1, None) \<Rightarrow>
             (case loadDay_grouped e dateStr s1 of
                (s2, Some err) \<Rightarrow> (s2, Some err)
              | (s2, None) \<Rightarrow> loadDay_growth e dateStr s2)))"

definition loadDay :: "env \<Rightarrow> jsstr \<Rightarrow> ui \<Rightarrow> ui" where
  "loadDay e dateStr s =
     (case loadDay_try e dateStr s of
        (s', None) \<Rightarrow> s'
      | (s', Some err) \<Rightarrow> s'\<lparr>console := console s' @ [Err (ascii ''loadDay error'') err]\<rparr>)"

subsection \<open>\<^verbatim>\<open>loadWeek\<close>, \<^verbatim>\<open>loadMonth\<close>, \<^verbatim>\<open>loadYear\<close>\<close>

text \<open>
  Each of the three awaits one request and then runs the rest of its \<^verbatim>\<open>try\<close> block, or
  its \<^verbatim>\<open>catch\<close>. \<open>load\<dots>_then\<close> is what runs once the request has settled.
  \<^verbatim>\<open>
  const j = await fetchJSON(`${API}/data/week/${y}/${m}/${w}${deviceParam}`);
  charts.week.data.labels = j.labels.map(l=> l.slice(5));
  charts.week.data.datasets[0].data = j.pass.map(v=>Number(v||0));
  charts.week.data.datasets[1].data = j.fail.map(v=>Number(v||0));
  charts.week.update('none');
  $('weekLabel').innerText = j.range || '';
  } catch(err){ console.error('loadWeek', err); $('weekLabel').innerText = 'L..i'; }\<close>
\<close>

definition loadWeek_try :: "js_error + json \<Rightarrow> ui \<Rightarrow> ui \<times> js_error option" where
  "loadWeek_try r s =
     (case r of
        Inl err \<Rightarrow> (s, Some err)
      | Inr j \<Rightarrow>
         (case j_payload j of
            Inl err \<Rightarrow> (s, Some err)
          | Inr p \<Rightarrow>
             (case need (p_labels p) of
                Inl err \<Rightarrow> (s, Some err)
              | Inr labels \<Rightarrow>
                 let s1 = s\<lparr>chartWeek := (chartWeek s)\<lparr>ch_labels := map (slice_from 5) labels\<rparr>\<rparr>
                 in case need (p_pass p) of
                      Inl err \<Rightarrow> (s1, Some err)
                    | Inr pass \<Rightarrow>
                       let s2 = s1\<lparr>chartWeek := (chartWeek s1)\<lparr>ch_pass := map count_of pass\<rparr>\<rparr>
                       in case need (p_fail p) of
                            Inl err \<Rightarrow> (s2, Some err)
                          | Inr fail \<Rightarrow>
                              (s2\<lparr>chartWeek := (chartWeek s2)\<lparr>ch_fail := map count_of fail\<rparr>,
                                  weekLabel := (case p_range p of None \<Rightarrow> [] | Some t \<Rightarrow> t)\<rparr>,
                               None))))"

definition loadWeek_then :: "js_error + json \<Rightarrow> ui \<Rightarrow> ui" where
  "loadWeek_then r s =
     (case loadWeek_try r s of
        (s', None) \<Rightarrow> s'
      | (s', Some err) \<Rightarrow>
          s'\<lparr>console := console s' @ [Err (ascii ''loadWeek'') err], weekLabel := loi\<rparr>)"

definition loadWeek :: "env \<Rightarrow> jsstr \<Rightarrow> jsstr \<Rightarrow> jsstr \<Rightarrow> ui \<Rightarrow> ui" where
  "loadWeek e y m w s = loadWeek_then (fetchJSON e (week_url e s y m w)) s"

text \<open>
  \<^verbatim>\<open>
  const j = await fetchJSON(`${API}/data/month/${y}/${m}${deviceParam}`);
  charts.month.data.labels = j.labels;
  charts.month.data.datasets[0].data = j.pass.map(v=>Number(v||0));
  charts.month.data.datasets[1].data = j.fail.map(v=>Number(v||0));
  const rate = j.labels.map((_,i)=>{ ... });
  charts.month.data.datasets[2].data = rate;
  charts.month.update('none');
  $('monthLabel').innerText = j.month || '';
  } catch(err){ console.error('loadMonth', err); $('monthLabel').innerText = 'L..i'; }\<close>
  Labels that are absent are assigned as they are (the chart then has none) and make
  \<^verbatim>\<open>j.labels.map\<close> throw further down.
\<close>

definition month_url :: "env \<Rightarrow> ui \<Rightarrow> jsstr \<Rightarrow> jsstr \<Rightarrow> jsstr" where
  "month_url e s y m = env_api e @ ascii ''/data/month/'' @ y @ ascii ''/'' @ m @ deviceParam s"

definition loadMonth_try :: "js_error + json \<Rightarrow> ui \<Rightarrow> ui \<times> js_error option" where
  "loadMonth_try r s =
     (case r of
        Inl err \<Rightarrow> (s, Some err)
      | Inr j \<Rightarrow>
         (case j_payload j of
            Inl err \<Rightarrow> (s, Some err)
          | Inr p \<Rightarrow>
             let s1 = s\<lparr>chartMonth := (chartMonth s)\<lparr>ch_labels :=
                          (case p_labels p of None \<Rightarrow> [] | Some ls \<Rightarrow> ls)\<rparr>\<rparr>
             in case need (p_pass p) of
                  Inl err \<Rightarrow> (s1, Some err)
                | Inr pass \<Rightarrow>
                   let s2 = s1\<lparr>chartMonth := (chartMonth s1)\<lparr>ch_pass := map count_of pass\<rparr>\<rparr>
                   in case need (p_fail p) of
                        Inl err \<Rightarrow> (s2, Some err)
                      | Inr fail \<Rightarrow>
                         let s3 = s2\<lparr>chartMonth := (chartMonth s2)\<lparr>ch_fail := map count_of fail\<rparr>\<rparr>
                         in case need (p_labels p) of
                              Inl err \<Rightarrow> (s3, Some err)
                            | Inr labels \<Rightarrow>
                                (s3\<lparr>chartMonth := (chartMonth s3)
                                       \<lparr>ch_rate := loadMonth_rate labels pass fail\<rparr>,
                                    monthLabel := (case p_month p of None \<Rightarrow> [] | Some t \<Rightarrow> t)\<rparr>,
                                 None)))"

definition loadMonth_then :: "js_error + json \<Rightarrow> ui \<Rightarrow> ui" where
  "loadMonth_then r s =
     (case loadMonth_try r s of
        (s', None) \<Rightarrow> s'
      | (s', Some err) \<Rightarrow>
          s'\<lparr>console := console s' @ [Err (ascii ''loadMonth'') err], monthLabel := loi\<rparr>)"

definition loadMonth :: "env \<Rightarrow> jsstr \<Rightarrow> jsstr \<Rightarrow> ui \<Rightarrow> ui" where
  "loadMonth e y m s = loadMonth_then (fetchJSON e (month_url e s y m)) s"

text \<open>
  \<^verbatim>\<open>loadYear\<close> reads the same properties in the same order (labels, pass, fail, rate);
  the year chart is created with its three datasets, so the rate goes to the third. The
  label of the view becomes \<^verbatim>\<open>String(y)\<close>.
\<close>

definition year_url :: "env \<Rightarrow> ui \<Rightarrow> jsstr \<Rightarrow> jsstr" where
  "year_url e s y = env_api e @ ascii ''/data/year/'' @ y @ deviceParam s"

definition loadYear_try :: "jsstr \<Rightarrow> js_error + json \<Rightarrow> ui \<Rightarrow> ui \<times> js_error option" where
  "loadYear_try y r s =
     (case r of
        Inl err \<Rightarrow> (s, Some err)
      | Inr j \<Rightarrow>
         (case j_payload j of
            Inl err \<Rightarrow> (s, Some err)
          | Inr p \<Rightarrow>
             let s1 = s\<lparr>chartYear := (chartYear s)\<lparr>ch_labels :=
                          (case p_labels p of None \<Rightarrow> [] | Some ls \<Rightarrow> ls)\<rparr>\<rparr>
             in case need (p_pass p) of
                  Inl err \<Rightarrow> (s1, Some err)
                | Inr pass \<Rightarrow>
                   (case need (p_fail p) of
                      Inl err \<Rightarrow> (s1, Some err)
                    | Inr fail \<Rightarrow>
                       let s2 = s1\<lparr>chartYear := (chartYear s1)\<lparr>ch_pass := map count_of pass,
                                                                ch_fail := map count_of fail\<rparr>\<rparr>
                       in case need (p_labels p) of
                            Inl err \<Rightarrow> (s2, Some err)
                          | Inr labels \<Rightarrow>
                              (s2\<lparr>chartYear := (chartYear s2)
                                     \<lparr>ch_rate := loadYear_rate labels pass fail\<rparr>,
                                  yearLabel := y\<rparr>,
                               None))))"

definition loadYear_then :: "jsstr \<Rightarrow> js_error + json \<Rightarrow> ui \<Rightarrow> ui" where
  "loadYear_then y r s =
     (case loadYear_try y r s of
        (s', None) \<Rightarrow> s'
      | (s', Some err) \<Rightarrow>
          s'\<lparr>console := console s' @ [Err (ascii ''loadYear'') err], yearLabel := loi\<rparr>)"

definition loadYear :: "env \<Rightarrow> jsstr \<Rightarrow> ui \<Rightarrow> ui" where
  "loadYear e y s = loadYear_then y (fetchJSON e (year_url e s y)) s"


subsection \<open>The selectors\<close>

text \<open>
  \<^verbatim>\<open>parseInt\<close> on the value of a selector or on a run of digits a regular expression
  captured: the number its leading digits denote, \<^verbatim>\<open>NaN\<close> without a leading digit.
  (Leading blanks, signs and radix prefixes do not occur in these strings.)
\<close>

definition parseInt :: "jsstr \<Rightarrow> jsnum" where
  "parseInt s = (let ds = takeWhile is_digit s in if ds = [] then NaN else Fin (digits_val ds))"

text \<open>
  \<^verbatim>\<open>
  function buildWeekIndex(){
    const y = parseInt($('weekYear').value), m = parseInt($('weekMonth').value);
    const days = new Date(y,m,0).getDate();
    let start=1, idx=1, html='';
    while(start<=days){ ... }
    $('weekIndex').innerHTML = html;
  }\<close>
  With \<^verbatim>\<open>NaN\<close> for the year or the month, \<^verbatim>\<open>days\<close> is \<^verbatim>\<open>NaN\<close> and the loop writes nothing.
\<close>

definition weekIndex_options :: "jsnum \<Rightarrow> jsnum \<Rightarrow> jsstr list" where
  "weekIndex_options y m =
     (case y of
        NaN \<Rightarrow> []
      | Fin y' \<Rightarrow>
          (case m of
             NaN \<Rightarrow> []
           | Fin m' \<Rightarrow> map (\<lambda>b. case b of (idx, start, end') \<Rightarrow> String_int idx)
                          (buildWeekIndex_loop (daysInMonth y' m') 1 1)))"

definition buildWeekIndex :: "ui \<Rightarrow> ui" where
  "buildWeekIndex s =
     (let y = parseInt (sel_value (weekYear s)); m = parseInt (sel_value (weekMonth s))
      in s\<lparr>weekIndex := set_options (weekIndex_options y m)\<rparr>)"

text \<open>
  \<^verbatim>\<open>populateSelects\<close>: the years from two before to one after the current one, the
  current one selected; the months 1 to 12, the current one selected; then
  \<^verbatim>\<open>buildWeekIndex\<close>. \<open>now\<close> is the time of the call.
\<close>

definition populateSelects :: "int \<Rightarrow> int \<Rightarrow> ui \<Rightarrow> ui" where
  "populateSelects tz now s =
     (let THIS_YEAR = getFullYear tz now;
          yo = set_value (String_int THIS_YEAR) (set_options (map String_int [THIS_YEAR - 2..THIS_YEAR + 1]));
          mo = set_value (String_int (getMonth tz now + 1)) (set_options (map String_int [1..12]))
      in buildWeekIndex (s\<lparr>weekYear := yo, monthYear := yo, yearSelect := yo,
                            weekMonth := mo, monthSelect := mo\<rparr>))"

text \<open>
  \<^verbatim>\<open>
  function syncSelectionsFromDate(dateStr){
    const d = new Date(dateStr);
    if(isNaN(d)) return;
    const yyyy = d.getFullYear(), mm = d.getMonth()+1, dd = d.getDate();
    $('dayInput').value = dateStr;
    $('weekYear').value = String(yyyy); $('monthYear').value = String(yyyy); $('yearSelect').value = String(yyyy);
    $('weekMonth').value = String(mm); $('monthSelect').value = String(mm);
    buildWeekIndex();
    const wk = Math.floor((dd-1)/7)+1;
    $('weekIndex').value = String(wk);
  }\<close>
\<close>

definition syncSelectionsFromDate :: "int \<Rightarrow> jsstr \<Rightarrow> ui \<Rightarrow> ui" where
  "syncSelectionsFromDate tz dateStr s =
     (case new_Date dateStr of
        None \<Rightarrow> s
      | Some d \<Rightarrow>
          let yyyy = getFullYear tz d; mm = getMonth tz d + 1; dd = getDate tz d;
              s1 = s\<lparr>dayInput := dateStr,
                     weekYear := set_value (String_int yyyy) (weekYear s),
                     monthYear := set_value (String_int yyyy) (monthYear s),
                     yearSelect := set_value (String_int yyyy) (yearSelect s),
                     weekMonth := set_value (String_int mm) (weekMonth s),
                     monthSelect := set_value (String_int mm) (monthSelect s)\<rparr>;
              s2 = buildWeekIndex s1;
              wk = weekIdx dd
          in s2\<lparr>weekIndex := set_value (String_int wk) (weekIndex s2)\<rparr>)"

text \<open>
  The user picks an option of a selector; \<^verbatim>\<open>bindUI\<close> makes \<^verbatim>\<open>buildWeekIndex\<close> the
  \<^verbatim>\<open>onchange\<close> handler of the week view's year and month.
\<close>

definition weekYear_onchange :: "jsstr \<Rightarrow> ui \<Rightarrow> ui" where
  "weekYear_onchange v s = buildWeekIndex (s\<lparr>weekYear := set_value v (weekYear s)\<rparr>)"

definition weekMonth_onchange :: "jsstr \<Rightarrow> ui \<Rightarrow> ui" where
  "weekMonth_onchange v s = buildWeekIndex (s\<lparr>weekMonth := set_value v (weekMonth s)\<rparr>)"

definition weekIndex_pick :: "jsstr \<Rightarrow> ui \<Rightarrow> ui" where
  "weekIndex_pick v s = s\<lparr>weekIndex := set_value v (weekIndex s)\<rparr>"

subsection \<open>Drill-down: \<^verbatim>\<open>attachInteractions\<close>\<close>

text \<open>
  The labels are searched with \<^verbatim>\<open>/Tu\<close>\<open>\<dots>\<close>\<^verbatim>\<open>n\s*(\d+)/i\<close> and
  \<^verbatim>\<open>/Th\<close>\<open>\<dots>\<close>\<^verbatim>\<open>ng\s*(\d+)/i\<close>: the word in either case of each letter, any white space,
  and a run of digits that is captured. A pattern is the list of its letters, each with
  the code units it matches without regard to case (U+1EA7 and U+1EA6, U+00E1 and
  U+00C1). \<^verbatim>\<open>\s*\<close> and \<^verbatim>\<open>\d+\<close> are greedy, and taking less white space never
  helps, so the match at a position is decided in one pass; the search takes the first
  position with a match.
\<close>

definition is_space :: "int \<Rightarrow> bool" where
  "is_space c =
     (c = 9 \<or> c = 10 \<or> c = 11 \<or> c = 12 \<or> c = 13 \<or> c = 32 \<or> c = 160 \<or> c = 5760
      \<or> (8192 \<le> c \<and> c \<le> 8202) \<or> c = 8232 \<or> c = 8233 \<or> c = 8239 \<or> c = 8287
      \<or> c = 12288 \<or> c = 65279)"

definition tuan :: "int list list" where
  "tuan = [[84, 116], [117, 85], [7847, 7846], [110, 78]]"

definition thang :: "int list list" where
  "thang = [[84, 116], [104, 72], [225, 193], [110, 78], [103, 71]]"

fun match_word :: "int list list \<Rightarrow> jsstr \<Rightarrow> jsstr option" where
  "match_word [] s = Some s"
| "match_word (cs # pat) [] = None"
| "match_word (cs # pat) (c # s) = (if c \<in> set cs then match_word pat s else None)"

definition match_here :: "int list list \<Rightarrow> jsstr \<Rightarrow> jsstr option" where
  "match_here pat s =
     (case match_word pat s of
        None \<Rightarrow> None
      | Some rest \<Rightarrow>
          let ds = takeWhile is_digit (dropWhile is_space rest)
          in if ds = [] then None else Some ds)"

fun find_match :: "int list list \<Rightarrow> jsstr \<Rightarrow> jsstr option" where
  "find_match pat [] = match_here pat []"
| "find_match pat (c # s) =
     (case match_here pat (c # s) of Some ds \<Rightarrow> Some ds | None \<Rightarrow> find_match pat s)"

text \<open>
  The handlers get the index of the chart element under the pointer from the chart
  library, \<open>None\<close> when there is none. An index without a label reads \<^verbatim>\<open>undefined\<close>,
  which no pattern matches.
  \<^verbatim>\<open>
  $('chartWeek').onclick = (evt)=>{
    ...
      const idx = items[0].index; const label = charts.week.data.labels[idx];
      if(/^\d{4}-\d{2}-\d{2}$/.test(label)) { syncSelectionsFromDate(label); loadDay(label); }
      else {
        if(charts.week.data.labelsFull && charts.week.data.labelsFull[idx]) { ... }
      }\<close>
  Nothing in the script ever assigns \<^verbatim>\<open>labelsFull\<close>, so the inner branch is dead.
\<close>

definition chartWeek_onclick :: "env \<Rightarrow> nat option \<Rightarrow> ui \<Rightarrow> ui" where
  "chartWeek_onclick e hit s =
     (case hit of
        None \<Rightarrow> s
      | Some idx \<Rightarrow>
          if idx < length (ch_labels (chartWeek s))
          then (let label = ch_labels (chartWeek s) ! idx
                in if is_day_format label
                   then loadDay e label (syncSelectionsFromDate (env_tz e) label s)
                   else s)
          else s)"

text \<open>
  \<^verbatim>\<open>
  $('chartMonth').onclick = (evt)=>{
    ...
      const idx = items[0].index; const label = charts.month.data.labels[idx];
      const match = label && label.match(/Tu..n\s*(\d+)/i);
      if(match){ const wk = parseInt(match[1]);
        loadWeek($('weekYear').value, $('weekMonth').value, wk);
        $('weekIndex').value = String(wk); }\<close>
  \<^verbatim>\<open>loadWeek\<close> sends its request at once and writes the chart when the answer is there,
  after the handler has written the selector.
\<close>

definition chartMonth_onclick :: "env \<Rightarrow> nat option \<Rightarrow> ui \<Rightarrow> ui" where
  "chartMonth_onclick e hit s =
     (case hit of
        None \<Rightarrow> s
      | Some idx \<Rightarrow>
          if idx < length (ch_labels (chartMonth s))
          then (let label = ch_labels (chartMonth s) ! idx
                in case (if label = [] then None else find_match tuan label) of
                     None \<Rightarrow> s
                   | Some ds \<Rightarrow>
                       let wk = parseInt ds
                       in loadWeek e (sel_value (weekYear s)) (sel_value (weekMonth s)) (String_num wk)
                            (s\<lparr>weekIndex := set_value (String_num wk) (weekIndex s)\<rparr>))
          else s)"

text \<open>
  \<^verbatim>\<open>
  $('chartYear').onclick = (evt)=>{
    ...
      const idx = items[0].index; const label = charts.year.data.labels[idx];
      const match = label && label.match(/Th..ng\s*(\d+)/i);
      if(match){ const mon = parseInt(match[1]); $('monthSelect').value = String(mon);
        buildWeekIndex(); loadMonth($('monthYear').value, mon); }\<close>
\<close>

definition chartYear_onclick :: "env \<Rightarrow> nat option \<Rightarrow> ui \<Rightarrow> ui" where
  "chartYear_onclick e hit s =
     (case hit of
        None \<Rightarrow> s
      | Some idx \<Rightarrow>
          if idx < length (ch_labels (chartYear s))
          then (let label = ch_labels (chartYear s) ! idx
                in case (if label = [] then None else find_match thang label) of
                     None \<Rightarrow> s
                   | Some ds \<Rightarrow>
                       let mon = parseInt ds;
                           s1 = buildWeekIndex (s\<lparr>monthSelect := set_value (String_num mon) (monthSelect s)\<rparr>)
                       in loadMonth e (sel_value (monthYear s1)) (String_num mon) s1)
          else s)"

subsection \<open>\<^verbatim>\<open>start\<close>\<close>

text \<open>
  The page as \<^verbatim>\<open>createCharts\<close> and the document leave it: empty charts, empty labels,
  device filter \<^verbatim>\<open>'all'\<close>.
\<close>

definition empty_chart :: chart where
  "empty_chart = \<lparr>ch_labels = [], ch_pass = [], ch_fail = [], ch_rate = []\<rparr>"

definition initial_ui :: ui where
  "initial_ui =
     \<lparr>chartDay = empty_chart, chartWeek = empty_chart, chartMonth = empty_chart,
      chartYear = empty_chart, weekLabel = [], monthLabel = [], yearLabel = [],
      logSummary = ([], Fin 0, Fin 0), logTable = [], dayInput = [],
      weekYear = set_options [], monthYear = set_options [], yearSelect = set_options [],
      weekMonth = set_options [], monthSelect = set_options [], weekIndex = set_options [],
      selectedDevice = ascii ''all'', console = [], alerts = []\<rparr>"

text \<open>
  \<^verbatim>\<open>
  const today = new Date().toISOString().slice(0,10);
  $('dayInput').value = today;
  syncSelectionsFromDate(today);
  await fetchDevices();
  await loadDay(today);
  await loadWeek($('weekYear').value, $('weekMonth').value, $('weekIndex').value);
  await loadMonth($('monthYear').value, $('monthSelect').value);
  await loadYear($('yearSelect').value);\<close>
  The device list is outside the model. \<open>start_selection\<close> is the page when the
  four pipelines begin.
\<close>

definition start_selection :: "env \<Rightarrow> int \<Rightarrow> ui" where
  "start_selection e now =
     (let s0 = populateSelects (env_tz e) now initial_ui;
          today = toISODate now
      in syncSelectionsFromDate (env_tz e) today (s0\<lparr>dayInput := today\<rparr>))"

definition start :: "env \<Rightarrow> int \<Rightarrow> ui" where
  "start e now =
     (let today = toISODate now;
          s1 = start_selection e now;
          s2 = loadDay e today s1;
          s3 = loadWeek e (sel_value (weekYear s2)) (sel_value (weekMonth s2)) (sel_value (weekIndex s2)) s2;
          s4 = loadMonth e (sel_value (monthYear s3)) (sel_value (monthSelect s3)) s3
      in loadYear e (sel_value (yearSelect s4)) s4)"

subsection \<open>Requests in flight\<close>

text \<open>
  \<^verbatim>\<open>loadWeek\<close> returns to its caller at the \<^verbatim>\<open>await\<close>; the rest of it runs when the
  answer arrives, whatever has happened to the page in between. A run that has been
  called and not yet answered is pending; an answer for a pending run lets the rest of
  that run work on the page as it is then. Runs carry a number here only so that the
  answers can be told apart: the script itself keeps no mark of which run is which.
\<close>

datatype event = Call_loadWeek nat jsstr jsstr jsstr | Answer nat fetched

record app =
  app_ui :: ui
  app_pending :: "(nat \<times> jsstr \<times> jsstr \<times> jsstr) list"

fun step :: "app \<Rightarrow> event \<Rightarrow> app" where
  "step a (Call_loadWeek k y m w) = a\<lparr>app_pending := app_pending a @ [(k, y, m, w)]\<rparr>"
| "step a (Answer k r) =
     (if k \<in> set (map fst (app_pending a))
      then a\<lparr>app_ui := loadWeek_then (fetchJSON_of r) (app_ui a),
             app_pending := filter (\<lambda>p. fst p \<noteq> k) (app_pending a)\<rparr>
      else a)"

definition run :: "app \<Rightarrow> event list \<Rightarrow> app" where
  "run a evs = foldl step a evs"


subsection \<open>What a day contributes to the grouped bars\<close>

text \<open>
  For the statements about the grouped bar chart: the counts of an element of a
  \<^verbatim>\<open>/logs/day\<close> array, and the total of a day as its request settled: nothing for a
  request that failed or a body that is not an array, the sum over the devices otherwise.
\<close>

fun item_pass :: "logitem \<Rightarrow> jsval" where
  "item_pass (Stat p f) = p"
| "item_pass NullItem = JUndefined"

fun item_fail :: "logitem \<Rightarrow> jsval" where
  "item_fail (Stat p f) = f"
| "item_fail NullItem = JUndefined"

fun json_total :: "(logitem \<Rightarrow> jsval) \<Rightarrow> json \<Rightarrow> jsnum" where
  "json_total sel (JsonArray items) = Fin (sum_list (map (\<lambda>item. entry_int (sel item)) items))"
| "json_total sel j = Fin 0"

definition day_total :: "(logitem \<Rightarrow> jsval) \<Rightarrow> js_error + json \<Rightarrow> jsnum" where
  "day_total sel r = (case r of Inl err \<Rightarrow> Fin 0 | Inr j \<Rightarrow> json_total sel j)"

text \<open>No element of any array the service sends for a day of the week is \<^verbatim>\<open>null\<close>.\<close>

definition no_null_items :: "env \<Rightarrow> ui \<Rightarrow> jsstr list \<Rightarrow> bool" where
  "no_null_items e s weekDates =
     list_all (\<lambda>dt. case fetchJSON e (logs_url e s dt) of
                       Inr (JsonArray items) \<Rightarrow> NullItem \<notin> set items
                     | _ \<Rightarrow> True) weekDates"

subsection \<open>A service for the examples\<close>

text \<open>
  The week of 2024-01-10 as the scenario of the specification has it: the requests for
  the days from Monday 8 to Sunday 14 January are answered with the per-device counts
  below, except Wednesday's, which fails with status 500. The browser is seven hours
  east of Greenwich.
\<close>

definition ok_response :: "json \<Rightarrow> fetched" where
  "ok_response j = Responded \<lparr>status = 200, statusText = ascii ''OK'', body_text = [],
                               body_json = Some j\<rparr>"

definition failed_response :: fetched where
  "failed_response = Responded \<lparr>status = 500, statusText = ascii ''Internal Server Error'',
                                 body_text = ascii ''boom'', body_json = None\<rparr>"

definition example_fetch :: "jsstr \<Rightarrow> fetched" where
  "example_fetch url =
     (if url = ascii ''http://host/logs/day/2024-01-08'' then ok_response (JsonArray [Stat (JNum 5) (JNum 1)])
      else if url = ascii ''http://host/logs/day/2024-01-09''
        then ok_response (JsonArray [Stat (JNum 4) (JNum 2), Stat (JNum 6) (JNum 0)])
      else if url = ascii ''http://host/logs/day/2024-01-10'' then failed_response
      else if url = ascii ''http://host/logs/day/2024-01-11'' then ok_response (JsonArray [Stat (JNum 3) JNull])
      else if url = ascii ''http://host/logs/day/2024-01-12'' then ok_response (JsonArray [Stat (JNum 8) (JNum 1)])
      else if url = ascii ''http://host/logs/day/2024-01-13'' then ok_response (JsonArray [Stat (JNum 2) JUndefined])
      else if url = ascii ''http://host/logs/day/2024-01-14'' then ok_response (JsonArray [Stat (JNum 1) (JNum 0)])
      else failed_response)"

definition example_env :: env where
  "example_env = \<lparr>env_api = ascii ''http://host'', env_tz = 420, env_fetch = example_fetch\<rparr>"

subsection \<open>The buttons and the user's actions\<close>

text \<open>
  \<^verbatim>\<open>
  $('btnLoadDay').onclick = ()=> { const d = $('dayInput').value; if(!d) return alert('Ch..n ng..y');
                                   syncSelectionsFromDate(d); loadDay(d); };
  $('btnLoadWeek').onclick = ()=> loadWeek($('weekYear').value, $('weekMonth').value, $('weekIndex').value);
  $('btnLoadMonth').onclick = ()=> loadMonth($('monthYear').value, $('monthSelect').value);
  $('btnLoadYear').onclick = ()=> loadYear($('yearSelect').value);\<close>
  and, in the calendar, \<^verbatim>\<open>btn.onclick = ()=>{ $('dayInput').value = iso; loadDay(iso); ... }\<close>.
\<close>

definition chon_ngay :: jsstr where
  "chon_ngay = [67, 104, 7885, 110, 32, 110, 103, 224, 121]"

definition btnLoadDay_onclick :: "env \<Rightarrow> ui \<Rightarrow> ui" where
  "btnLoadDay_onclick e s =
     (let d = dayInput s
      in if d = [] then s\<lparr>alerts := alerts s @ [chon_ngay]\<rparr>
         else loadDay e d (syncSelectionsFromDate (env_tz e) d s))"

definition btnLoadWeek_onclick :: "env \<Rightarrow> ui \<Rightarrow> ui" where
  "btnLoadWeek_onclick e s =
     loadWeek e (sel_value (weekYear s)) (sel_value (weekMonth s)) (sel_value (weekIndex s)) s"

definition btnLoadMonth_onclick :: "env \<Rightarrow> ui \<Rightarrow> ui" where
  "btnLoadMonth_onclick e s = loadMonth e (sel_value (monthYear s)) (sel_value (monthSelect s)) s"

definition btnLoadYear_onclick :: "env \<Rightarrow> ui \<Rightarrow> ui" where
  "btnLoadYear_onclick e s = loadYear e (sel_value (yearSelect s)) s"

definition calendar_onclick :: "env \<Rightarrow> jsstr \<Rightarrow> ui \<Rightarrow> ui" where
  "calendar_onclick e dt s = loadDay e dt (s\<lparr>dayInput := dt\<rparr>)"

text \<open>
  What the user can do to the period selection, and what the page does in answer. (The
  device filter and the switch between the four views do not touch the selectors.)
\<close>

datatype action =
    Pick_weekYear jsstr | Pick_weekMonth jsstr | Pick_weekIndex jsstr
  | Pick_monthYear jsstr | Pick_monthSelect jsstr | Pick_yearSelect jsstr
  | Type_dayInput jsstr | Pick_calendar jsstr
  | Click_btnLoadDay | Click_btnLoadWeek | Click_btnLoadMonth | Click_btnLoadYear
  | Click_chartWeek "nat option" | Click_chartMonth "nat option" | Click_chartYear "nat option"

fun perform :: "env \<Rightarrow> ui \<Rightarrow> action \<Rightarrow> ui" where
  "perform e s (Pick_weekYear v) = weekYear_onchange v s"
| "perform e s (Pick_weekMonth v) = weekMonth_onchange v s"
| "perform e s (Pick_weekIndex v) = weekIndex_pick v s"
| "perform e s (Pick_monthYear v) = s\<lparr>monthYear := set_value v (monthYear s)\<rparr>"
| "perform e s (Pick_monthSelect v) = s\<lparr>monthSelect := set_value v (monthSelect s)\<rparr>"
| "perform e s (Pick_yearSelect v) = s\<lparr>yearSelect := set_value v (yearSelect s)\<rparr>"
| "perform e s (Type_dayInput v) = s\<lparr>dayInput := v\<rparr>"
| "perform e s (Pick_calendar dt) = calendar_onclick e dt s"
| "perform e s Click_btnLoadDay = btnLoadDay_onclick e s"
| "perform e s Click_btnLoadWeek = btnLoadWeek_onclick e s"
| "perform e s Click_btnLoadMonth = btnLoadMonth_onclick e s"
| "perform e s Click_btnLoadYear = btnLoadYear_onclick e s"
| "perform e s (Click_chartWeek hit) = chartWeek_onclick e hit s"
| "perform e s (Click_chartMonth hit) = chartMonth_onclick e hit s"
| "perform e s (Click_chartYear hit) = chartYear_onclick e hit s"

text \<open>
  The state of the week-index selector that the operations keep: its options are the
  blocks of the month in the week view's year and month selectors, and its value is one
  of them, or empty when none is selected.
\<close>

definition weekIndex_consistent :: "ui \<Rightarrow> bool" where
  "weekIndex_consistent s =
     (sel_options (weekIndex s) =
        weekIndex_options (parseInt (sel_value (weekYear s))) (parseInt (sel_value (weekMonth s)))
      \<and> (sel_value (weekIndex s) = [] \<or> sel_value (weekIndex s) \<in> set (sel_options (weekIndex s))))"

text \<open>The selectors, the date field, the device filter and the dialogs of two pages agree.\<close>

definition same_controls :: "ui \<Rightarrow> ui \<Rightarrow> bool" where
  "same_controls s s' =
     (weekYear s' = weekYear s \<and> weekMonth s' = weekMonth s \<and> weekIndex s' = weekIndex s
      \<and> monthYear s' = monthYear s \<and> monthSelect s' = monthSelect s \<and> yearSelect s' = yearSelect s
      \<and> dayInput s' = dayInput s \<and> selectedDevice s' = selectedDevice s \<and> alerts s' = alerts s)"

subsection \<open>Two answers that arrive in the other order\<close>

text \<open>
  The week view is asked for week 1 and then for week 2 of January 2024; the answer for
  week 2 arrives first.
\<close>

definition week_A :: json where
  "week_A = JsonObject \<lparr>p_labels = Some [ascii ''2024-01-01''], p_pass = Some [JNum 1],
                        p_fail = Some [JNum 0], p_range = Some (ascii ''A''), p_month = None\<rparr>"

definition week_B :: json where
  "week_B = JsonObject \<lparr>p_labels = Some [ascii ''2024-01-08''], p_pass = Some [JNum 7],
                        p_fail = Some [JNum 2], p_range = Some (ascii ''B''), p_month = None\<rparr>"

definition race :: "event list" where
  "race = [Call_loadWeek 1 (ascii ''2024'') (ascii ''1'') (ascii ''1''),
           Call_loadWeek 2 (ascii ''2024'') (ascii ''1'') (ascii ''2''),
           Answer 2 (ok_response week_B)]"

subsection \<open>A page to click on\<close>

text \<open>
  The page of 10 January 2024, 07:00 local time, seven hours east of Greenwich, with two
  labels in each of the three charts that react to a click.
\<close>

definition drill_page :: ui where
  "drill_page =
     (populateSelects 420 1704844800000 initial_ui)
       \<lparr>chartWeek := empty_chart\<lparr>ch_labels := [ascii ''2024-01-10'', ascii ''01-11'']\<rparr>,
        chartMonth := empty_chart\<lparr>ch_labels := [[84, 117, 7847, 110, 32, 51], ascii ''2024-01'']\<rparr>,
        chartYear := empty_chart\<lparr>ch_labels := [[84, 104, 225, 110, 103, 32, 55], ascii ''2024'']\<rparr>\<rparr>"

subsection \<open>The week of 10 January 2024\<close>

text \<open>
  The service of the examples, answering also the hourly request for 10 January 2024,
  the device statistics of Monday 15 January, the week request for the second block of
  January 2024 and the year request for 2022.
\<close>

definition hourly_jan10 :: payload where
  "hourly_jan10 = \<lparr>p_labels = None, p_pass = Some [JNum 1, JNum 2], p_fail = Some [JNum 0, JNum 1],
                    p_range = None, p_month = None\<rparr>"

definition week2_jan :: payload where
  "week2_jan =
     \<lparr>p_labels = Some (map ascii [''2024-01-08'', ''2024-01-09'', ''2024-01-10'', ''2024-01-11'',
                                  ''2024-01-12'', ''2024-01-13'', ''2024-01-14'']),
      p_pass = Some (map JNum [5, 10, 0, 3, 8, 2, 1]),
      p_fail = Some (map JNum [1, 2, 0, 0, 1, 0, 0]),
      p_range = Some (ascii ''08/01 - 14/01''), p_month = None\<rparr>"

definition year_2022 :: payload where
  "year_2022 =
     \<lparr>p_labels = Some (map (\<lambda>m. [84, 104, 225, 110, 103, 32] @ String_int m) [1..12]),
      p_pass = Some (map JNum [30, 28, 31, 30, 31, 30, 31, 31, 30, 31, 30, 31]),
      p_fail = Some (map JNum [1, 0, 2, 0, 1, 0, 3, 0, 1, 0, 2, 0]),
      p_range = None, p_month = None\<rparr>"

definition week_fetch :: "jsstr \<Rightarrow> fetched" where
  "week_fetch url =
     (if url = ascii ''http://host/data/day/2024-01-10'' then ok_response (JsonObject hourly_jan10)
      else if url = ascii ''http://host/logs/day/2024-01-15''
        then ok_response (JsonArray [Stat (JNum 4) (JNum 1)])
      else if url = ascii ''http://host/data/week/2024/1/2'' then ok_response (JsonObject week2_jan)
      else if url = ascii ''http://host/data/year/2022'' then ok_response (JsonObject year_2022)
      else example_fetch url)"

text \<open>The browser five hours west and seven hours east of Greenwich.\<close>

definition west_env :: env where
  "west_env = \<lparr>env_api = ascii ''http://host'', env_tz = - 300, env_fetch = week_fetch\<rparr>"

definition east_env :: env where
  "east_env = \<lparr>env_api = ascii ''http://host'', env_tz = 420, env_fetch = week_fetch\<rparr>"

text \<open>
  The page after \<^verbatim>\<open>start\<close> on 10 January 2024, seven hours east of Greenwich, and the
  same page after the user has chosen 2022 in the year view and pressed its button.
\<close>

definition started :: ui where
  "started = start east_env 1704844800000"

definition year_2022_shown :: ui where
  "year_2022_shown = perform east_env (perform east_env started (Pick_yearSelect (ascii ''2022''))) Click_btnLoadYear"

subsection \<open>Entries of any kind\<close>

text \<open>
  JSON allows any value as an entry of an array: a boolean, a string, an object. The
  script applies two operations to an entry \<^verbatim>\<open>v\<close>: \<^verbatim>\<open>v || 0\<close>, which asks whether \<^verbatim>\<open>v\<close> is
  truthy, and \<^verbatim>\<open>Number\<close>. A value of any kind is modelled by what the two give for it,
  \<open>Any truthy number\<close> (the number an integer or \<^verbatim>\<open>NaN\<close>, as above):
  \<^verbatim>\<open>undefined\<close> is \<open>Any False NaN\<close>; \<^verbatim>\<open>null\<close>, \<^verbatim>\<open>false\<close> and \<^verbatim>\<open>''\<close> are
  \<open>Any False (Fin 0)\<close>; \<^verbatim>\<open>true\<close> is \<open>Any True (Fin 1)\<close>; a number \<open>n\<close> is
  \<open>Any (n \<noteq> 0) (Fin n)\<close>; a string of decimal digits is truthy and its number is their
  value; a string such as \<^verbatim>\<open>'abc'\<close> and an object such as \<^verbatim>\<open>{}\<close> are \<open>Any True NaN\<close>.
\<close>

datatype anyval = Any bool jsnum





definition js_false :: anyval where
  "js_false = Any False (Fin 0)"







section \<open>Properties\<close>

subsection \<open>Week blocks\<close>





lemma month_length_bounds: "28 \<le> month_length y m \<and> month_length y m \<le> 31"
  by (simp add: month_length_def)

lemma daysInMonth_bounds: "28 \<le> daysInMonth y m \<and> daysInMonth y m \<le> 31"
  by (simp add: daysInMonth_def Let_def month_length_bounds)





subsection \<open>Counts and running sums\<close>

lemma count_of_entry: "count_of v = Fin (entry_int v)"
  by (cases v) (simp_all add: count_of_def js_or_def)

lemma psum_take: "psum xs k = Fin (sum_list (map entry_int (take k xs)))"
proof (induction k)
  case 0
  show ?case by simp
next
  case (Suc k)
  show ?case
  proof (cases "k < length xs")
    case True
    then show ?thesis
      by (simp add: Suc count_of_entry at_index_def take_Suc_conv_app_nth)
  next
    case False
    then show ?thesis
      by (simp add: Suc count_of_entry at_index_def)
  qed
qed

lemma cum_fold:
  "foldl (cum_step pass fail) (Fin 0, Fin 0, [], []) [0..<n] =
     (psum pass n, psum fail n,
      map (\<lambda>k. psum pass (Suc k)) [0..<n], map (\<lambda>k. psum fail (Suc k)) [0..<n])"
  by (induction n) (simp_all add: cum_step_def Let_def)

lemma cumulative_eq:
  "loadDay_cumulative labels pass fail =
     (map (\<lambda>k. psum pass (Suc k)) [0..<length labels],
      map (\<lambda>k. psum fail (Suc k)) [0..<length labels])"
  by (simp add: loadDay_cumulative_def cum_fold)

lemma sum_js_fold:
  "foldl (\<lambda>a b. js_add a (num_or0 (Number_js b))) (Fin a) xs
     = Fin (a + sum_list (map entry_int xs))"
proof (induction xs arbitrary: a)
  case Nil
  show ?case by simp
next
  case (Cons x xs)
  show ?case by (cases x) (simp_all add: Cons)
qed

lemma sum_js_total: "sum_js (Some xs) = Fin (sum_list (map entry_int xs))"
  using sum_js_fold [of 0 xs] by (simp add: sum_js_def)

lemma sum_take_mono:
  assumes "\<forall>v\<in>set xs. 0 \<le> entry_int v" and "i \<le> j"
  shows "sum_list (map entry_int (take i xs)) \<le> sum_list (map entry_int (take j xs))"
proof -
  from assms(2) obtain d where j: "j = i + d" using le_Suc_ex by blast
  have "take j xs = take i xs @ take d (drop i xs)"
    by (simp add: j take_add)
  moreover have "0 \<le> sum_list (map entry_int (take d (drop i xs)))"
    using assms(1) by (intro sum_list_nonneg) (auto dest!: in_set_takeD in_set_dropD)
  ultimately show ?thesis by simp
qed

text \<open>
  \<^bold>\<open>C8.\<close> The cumulative series are the running sums of \<^verbatim>\<open>pass\<close> and \<^verbatim>\<open>fail\<close> in label
  order: one value per label, each the one before it (0 before the first) plus the
  count at its index. When no count is negative the series never decrease. When the
  payload has a label for every count, the last value is the sum of the whole array,
  which is also what the script's \<^verbatim>\<open>sum\<close> helper computes. A payload without labels gives
  two empty series. No value is ever \<^verbatim>\<open>NaN\<close>.
\<close>

theorem C8_cumulative_prefix_sums:
  "length (fst (loadDay_cumulative labels pass fail)) = length labels
   \<and> length (snd (loadDay_cumulative labels pass fail)) = length labels
   \<and> (\<forall>i. i < length labels \<longrightarrow>
         fst (loadDay_cumulative labels pass fail) ! i =
           js_add (if i = 0 then Fin 0 else fst (loadDay_cumulative labels pass fail) ! (i - 1))
                  (count_of (at_index pass i))
         \<and> snd (loadDay_cumulative labels pass fail) ! i =
           js_add (if i = 0 then Fin 0 else snd (loadDay_cumulative labels pass fail) ! (i - 1))
                  (count_of (at_index fail i)))
   \<and> ((\<forall>v\<in>set pass. 0 \<le> entry_int v) \<and> (\<forall>v\<in>set fail. 0 \<le> entry_int v) \<longrightarrow>
        (\<forall>i j. i \<le> j \<and> j < length labels \<longrightarrow>
           (\<exists>a b. fst (loadDay_cumulative labels pass fail) ! i = Fin a
                \<and> fst (loadDay_cumulative labels pass fail) ! j = Fin b \<and> a \<le> b)
           \<and> (\<exists>a b. snd (loadDay_cumulative labels pass fail) ! i = Fin a
                \<and> snd (loadDay_cumulative labels pass fail) ! j = Fin b \<and> a \<le> b)))
   \<and> (labels \<noteq> [] \<and> length pass \<le> length labels \<and> length fail \<le> length labels \<longrightarrow>
        last (fst (loadDay_cumulative labels pass fail)) = Fin (sum_list (map entry_int pass))
        \<and> last (fst (loadDay_cumulative labels pass fail)) = sum_js (Some pass)
        \<and> last (snd (loadDay_cumulative labels pass fail)) = Fin (sum_list (map entry_int fail))
        \<and> last (snd (loadDay_cumulative labels pass fail)) = sum_js (Some fail))
   \<and> loadDay_cumulative [] pass fail = ([], [])"
proof -
  let ?n = "length labels"
  have rec: "\<And>xs i. i < ?n \<Longrightarrow>
      map (\<lambda>k. psum xs (Suc k)) [0..<?n] ! i =
        js_add (if i = 0 then Fin 0 else map (\<lambda>k. psum xs (Suc k)) [0..<?n] ! (i - 1))
               (count_of (at_index xs i))"
  proof -
    fix xs :: "jsval list" and i
    assume i: "i < ?n"
    show "map (\<lambda>k. psum xs (Suc k)) [0..<?n] ! i =
        js_add (if i = 0 then Fin 0 else map (\<lambda>k. psum xs (Suc k)) [0..<?n] ! (i - 1))
               (count_of (at_index xs i))"
    proof (cases i)
      case 0
      with i show ?thesis by simp
    next
      case (Suc k)
      with i show ?thesis by simp
    qed
  qed
  have mono: "\<And>xs i j. \<forall>v\<in>set xs. 0 \<le> entry_int v \<Longrightarrow> i \<le> j \<Longrightarrow> j < ?n \<Longrightarrow>
      \<exists>a b. map (\<lambda>k. psum xs (Suc k)) [0..<?n] ! i = Fin a
           \<and> map (\<lambda>k. psum xs (Suc k)) [0..<?n] ! j = Fin b \<and> a \<le> b"
  proof -
    fix xs :: "jsval list" and i j
    assume nn: "\<forall>v\<in>set xs. 0 \<le> entry_int v" and ij: "i \<le> j" and j: "j < ?n"
    from ij have "Suc i \<le> Suc j" by simp
    from sum_take_mono [OF nn this] ij j
    show "\<exists>a b. map (\<lambda>k. psum xs (Suc k)) [0..<?n] ! i = Fin a
           \<and> map (\<lambda>k. psum xs (Suc k)) [0..<?n] ! j = Fin b \<and> a \<le> b"
      by (simp add: psum_take del: psum.simps take_Suc)
  qed
  have lst: "\<And>xs. labels \<noteq> [] \<Longrightarrow> length xs \<le> ?n \<Longrightarrow>
      last (map (\<lambda>k. psum xs (Suc k)) [0..<?n]) = Fin (sum_list (map entry_int xs))"
  proof -
    fix xs :: "jsval list"
    assume ne: "labels \<noteq> []" and le: "length xs \<le> ?n"
    from ne obtain k where k: "?n = Suc k" by (cases labels) auto
    with le show "last (map (\<lambda>k. psum xs (Suc k)) [0..<?n]) = Fin (sum_list (map entry_int xs))"
      by (simp add: psum_take del: psum.simps take_Suc)
  qed
  show ?thesis
    using rec mono lst
    by (simp add: cumulative_eq sum_js_total del: psum.simps)
qed

theorem C8_cumulative_witness:
  "(map entry_int [JNum 5, JNull, JNum 3] = [5, 0, 3] \<and> map entry_int [JNum 1, JNum 0] = [1, 0])
   \<and> (ascii ''2024-01-08'' # [ascii ''2024-01-09'', ascii ''2024-01-10''] \<noteq> []
       \<and> length [JNum 5, JNull, JNum 3] \<le> (3::nat) \<and> length [JNum 1, JNum 0] \<le> (3::nat))
   \<and> loadDay_cumulative [ascii ''2024-01-08'', ascii ''2024-01-09'', ascii ''2024-01-10'']
        [JNum 5, JNull, JNum 3] [JNum 1, JNum 0]
      = ([Fin 5, Fin 5, Fin 8], [Fin 1, Fin 1, Fin 1])
   \<and> last [Fin 5, Fin 5, Fin 8] = sum_js (Some [JNum 5, JNull, JNum 3])
   \<and> last [Fin 1, Fin 1, Fin (1::int)] = sum_js (Some [JNum 1, JNum 0])"
proof -
  let ?ls = "[ascii ''2024-01-08'', ascii ''2024-01-09'', ascii ''2024-01-10'']"
  let ?p = "[JNum 5, JNull, JNum 3]" and ?f = "[JNum 1, JNum 0]"
  have v: "loadDay_cumulative ?ls ?p ?f = ([Fin 5, Fin 5, Fin 8], [Fin 1, Fin 1, Fin 1])"
    by (simp add: loadDay_cumulative_def cum_step_def count_of_def js_or_def at_index_def Let_def
        upt_rec [of 0] upt_rec [of 1] upt_rec [of 2] upt_rec [of 3])
  have h: "?ls \<noteq> [] \<and> length ?p \<le> length ?ls \<and> length ?f \<le> length ?ls" by simp
  note t = C8_cumulative_prefix_sums [of ?ls ?p ?f, THEN conjunct2, THEN conjunct2,
      THEN conjunct2, THEN conjunct2, THEN conjunct1, THEN mp, OF h]
  have "last (fst (loadDay_cumulative ?ls ?p ?f)) = sum_js (Some ?p)
      \<and> last (snd (loadDay_cumulative ?ls ?p ?f)) = sum_js (Some ?f)"
    using t by blast
  with v show ?thesis by simp
qed

subsection \<open>The pass rate\<close>


lemma rate_zero_total:
  "entry_int p + entry_int f = 0 \<Longrightarrow> rate_of (count_of p) (count_of f) = Fin 0"
  by (simp add: count_of_entry rate_of_def)

lemma month_year_same_rule: "loadYear_rate labels pass fail = loadMonth_rate labels pass fail"
  by (simp add: loadYear_rate_def loadMonth_rate_def)

lemma rate_40_10: "rate_of (Fin 40) (Fin 10) = Fin 80"
  by code_simp

lemma rate_35_5: "rate_of (Fin 35) (Fin 5) = Fin 88"
  by code_simp

lemma rate_23_17: "rate_of (Fin 23) (Fin 17) = Fin 57"
  by code_simp

lemma rate_example:
  "loadMonth_rate [l1, l2] [JNum 40, JNum 35] [JNum 10, JNum 5] = [Fin 80, Fin 88]"
  by (simp add: loadMonth_rate_def count_of_entry at_index_def rate_40_10 rate_35_5
      upt_rec [of 0] upt_rec [of 1] upt_rec [of 2])

text \<open>
  \<^bold>\<open>C7.\<close> The claim is that the rate is \<open>round(100 * pass / (pass + fail))\<close> whenever
  \<open>pass + fail > 0\<close>. The script computes \<^verbatim>\<open>Math.round((p/tot)*100)\<close> in doubles, and
  for 23 passes and 17 failures the quotient \<open>23/40\<close> rounds to a double just below
  0.575, its product with 100 to \<open>57.49999999999999\<close>, and the rate to 57, where the
  exact rate \<open>57.5\<close> rounds to 58. \<^verbatim>\<open>loadMonth\<close> and \<^verbatim>\<open>loadYear\<close> agree on it.
\<close>

theorem C7_rate_of_23_17_is_57_not_58:
  "loadMonth_rate [ascii ''Week 1''] [JNum 23] [JNum 17] = [Fin 57]
   \<and> loadYear_rate [ascii ''Week 1''] [JNum 23] [JNum 17] = [Fin 57]
   \<and> fl (fl (23 / 40) * 100) = 8092405580431359 / 140737488355328
   \<and> spec_passRatePct 23 17 = 58"
proof -
  have a: "loadMonth_rate [ascii ''Week 1''] [JNum 23] [JNum 17] = [Fin 57]"
    by (simp add: loadMonth_rate_def count_of_entry at_index_def rate_23_17)
  have b: "fl (fl (23 / 40) * 100) = 8092405580431359 / 140737488355328"
    by code_simp
  have c: "spec_passRatePct 23 17 = 58"
    by (simp add: spec_passRatePct_def)
  from a b c show ?thesis by (simp add: month_year_same_rule)
qed

subsection \<open>The week of a date\<close>

lemma local_day_east:
  assumes "0 \<le> tz" and "tz < 1440"
  shows "local_day tz (n * msPerDay) = n"
proof -
  have "0 \<le> tz * 60000" and "tz * 60000 < 86400000" using assms by simp_all
  then have "(n * 86400000 + tz * 60000) div 86400000 = n"
    by (simp add: div_pos_pos_trivial)
  then show ?thesis by (simp add: local_day_def msPerDay_def)
qed

lemma local_day_west:
  assumes "- 1440 < tz" and "tz < 0"
  shows "local_day tz (n * msPerDay) = n - 1"
proof -
  have "(n * 86400000 + tz * 60000) = (n - 1) * 86400000 + (86400000 + tz * 60000)"
    by (simp add: algebra_simps)
  moreover have "0 \<le> 86400000 + tz * 60000" and "86400000 + tz * 60000 < 86400000"
    using assms by simp_all
  ultimately have "(n * 86400000 + tz * 60000) div 86400000 = n - 1"
    by (simp add: div_pos_pos_trivial)
  then show ?thesis by (simp add: local_day_def msPerDay_def)
qed

lemma upt7: "[0..<7] = [0, 1, 2, 3, 4, 5, 6]"
  by (simp add: upt_rec)

lemma weekDays_days:
  "map (\<lambda>t. t div msPerDay) (weekDays tz (n * msPerDay)) =
     map (\<lambda>i. n - (getDay tz (n * msPerDay) + 6) mod 7 + int i) [0..<7]"
proof -
  define day where "day = getDay tz (n * msPerDay)"
  have rng: "0 \<le> day \<and> day \<le> 6"
    by (simp add: day_def getDay_def)
  then have diff: "(if day = 0 then - 6 else 1 - day) = - ((day + 6) mod 7)"
    by presburger
  have k: "\<And>a b c. (a * 86400000 + b * 86400000 + c * 86400000) div (86400000::int) = a + b + c"
    by simp
  have "weekDays tz (n * msPerDay) =
      map (\<lambda>i. n * msPerDay + (- ((day + 6) mod 7)) * msPerDay + int i * msPerDay) [0..<7]"
    unfolding weekDays_def Let_def day_def [symmetric] diff by (simp add: add_days_def)
  then show ?thesis
    unfolding day_def [symmetric] by (simp add: msPerDay_def upt7 k)
qed

lemma weekDays_east_of_Greenwich:
  assumes "0 \<le> tz" and "tz < 1440"
  shows "map (\<lambda>t. t div msPerDay) (weekDays tz (n * msPerDay)) =
           map (\<lambda>i. n - ((n + 4) mod 7 + 6) mod 7 + int i) [0..<7]
         \<and> (n - ((n + 4) mod 7 + 6) mod 7 + 4) mod 7 = 1
         \<and> n - ((n + 4) mod 7 + 6) mod 7 \<le> n \<and> n \<le> n - ((n + 4) mod 7 + 6) mod 7 + 6
         \<and> ((n + 4) mod 7 = 0 \<longrightarrow> n = n - ((n + 4) mod 7 + 6) mod 7 + 6)"
proof -
  have "getDay tz (n * msPerDay) = (n + 4) mod 7"
    by (simp add: getDay_def local_day_east [OF assms])
  with weekDays_days [of tz n] show ?thesis by simp presburger
qed

lemma weekDays_west_of_Greenwich:
  assumes "- 1440 < tz" and "tz < 0"
  shows "map (\<lambda>t. t div msPerDay) (weekDays tz (n * msPerDay)) =
           map (\<lambda>i. n - ((n + 3) mod 7 + 6) mod 7 + int i) [0..<7]
         \<and> (n - ((n + 3) mod 7 + 6) mod 7 + 4) mod 7 = 2"
proof -
  have "getDay tz (n * msPerDay) = (n + 3) mod 7"
    by (simp add: getDay_def local_day_west [OF assms] add.commute)
  with weekDays_days [of tz n] show ?thesis by simp presburger
qed

lemma week_west_wed:
  "weekDatesFrom (- 300) (ascii ''2024-01-10'') =
     Inr (map ascii [''2024-01-09'', ''2024-01-10'', ''2024-01-11'', ''2024-01-12'',
                     ''2024-01-13'', ''2024-01-14'', ''2024-01-15''])"
  by code_simp

lemma week_west_sun:
  "weekDatesFrom (- 300) (ascii ''2024-01-14'') =
     Inr (map ascii [''2024-01-09'', ''2024-01-10'', ''2024-01-11'', ''2024-01-12'',
                     ''2024-01-13'', ''2024-01-14'', ''2024-01-15''])"
  by code_simp

lemma week_east_wed:
  "weekDatesFrom 420 (ascii ''2024-01-10'') =
     Inr (map ascii [''2024-01-08'', ''2024-01-09'', ''2024-01-10'', ''2024-01-11'',
                     ''2024-01-12'', ''2024-01-13'', ''2024-01-14''])"
  by code_simp

lemma jan9_tuesday: "weekday_of (ascii ''2024-01-09'') = Some 2"
  by code_simp

lemma jan14_sunday: "weekday_of (ascii ''2024-01-14'') = Some 0"
  by code_simp

text \<open>
  \<^bold>\<open>C3.\<close> The claim is that the week of any date starts on a Monday and that a Sunday is
  its last day. The script reads the date string as midnight UTC but takes the day of
  the week, and moves the date, in local time. East of Greenwich (and on it) the two
  agree and the claim holds (\<open>weekDays_east_of_Greenwich\<close>). West of Greenwich midnight
  UTC is the evening before, so the week is found for the day before and every week
  starts on a Tuesday (\<open>weekDays_west_of_Greenwich\<close>): five hours west, the week of
  Wednesday 2024-01-10 runs from Tuesday 2024-01-09 to Monday 2024-01-15, and so does
  the week of Sunday 2024-01-14, which is then neither the last day nor six days after
  the first. Seven hours east the week of 2024-01-10 is Monday 8 to Sunday 14.
\<close>

theorem C3_week_starts_on_Tuesday_west_of_Greenwich:
  "weekDatesFrom (- 300) (ascii ''2024-01-10'') =
     Inr (map ascii [''2024-01-09'', ''2024-01-10'', ''2024-01-11'', ''2024-01-12'',
                     ''2024-01-13'', ''2024-01-14'', ''2024-01-15''])
   \<and> weekday_of (ascii ''2024-01-09'') = Some 2
   \<and> weekday_of (ascii ''2024-01-14'') = Some 0
   \<and> weekDatesFrom (- 300) (ascii ''2024-01-14'') =
     Inr (map ascii [''2024-01-09'', ''2024-01-10'', ''2024-01-11'', ''2024-01-12'',
                     ''2024-01-13'', ''2024-01-14'', ''2024-01-15''])
   \<and> weekDatesFrom 420 (ascii ''2024-01-10'') =
     Inr (map ascii [''2024-01-08'', ''2024-01-09'', ''2024-01-10'', ''2024-01-11'',
                     ''2024-01-12'', ''2024-01-13'', ''2024-01-14''])"
  using week_west_wed week_west_sun week_east_wed jan9_tuesday jan14_sunday by blast

subsection \<open>The grouped bars of the day view\<close>

lemma day_totals_ok:
  "NullItem \<notin> set items \<Longrightarrow>
   day_totals (Fin a) (Fin b) items =
     Inr (Fin (a + sum_list (map (\<lambda>item. entry_int (item_pass item)) items)),
          Fin (b + sum_list (map (\<lambda>item. entry_int (item_fail item)) items)))"
proof (induction items arbitrary: a b)
  case Nil
  show ?case by simp
next
  case (Cons item items)
  then show ?case by (cases item) (simp_all add: count_of_entry)
qed

lemma perDay_forEach_ok:
  assumes "list_all (\<lambda>j. case j of JsonArray items \<Rightarrow> NullItem \<notin> set items | _ \<Rightarrow> True) js"
      and "length js \<le> k"
      and "length ys = length xs"
  shows "perDay_forEach js (length xs) (xs @ replicate k (Fin 0), ys @ replicate k (Fin 0)) =
           Inr (xs @ map (json_total item_pass) js @ replicate (k - length js) (Fin 0),
                ys @ map (json_total item_fail) js @ replicate (k - length js) (Fin 0))"
  using assms
proof (induction js arbitrary: xs ys k)
  case Nil
  show ?case by simp
next
  case (Cons j js)
  from Cons.prems obtain k' where k: "k = Suc k'" by (cases k) auto
  have len: "length (ys @ [v]) = length (xs @ [u])" for u v using Cons.prems by simp
  have rest: "list_all (\<lambda>j. case j of JsonArray items \<Rightarrow> NullItem \<notin> set items | _ \<Rightarrow> True) js"
    and le: "length js \<le> k'"
    using Cons.prems k by simp_all
  note ih = Cons.IH [OF rest le len]
  show ?case
  proof (cases j)
    case JsonNull
    with ih [of "Fin 0" "Fin 0"] k Cons.prems show ?thesis
      by (simp add: replicate_app_Cons_same)
  next
    case (JsonObject p)
    with ih [of "Fin 0" "Fin 0"] k Cons.prems show ?thesis
      by (simp add: replicate_app_Cons_same)
  next
    case (JsonArray items)
    with Cons.prems have "NullItem \<notin> set items" by simp
    from day_totals_ok [OF this, of 0 0] JsonArray
      ih [of "json_total item_pass j" "json_total item_fail j"] k Cons.prems
    show ?thesis
      by (simp add: list_update_append)
  qed
qed

lemma weekDays_length: "length (weekDays tz d) = 7"
  by (simp add: weekDays_def Let_def)

lemma fetch_day_logs_total:
  "json_total sel (fetch_day_logs e s dt) = day_total sel (fetchJSON e (logs_url e s dt))"
  by (simp add: fetch_day_logs_def day_total_def split: sum.splits)

lemma no_null_items_logs:
  "no_null_items e s weekDates \<Longrightarrow>
   list_all (\<lambda>j. case j of JsonArray items \<Rightarrow> NullItem \<notin> set items | _ \<Rightarrow> True)
     (map (fetch_day_logs e s) weekDates)"
  unfolding no_null_items_def list_all_iff
  by (auto simp add: fetch_day_logs_def split: sum.splits json.splits)

lemma grouped_ok:
  assumes d: "new_Date dateStr = Some d"
      and nn: "no_null_items e s (map toISODate (weekDays (env_tz e) d))"
  shows "loadDay_grouped e dateStr s =
     (s\<lparr>console := console s @ day_log_warnings e s (map toISODate (weekDays (env_tz e) d)),
        chartDay := (chartDay s)
          \<lparr>ch_labels := map (day_label (env_tz e)) (map toISODate (weekDays (env_tz e) d)),
           ch_pass := map (\<lambda>dt. day_total item_pass (fetchJSON e (logs_url e s dt)))
                        (map toISODate (weekDays (env_tz e) d)),
           ch_fail := map (\<lambda>dt. day_total item_fail (fetchJSON e (logs_url e s dt)))
                        (map toISODate (weekDays (env_tz e) d))\<rparr>\<rparr>, None)"
proof -
  let ?wd = "map toISODate (weekDays (env_tz e) d)"
  let ?js = "map (fetch_day_logs e s) ?wd"
  have len: "length ?js \<le> 7" by (simp add: weekDays_length)
  have "perDay_forEach ?js (length ([]::jsnum list)) ([] @ replicate 7 (Fin 0), [] @ replicate 7 (Fin 0)) =
      Inr ([] @ map (json_total item_pass) ?js @ replicate (7 - length ?js) (Fin 0),
           [] @ map (json_total item_fail) ?js @ replicate (7 - length ?js) (Fin 0))"
    by (rule perDay_forEach_ok [OF no_null_items_logs [OF nn] len]) simp
  then have "perDay_forEach ?js 0 (replicate 7 (Fin 0), replicate 7 (Fin 0)) =
      Inr (map (\<lambda>dt. day_total item_pass (fetchJSON e (logs_url e s dt))) ?wd,
           map (\<lambda>dt. day_total item_fail (fetchJSON e (logs_url e s dt))) ?wd)"
    by (simp add: weekDays_length fetch_day_logs_total comp_def)
  then show ?thesis
    by (simp add: loadDay_grouped_def weekDatesFrom_def d Let_def)
qed

lemma growth_frame:
  "chartDay (fst (loadDay_growth e dateStr s)) = chartDay s
   \<and> alerts (fst (loadDay_growth e dateStr s)) = alerts s"
  by (simp add: loadDay_growth_def split: sum.splits prod.splits)

lemma renderDayLog_payload:
  "j_payload hourly = Inr p \<Longrightarrow>
   renderDayLog dateStr hourly s =
     (s\<lparr>logTable := map (\<lambda>h. (h, hour_cell (p_pass p) h, hour_cell (p_fail p) h)) [0..<24],
        logSummary := (dateStr, sum_js (p_pass p), sum_js (p_fail p))\<rparr>, None)"
  by (simp add: renderDayLog_def Let_def)

lemma logs_url_frame:
  "selectedDevice s' = selectedDevice s \<Longrightarrow> logs_url e s' = logs_url e s"
  by (rule ext) (simp add: logs_url_def deviceParam_def)

lemma no_null_items_frame:
  "selectedDevice s' = selectedDevice s \<Longrightarrow> no_null_items e s' wd = no_null_items e s wd"
  by (simp add: no_null_items_def logs_url_def deviceParam_def)

lemma warn_mem:
  assumes "dt \<in> set wd" and "fetchJSON e (logs_url e s dt) = Inl err"
  shows "Warn (ascii ''logs/day failed'') dt err \<in> set (day_log_warnings e s wd)"
  using assms(1)
proof (induction wd)
  case Nil
  then show ?case by simp
next
  case (Cons a wd)
  show ?case
  proof (cases "dt = a")
    case True
    with assms(2) show ?thesis by (simp add: day_log_warnings_def)
  next
    case False
    with Cons have "Warn (ascii ''logs/day failed'') dt err \<in> set (day_log_warnings e s wd)"
      by simp
    then show ?thesis by (simp add: day_log_warnings_def)
  qed
qed

text \<open>
  For a valid anchor date the grouped bar chart gets one pass value and one fail
  value for each of the seven dates of \<^verbatim>\<open>weekDatesFrom\<close>, in that order: the sums over
  the devices of the day when its request succeeded, and 0 and 0 when it failed. A failed
  request is logged with \<^verbatim>\<open>console.warn\<close>; it does not make the block fail, opens no
  dialog, and does not keep \<^verbatim>\<open>loadDay\<close> from writing the chart. (The arrays the service
  does send are taken to hold no \<^verbatim>\<open>null\<close> element.)
\<close>

lemma grouped_bars_follow_weekDatesFrom:
  assumes "new_Date dateStr = Some d"
      and "no_null_items e s (map toISODate (weekDays (env_tz e) d))"
  shows "weekDatesFrom (env_tz e) dateStr = Inr (map toISODate (weekDays (env_tz e) d))
   \<and> snd (loadDay_grouped e dateStr s) = None
   \<and> ch_pass (chartDay (fst (loadDay_grouped e dateStr s))) =
        map (\<lambda>dt. day_total item_pass (fetchJSON e (logs_url e s dt)))
          (map toISODate (weekDays (env_tz e) d))
   \<and> ch_fail (chartDay (fst (loadDay_grouped e dateStr s))) =
        map (\<lambda>dt. day_total item_fail (fetchJSON e (logs_url e s dt)))
          (map toISODate (weekDays (env_tz e) d))
   \<and> length (ch_pass (chartDay (fst (loadDay_grouped e dateStr s)))) = 7
   \<and> length (ch_fail (chartDay (fst (loadDay_grouped e dateStr s)))) = 7
   \<and> length (ch_labels (chartDay (fst (loadDay_grouped e dateStr s)))) = 7
   \<and> (\<forall>i err. i < 7
         \<and> fetchJSON e (logs_url e s (map toISODate (weekDays (env_tz e) d) ! i)) = Inl err \<longrightarrow>
         ch_pass (chartDay (fst (loadDay_grouped e dateStr s))) ! i = Fin 0
         \<and> ch_fail (chartDay (fst (loadDay_grouped e dateStr s))) ! i = Fin 0
         \<and> Warn (ascii ''logs/day failed'') (map toISODate (weekDays (env_tz e) d) ! i) err
             \<in> set (console (fst (loadDay_grouped e dateStr s))))
   \<and> alerts (fst (loadDay_grouped e dateStr s)) = alerts s
   \<and> (\<forall>hourly p. fetchJSON e (day_url e s dateStr) = Inr hourly \<and> j_payload hourly = Inr p \<longrightarrow>
         ch_pass (chartDay (loadDay e dateStr s)) =
           map (\<lambda>dt. day_total item_pass (fetchJSON e (logs_url e s dt)))
             (map toISODate (weekDays (env_tz e) d))
         \<and> ch_fail (chartDay (loadDay e dateStr s)) =
           map (\<lambda>dt. day_total item_fail (fetchJSON e (logs_url e s dt)))
             (map toISODate (weekDays (env_tz e) d))
         \<and> alerts (loadDay e dateStr s) = alerts s)"
proof -
  let ?wd = "map toISODate (weekDays (env_tz e) d)"
  let ?P = "map (\<lambda>dt. day_total item_pass (fetchJSON e (logs_url e s dt))) ?wd"
  let ?F = "map (\<lambda>dt. day_total item_fail (fetchJSON e (logs_url e s dt))) ?wd"
  note g = grouped_ok [OF assms]
  have len: "length ?wd = 7" by (simp add: weekDays_length)
  have c1: "weekDatesFrom (env_tz e) dateStr = Inr ?wd"
    by (simp add: weekDatesFrom_def assms(1))
  have c2: "snd (loadDay_grouped e dateStr s) = None" by (simp add: g)
  have c3: "ch_pass (chartDay (fst (loadDay_grouped e dateStr s))) = ?P" by (simp add: g)
  have c4: "ch_fail (chartDay (fst (loadDay_grouped e dateStr s))) = ?F" by (simp add: g)
  have c5: "length (ch_pass (chartDay (fst (loadDay_grouped e dateStr s)))) = 7"
    unfolding c3 using len by simp
  have c6: "length (ch_fail (chartDay (fst (loadDay_grouped e dateStr s)))) = 7"
    unfolding c4 using len by simp
  have c7: "length (ch_labels (chartDay (fst (loadDay_grouped e dateStr s)))) = 7"
    using len by (simp add: g)
  have cons: "console (fst (loadDay_grouped e dateStr s)) = console s @ day_log_warnings e s ?wd"
    by (simp add: g)
  have c8: "\<forall>i err. i < 7 \<and> fetchJSON e (logs_url e s (?wd ! i)) = Inl err \<longrightarrow>
         ch_pass (chartDay (fst (loadDay_grouped e dateStr s))) ! i = Fin 0
         \<and> ch_fail (chartDay (fst (loadDay_grouped e dateStr s))) ! i = Fin 0
         \<and> Warn (ascii ''logs/day failed'') (?wd ! i) err
             \<in> set (console (fst (loadDay_grouped e dateStr s)))"
  proof (intro allI impI)
    fix i err
    assume a: "i < 7 \<and> fetchJSON e (logs_url e s (?wd ! i)) = Inl err"
    then have i: "i < length ?wd" using len by simp
    then have mem: "?wd ! i \<in> set ?wd" by (rule nth_mem)
    from a have z: "day_total sel (fetchJSON e (logs_url e s (?wd ! i))) = Fin 0" for sel
      by (simp add: day_total_def)
    have p: "?P ! i = Fin 0" using i z [of item_pass] by (simp only: nth_map)
    have f: "?F ! i = Fin 0" using i z [of item_fail] by (simp only: nth_map)
    from warn_mem [OF mem] a
    have "Warn (ascii ''logs/day failed'') (?wd ! i) err \<in> set (day_log_warnings e s ?wd)"
      by blast
    with p f show "ch_pass (chartDay (fst (loadDay_grouped e dateStr s))) ! i = Fin 0
         \<and> ch_fail (chartDay (fst (loadDay_grouped e dateStr s))) ! i = Fin 0
         \<and> Warn (ascii ''logs/day failed'') (?wd ! i) err
             \<in> set (console (fst (loadDay_grouped e dateStr s)))"
      unfolding c3 c4 cons by simp
  qed
  have c9: "alerts (fst (loadDay_grouped e dateStr s)) = alerts s" by (simp add: g)
  have c10: "\<forall>hourly p. fetchJSON e (day_url e s dateStr) = Inr hourly \<and> j_payload hourly = Inr p \<longrightarrow>
         ch_pass (chartDay (loadDay e dateStr s)) = ?P
         \<and> ch_fail (chartDay (loadDay e dateStr s)) = ?F
         \<and> alerts (loadDay e dateStr s) = alerts s"
  proof (intro allI impI)
    fix hourly p
    assume a: "fetchJSON e (day_url e s dateStr) = Inr hourly \<and> j_payload hourly = Inr p"
    then have h: "fetchJSON e (day_url e s dateStr) = Inr hourly" and p: "j_payload hourly = Inr p"
      by simp_all
    define s1 where "s1 = s\<lparr>logTable := map (\<lambda>h. (h, hour_cell (p_pass p) h, hour_cell (p_fail p) h)) [0..<24],
        logSummary := (dateStr, sum_js (p_pass p), sum_js (p_fail p))\<rparr>"
    have dev: "selectedDevice s1 = selectedDevice s" by (simp add: s1_def)
    have al: "alerts s1 = alerts s" by (simp add: s1_def)
    have nn: "no_null_items e s1 ?wd"
      using assms(2) by (simp only: no_null_items_frame [OF dev])
    note g1 = grouped_ok [OF assms(1) nn]
    define s2 where "s2 = fst (loadDay_grouped e dateStr s1)"
    have s2: "loadDay_grouped e dateStr s1 = (s2, None)"
      unfolding s2_def by (simp add: g1)
    have s2P: "ch_pass (chartDay s2) = ?P" and s2F: "ch_fail (chartDay s2) = ?F"
      and s2a: "alerts s2 = alerts s"
      unfolding s2_def by (simp_all add: g1 logs_url_frame [OF dev] al)
    obtain s3 r where gr: "loadDay_growth e dateStr s2 = (s3, r)"
      by (cases "loadDay_growth e dateStr s2")
    from growth_frame [of e dateStr s2] gr
    have fr: "chartDay s3 = chartDay s2" "alerts s3 = alerts s2" by simp_all
    have "renderDayLog dateStr hourly s = (s1, None)"
      unfolding s1_def by (rule renderDayLog_payload [OF p])
    then have "loadDay_try e dateStr s = (s3, r)"
      by (simp add: loadDay_try_def h s2 gr)
    then have "chartDay (loadDay e dateStr s) = chartDay s3 \<and> alerts (loadDay e dateStr s) = alerts s3"
      by (cases r) (simp_all add: loadDay_def)
    with fr s2P s2F s2a show "ch_pass (chartDay (loadDay e dateStr s)) = ?P
         \<and> ch_fail (chartDay (loadDay e dateStr s)) = ?F
         \<and> alerts (loadDay e dateStr s) = alerts s"
      by simp
  qed
  show ?thesis by (intro conjI c1 c2 c3 c4 c5 c6 c7 c8 c9 c10)
qed

lemma ex_date: "new_Date (ascii ''2024-01-10'') = Some 1704844800000"
  by code_simp

lemma ex_week:
  "map toISODate (weekDays (env_tz example_env) 1704844800000) =
     map ascii [''2024-01-08'', ''2024-01-09'', ''2024-01-10'', ''2024-01-11'',
                ''2024-01-12'', ''2024-01-13'', ''2024-01-14'']"
  by code_simp

lemma ex_no_null:
  "no_null_items example_env initial_ui
     (map ascii [''2024-01-08'', ''2024-01-09'', ''2024-01-10'', ''2024-01-11'',
                ''2024-01-12'', ''2024-01-13'', ''2024-01-14''])"
  by code_simp

lemma ex_pass:
  "map (\<lambda>dt. day_total item_pass (fetchJSON example_env (logs_url example_env initial_ui dt)))
     (map ascii [''2024-01-08'', ''2024-01-09'', ''2024-01-10'', ''2024-01-11'',
                ''2024-01-12'', ''2024-01-13'', ''2024-01-14''])
   = [Fin 5, Fin 10, Fin 0, Fin 3, Fin 8, Fin 2, Fin 1]"
  by code_simp

lemma ex_fail:
  "map (\<lambda>dt. day_total item_fail (fetchJSON example_env (logs_url example_env initial_ui dt)))
     (map ascii [''2024-01-08'', ''2024-01-09'', ''2024-01-10'', ''2024-01-11'',
                ''2024-01-12'', ''2024-01-13'', ''2024-01-14''])
   = [Fin 1, Fin 2, Fin 0, Fin 0, Fin 1, Fin 0, Fin 0]"
  by code_simp

lemma ex_labels:
  "map (day_label 420) (map ascii [''2024-01-08'', ''2024-01-09'', ''2024-01-10'', ''2024-01-11'',
                ''2024-01-12'', ''2024-01-13'', ''2024-01-14''])
   = map ascii [''T2 01-08'', ''T3 01-09'', ''T4 01-10'', ''T5 01-11'', ''T6 01-12'', ''T7 01-13'', ''CN 01-14'']"
  by code_simp

lemma grouped_bars_example:
  "new_Date (ascii ''2024-01-10'') = Some 1704844800000
   \<and> no_null_items example_env initial_ui (map toISODate (weekDays (env_tz example_env) 1704844800000))
   \<and> fetchJSON example_env (logs_url example_env initial_ui (ascii ''2024-01-10''))
       = Inl (JsError (ascii ''500 Internal Server Error - boom''))
   \<and> snd (loadDay_grouped example_env (ascii ''2024-01-10'') initial_ui) = None
   \<and> ch_pass (chartDay (fst (loadDay_grouped example_env (ascii ''2024-01-10'') initial_ui)))
       = [Fin 5, Fin 10, Fin 0, Fin 3, Fin 8, Fin 2, Fin 1]
   \<and> ch_fail (chartDay (fst (loadDay_grouped example_env (ascii ''2024-01-10'') initial_ui)))
       = [Fin 1, Fin 2, Fin 0, Fin 0, Fin 1, Fin 0, Fin 0]
   \<and> alerts (fst (loadDay_grouped example_env (ascii ''2024-01-10'') initial_ui)) = []"
proof -
  have nn: "no_null_items example_env initial_ui
      (map toISODate (weekDays (env_tz example_env) 1704844800000))"
    unfolding ex_week by (rule ex_no_null)
  have f: "fetchJSON example_env (logs_url example_env initial_ui (ascii ''2024-01-10''))
       = Inl (JsError (ascii ''500 Internal Server Error - boom''))"
    by code_simp
  have a: "alerts initial_ui = []" by (simp add: initial_ui_def)
  from grouped_bars_follow_weekDatesFrom [OF ex_date nn] nn f a show ?thesis
    unfolding ex_week ex_pass ex_fail by (simp add: ex_date)
qed

subsection \<open>Failed requests\<close>

lemma fetch_not_ok:
  "\<not> (200 \<le> status resp \<and> status resp \<le> 299) \<Longrightarrow>
   fetchJSON_of (Responded resp) =
     Inl (JsError (String_int (status resp) @ ascii '' '' @ statusText resp @ ascii '' - ''
                   @ body_text resp))"
  by (simp add: fetchJSON_of_def)

lemma loadWeek_then_error:
  "loadWeek_then (Inl err) s = s\<lparr>console := console s @ [Err (ascii ''loadWeek'') err], weekLabel := loi\<rparr>"
  by (simp add: loadWeek_then_def loadWeek_try_def)

lemma loadMonth_then_error:
  "loadMonth_then (Inl err) s = s\<lparr>console := console s @ [Err (ascii ''loadMonth'') err], monthLabel := loi\<rparr>"
  by (simp add: loadMonth_then_def loadMonth_try_def)

lemma loadYear_then_error:
  "loadYear_then y (Inl err) s = s\<lparr>console := console s @ [Err (ascii ''loadYear'') err], yearLabel := loi\<rparr>"
  by (simp add: loadYear_then_def loadYear_try_def)

text \<open>Each pipeline writes to its own chart and label and to the console, and nowhere else.\<close>

lemma loadWeek_then_frame:
  "chartDay (loadWeek_then r s) = chartDay s \<and> chartMonth (loadWeek_then r s) = chartMonth s
   \<and> chartYear (loadWeek_then r s) = chartYear s \<and> same_controls s (loadWeek_then r s)"
proof -
  have "chartDay (fst (loadWeek_try r s)) = chartDay s \<and> chartMonth (fst (loadWeek_try r s)) = chartMonth s
   \<and> chartYear (fst (loadWeek_try r s)) = chartYear s \<and> same_controls s (fst (loadWeek_try r s))"
    by (simp add: loadWeek_try_def Let_def same_controls_def split: sum.splits)
  then show ?thesis
    by (cases "loadWeek_try r s"; cases "snd (loadWeek_try r s)")
       (simp_all add: loadWeek_then_def same_controls_def)
qed

lemma loadMonth_then_frame:
  "chartDay (loadMonth_then r s) = chartDay s \<and> chartWeek (loadMonth_then r s) = chartWeek s
   \<and> chartYear (loadMonth_then r s) = chartYear s \<and> same_controls s (loadMonth_then r s)"
proof -
  have "chartDay (fst (loadMonth_try r s)) = chartDay s \<and> chartWeek (fst (loadMonth_try r s)) = chartWeek s
   \<and> chartYear (fst (loadMonth_try r s)) = chartYear s \<and> same_controls s (fst (loadMonth_try r s))"
    by (simp add: loadMonth_try_def Let_def same_controls_def split: sum.splits)
  then show ?thesis
    by (cases "loadMonth_try r s"; cases "snd (loadMonth_try r s)")
       (simp_all add: loadMonth_then_def same_controls_def)
qed

lemma loadYear_then_frame:
  "chartDay (loadYear_then y r s) = chartDay s \<and> chartWeek (loadYear_then y r s) = chartWeek s
   \<and> chartMonth (loadYear_then y r s) = chartMonth s \<and> same_controls s (loadYear_then y r s)"
proof -
  have "chartDay (fst (loadYear_try y r s)) = chartDay s \<and> chartWeek (fst (loadYear_try y r s)) = chartWeek s
   \<and> chartMonth (fst (loadYear_try y r s)) = chartMonth s \<and> same_controls s (fst (loadYear_try y r s))"
    by (simp add: loadYear_try_def Let_def same_controls_def split: sum.splits)
  then show ?thesis
    by (cases "loadYear_try y r s"; cases "snd (loadYear_try y r s)")
       (simp_all add: loadYear_then_def same_controls_def)
qed

lemma loadDay_frame:
  "chartMonth (loadDay e d s) = chartMonth s \<and> chartYear (loadDay e d s) = chartYear s
   \<and> same_controls s (loadDay e d s)"
proof -
  have r: "chartMonth (fst (renderDayLog d j s)) = chartMonth s \<and> chartYear (fst (renderDayLog d j s)) = chartYear s
      \<and> same_controls s (fst (renderDayLog d j s))" for j s
    by (simp add: renderDayLog_def Let_def same_controls_def split: sum.splits)
  have g: "chartMonth (fst (loadDay_grouped e d s)) = chartMonth s \<and> chartYear (fst (loadDay_grouped e d s)) = chartYear s
      \<and> same_controls s (fst (loadDay_grouped e d s))" for s
    by (simp add: loadDay_grouped_def Let_def same_controls_def split: sum.splits prod.splits)
  have w: "chartMonth (fst (loadDay_growth e d s)) = chartMonth s \<and> chartYear (fst (loadDay_growth e d s)) = chartYear s
      \<and> same_controls s (fst (loadDay_growth e d s))" for s
    by (simp add: loadDay_growth_def same_controls_def split: sum.splits prod.splits)
  have t: "chartMonth (fst (loadDay_try e d s)) = chartMonth s \<and> chartYear (fst (loadDay_try e d s)) = chartYear s
      \<and> same_controls s (fst (loadDay_try e d s))"
  proof (cases "fetchJSON e (day_url e s d)")
    case (Inl err)
    then show ?thesis by (simp add: loadDay_try_def same_controls_def)
  next
    case (Inr hourly)
    obtain s1 r1 where 1: "renderDayLog d hourly s = (s1, r1)" by (cases "renderDayLog d hourly s")
    obtain s2 r2 where 2: "loadDay_grouped e d s1 = (s2, r2)" by (cases "loadDay_grouped e d s1")
    obtain s3 r3 where 3: "loadDay_growth e d s2 = (s3, r3)" by (cases "loadDay_growth e d s2")
    from r [of hourly s] g [of s1] w [of s2] 1 2 3
    have "chartMonth s3 = chartMonth s \<and> chartYear s3 = chartYear s \<and> same_controls s s3"
      and "chartMonth s2 = chartMonth s \<and> chartYear s2 = chartYear s \<and> same_controls s s2"
      and "chartMonth s1 = chartMonth s \<and> chartYear s1 = chartYear s \<and> same_controls s s1"
      by (simp_all add: same_controls_def)
    then show ?thesis
      using Inr 1 2 3 by (cases r1; cases r2) (simp_all add: loadDay_try_def)
  qed
  then show ?thesis
    by (cases "loadDay_try e d s"; cases "snd (loadDay_try e d s)")
       (simp_all add: loadDay_def same_controls_def)
qed


text \<open>What a pipeline writes to its chart depends on nothing another pipeline writes.\<close>

lemma loadMonth_cong:
  assumes "chartMonth s' = chartMonth s" and "selectedDevice s' = selectedDevice s"
  shows "chartMonth (loadMonth e y m s') = chartMonth (loadMonth e y m s)"
proof -
  have u: "month_url e s' y m = month_url e s y m"
    using assms(2) by (simp add: month_url_def deviceParam_def)
  have "chartMonth (loadMonth_then r s') = chartMonth (loadMonth_then r s)" for r
  proof -
    have t: "chartMonth (fst (loadMonth_try r s')) = chartMonth (fst (loadMonth_try r s))
      \<and> snd (loadMonth_try r s') = snd (loadMonth_try r s)"
      using assms(1) by (simp add: loadMonth_try_def Let_def split: sum.splits)
    obtain a b where 1: "loadMonth_try r s' = (a, b)" by (cases "loadMonth_try r s'")
    obtain a' b' where 2: "loadMonth_try r s = (a', b')" by (cases "loadMonth_try r s")
    from t 1 2 have "chartMonth a = chartMonth a'" and "b = b'" by simp_all
    then show ?thesis by (cases b') (simp_all add: loadMonth_then_def 1 2)
  qed
  then show ?thesis by (simp add: loadMonth_def u)
qed

lemma loadYear_cong:
  assumes "chartYear s' = chartYear s" and "selectedDevice s' = selectedDevice s"
  shows "chartYear (loadYear e y s') = chartYear (loadYear e y s)"
proof -
  have u: "year_url e s' y = year_url e s y"
    using assms(2) by (simp add: year_url_def deviceParam_def)
  have "chartYear (loadYear_then y r s') = chartYear (loadYear_then y r s)" for r
  proof -
    have t: "chartYear (fst (loadYear_try y r s')) = chartYear (fst (loadYear_try y r s))
      \<and> snd (loadYear_try y r s') = snd (loadYear_try y r s)"
      using assms(1) by (simp add: loadYear_try_def Let_def split: sum.splits)
    obtain a b where 1: "loadYear_try y r s' = (a, b)" by (cases "loadYear_try y r s'")
    obtain a' b' where 2: "loadYear_try y r s = (a', b')" by (cases "loadYear_try y r s")
    from t 1 2 have "chartYear a = chartYear a'" and "b = b'" by simp_all
    then show ?thesis by (cases b') (simp_all add: loadYear_then_def 1 2)
  qed
  then show ?thesis by (simp add: loadYear_def u)
qed

lemma loadWeek_frame:
  "chartDay (loadWeek e y m w s) = chartDay s \<and> chartMonth (loadWeek e y m w s) = chartMonth s
   \<and> chartYear (loadWeek e y m w s) = chartYear s \<and> same_controls s (loadWeek e y m w s)"
  unfolding loadWeek_def by (rule loadWeek_then_frame)

lemma loadMonth_frame:
  "chartDay (loadMonth e y m s) = chartDay s \<and> chartWeek (loadMonth e y m s) = chartWeek s
   \<and> chartYear (loadMonth e y m s) = chartYear s \<and> same_controls s (loadMonth e y m s)"
  unfolding loadMonth_def by (rule loadMonth_then_frame)

lemma loadYear_frame:
  "chartDay (loadYear e y s) = chartDay s \<and> chartWeek (loadYear e y s) = chartWeek s
   \<and> chartMonth (loadYear e y s) = chartMonth s \<and> same_controls s (loadYear e y s)"
  unfolding loadYear_def by (rule loadYear_then_frame)

lemma four_pipelines:
  "chartDay (loadYear e y3 (loadMonth e y2 m2 (loadWeek e y1 m1 w1 (loadDay e d s))))
     = chartDay (loadDay e d s)
   \<and> chartWeek (loadYear e y3 (loadMonth e y2 m2 (loadWeek e y1 m1 w1 (loadDay e d s))))
     = chartWeek (loadWeek e y1 m1 w1 (loadDay e d s))
   \<and> chartMonth (loadYear e y3 (loadMonth e y2 m2 (loadWeek e y1 m1 w1 (loadDay e d s))))
     = chartMonth (loadMonth e y2 m2 s)
   \<and> chartYear (loadYear e y3 (loadMonth e y2 m2 (loadWeek e y1 m1 w1 (loadDay e d s))))
     = chartYear (loadYear e y3 s)"
proof -
  let ?s2 = "loadDay e d s"
  let ?s3 = "loadWeek e y1 m1 w1 ?s2"
  let ?s4 = "loadMonth e y2 m2 ?s3"
  note d = loadDay_frame [of e d s]
  note w = loadWeek_frame [of e y1 m1 w1 ?s2]
  note m = loadMonth_frame [of e y2 m2 ?s3]
  note y = loadYear_frame [of e y3 ?s4]
  have m3: "chartMonth ?s3 = chartMonth s" and d3: "selectedDevice ?s3 = selectedDevice s"
    using d w by (simp_all add: same_controls_def)
  have y4: "chartYear ?s4 = chartYear s" and d4: "selectedDevice ?s4 = selectedDevice s"
    using d w m by (simp_all add: same_controls_def)
  from y m w loadMonth_cong [OF m3 d3, of e y2 m2] loadYear_cong [OF y4 d4, of e y3]
  show ?thesis by simp
qed

lemma start_pipelines:
  "chartMonth (start e now) =
     chartMonth (loadMonth e (sel_value (monthYear (start_selection e now)))
                   (sel_value (monthSelect (start_selection e now))) (start_selection e now))
   \<and> chartYear (start e now) =
     chartYear (loadYear e (sel_value (yearSelect (start_selection e now))) (start_selection e now))"
proof -
  define s1 where "s1 = start_selection e now"
  define s2 where "s2 = loadDay e (toISODate now) s1"
  define s3 where "s3 = loadWeek e (sel_value (weekYear s2)) (sel_value (weekMonth s2)) (sel_value (weekIndex s2)) s2"
  define s4 where "s4 = loadMonth e (sel_value (monthYear s3)) (sel_value (monthSelect s3)) s3"
  have st: "start e now = loadYear e (sel_value (yearSelect s4)) s4"
    by (simp add: start_def Let_def s1_def s2_def s3_def s4_def)
  have d: "chartMonth s2 = chartMonth s1 \<and> chartYear s2 = chartYear s1 \<and> same_controls s1 s2"
    unfolding s2_def by (rule loadDay_frame)
  have w: "chartMonth s3 = chartMonth s2 \<and> chartYear s3 = chartYear s2 \<and> same_controls s2 s3"
    unfolding s3_def using loadWeek_frame by blast
  have m: "chartYear s4 = chartYear s3 \<and> same_controls s3 s4"
    unfolding s4_def using loadMonth_frame by blast
  have m3: "chartMonth s3 = chartMonth s1" and d3: "selectedDevice s3 = selectedDevice s1"
    and c3: "monthYear s3 = monthYear s1" "monthSelect s3 = monthSelect s1"
    using d w by (simp_all add: same_controls_def)
  have y4: "chartYear s4 = chartYear s1" and d4: "selectedDevice s4 = selectedDevice s1"
    and c4: "yearSelect s4 = yearSelect s1"
    using d w m by (simp_all add: same_controls_def)
  have "chartMonth (start e now) = chartMonth s4"
    unfolding st using loadYear_frame by blast
  also have "\<dots> = chartMonth (loadMonth e (sel_value (monthYear s3)) (sel_value (monthSelect s3)) s1)"
    unfolding s4_def by (rule loadMonth_cong [OF m3 d3])
  finally have a: "chartMonth (start e now) =
      chartMonth (loadMonth e (sel_value (monthYear s1)) (sel_value (monthSelect s1)) s1)"
    by (simp only: c3)
  have "chartYear (start e now) = chartYear (loadYear e (sel_value (yearSelect s4)) s1)"
    unfolding st by (rule loadYear_cong [OF y4 d4])
  then have b: "chartYear (start e now) = chartYear (loadYear e (sel_value (yearSelect s1)) s1)"
    by (simp only: c4)
  from a b show ?thesis unfolding s1_def by (rule conjI)
qed

text \<open>
  \<^bold>\<open>C6.\<close> A response whose status is not from 200 to 299 makes \<^verbatim>\<open>fetchJSON\<close> throw an
  \<^verbatim>\<open>Error\<close> whose message holds the status, the status text and the body. In
  \<^verbatim>\<open>loadWeek\<close>, \<^verbatim>\<open>loadMonth\<close> and \<^verbatim>\<open>loadYear\<close> the error is caught: it is logged, the
  label of the view shows the placeholder, and nothing else on the page changes, so the
  charts keep what they showed. Run one after the other, as \<^verbatim>\<open>start\<close> does, each pipeline
  leaves in its chart what it would have left there alone, whether the others fail or not.
\<close>

theorem C6_failed_fetch_shows_placeholder_keeps_charts:
  assumes "\<not> (200 \<le> status resp \<and> status resp \<le> 299)"
  shows "fetchJSON_of (Responded resp) =
           Inl (JsError (String_int (status resp) @ ascii '' '' @ statusText resp @ ascii '' - ''
                         @ body_text resp))
   \<and> (env_fetch e (week_url e s y m w) = Responded resp \<longrightarrow>
        loadWeek e y m w s =
          s\<lparr>console := console s @ [Err (ascii ''loadWeek'')
                 (JsError (String_int (status resp) @ ascii '' '' @ statusText resp @ ascii '' - ''
                           @ body_text resp))],
            weekLabel := loi\<rparr>)
   \<and> (env_fetch e (month_url e s y m) = Responded resp \<longrightarrow>
        loadMonth e y m s =
          s\<lparr>console := console s @ [Err (ascii ''loadMonth'')
                 (JsError (String_int (status resp) @ ascii '' '' @ statusText resp @ ascii '' - ''
                           @ body_text resp))],
            monthLabel := loi\<rparr>)
   \<and> (env_fetch e (year_url e s y) = Responded resp \<longrightarrow>
        loadYear e y s =
          s\<lparr>console := console s @ [Err (ascii ''loadYear'')
                 (JsError (String_int (status resp) @ ascii '' '' @ statusText resp @ ascii '' - ''
                           @ body_text resp))],
            yearLabel := loi\<rparr>)
   \<and> chartDay (loadYear e y3 (loadMonth e y2 m2 (loadWeek e y1 m1 w1 (loadDay e d s))))
       = chartDay (loadDay e d s)
   \<and> chartWeek (loadYear e y3 (loadMonth e y2 m2 (loadWeek e y1 m1 w1 (loadDay e d s))))
       = chartWeek (loadWeek e y1 m1 w1 (loadDay e d s))
   \<and> chartMonth (loadYear e y3 (loadMonth e y2 m2 (loadWeek e y1 m1 w1 (loadDay e d s))))
       = chartMonth (loadMonth e y2 m2 s)
   \<and> chartYear (loadYear e y3 (loadMonth e y2 m2 (loadWeek e y1 m1 w1 (loadDay e d s))))
       = chartYear (loadYear e y3 s)
   \<and> chartMonth (start e now) =
       chartMonth (loadMonth e (sel_value (monthYear (start_selection e now)))
                     (sel_value (monthSelect (start_selection e now))) (start_selection e now))
   \<and> chartYear (start e now) =
       chartYear (loadYear e (sel_value (yearSelect (start_selection e now))) (start_selection e now))"
proof -
  note f = fetch_not_ok [OF assms]
  have w: "env_fetch e (week_url e s y m w) = Responded resp \<longrightarrow>
        loadWeek e y m w s =
          s\<lparr>console := console s @ [Err (ascii ''loadWeek'')
                 (JsError (String_int (status resp) @ ascii '' '' @ statusText resp @ ascii '' - ''
                           @ body_text resp))],
            weekLabel := loi\<rparr>"
    by (simp add: loadWeek_def fetchJSON_def f loadWeek_then_error)
  have mo: "env_fetch e (month_url e s y m) = Responded resp \<longrightarrow>
        loadMonth e y m s =
          s\<lparr>console := console s @ [Err (ascii ''loadMonth'')
                 (JsError (String_int (status resp) @ ascii '' '' @ statusText resp @ ascii '' - ''
                           @ body_text resp))],
            monthLabel := loi\<rparr>"
    by (simp add: loadMonth_def fetchJSON_def f loadMonth_then_error)
  have ye: "env_fetch e (year_url e s y) = Responded resp \<longrightarrow>
        loadYear e y s =
          s\<lparr>console := console s @ [Err (ascii ''loadYear'')
                 (JsError (String_int (status resp) @ ascii '' '' @ statusText resp @ ascii '' - ''
                           @ body_text resp))],
            yearLabel := loi\<rparr>"
    by (simp add: loadYear_def fetchJSON_def f loadYear_then_error)
  note p = four_pipelines [of e y3 y2 m2 y1 m1 w1 d s]
  note st = start_pipelines [of e now]
  show ?thesis
    by (intro conjI f w mo ye p [THEN conjunct1] p [THEN conjunct2, THEN conjunct1]
        p [THEN conjunct2, THEN conjunct2, THEN conjunct1]
        p [THEN conjunct2, THEN conjunct2, THEN conjunct2]
        st [THEN conjunct1] st [THEN conjunct2])
qed


theorem C6_failed_fetch_witness:
  "\<not> (200 \<le> status \<lparr>status = 500, statusText = ascii ''Internal Server Error'',
                       body_text = ascii ''boom'', body_json = None\<rparr>
       \<and> status \<lparr>status = 500, statusText = ascii ''Internal Server Error'',
                    body_text = ascii ''boom'', body_json = None\<rparr> \<le> 299)
   \<and> env_fetch example_env (week_url example_env initial_ui (ascii ''2024'') (ascii ''1'') (ascii ''2''))
       = Responded \<lparr>status = 500, statusText = ascii ''Internal Server Error'',
                    body_text = ascii ''boom'', body_json = None\<rparr>
   \<and> loadWeek example_env (ascii ''2024'') (ascii ''1'') (ascii ''2'') initial_ui =
       initial_ui\<lparr>console := [Err (ascii ''loadWeek'') (JsError (ascii ''500 Internal Server Error - boom''))],
                  weekLabel := loi\<rparr>
   \<and> chartWeek (loadWeek example_env (ascii ''2024'') (ascii ''1'') (ascii ''2'') initial_ui)
       = chartWeek initial_ui"
proof -
  let ?resp = "\<lparr>status = 500, statusText = ascii ''Internal Server Error'',
                body_text = ascii ''boom'', body_json = None\<rparr>"
  have h: "\<not> (200 \<le> status ?resp \<and> status ?resp \<le> 299)" by simp
  have u: "env_fetch example_env (week_url example_env initial_ui (ascii ''2024'') (ascii ''1'') (ascii ''2''))
       = Responded ?resp"
    by code_simp
  have msg: "String_int (status ?resp) @ ascii '' '' @ statusText ?resp @ ascii '' - '' @ body_text ?resp
       = ascii ''500 Internal Server Error - boom''"
    by code_simp
  have c: "console initial_ui = []" by (simp add: initial_ui_def)
  note t = C6_failed_fetch_shows_placeholder_keeps_charts [OF h, where e = example_env
      and s = initial_ui and y = "ascii ''2024''" and m = "ascii ''1''" and w = "ascii ''2''",
      THEN conjunct2, THEN conjunct1, THEN mp, OF u]
  from t have l: "loadWeek example_env (ascii ''2024'') (ascii ''1'') (ascii ''2'') initial_ui =
       initial_ui\<lparr>console := [Err (ascii ''loadWeek'') (JsError (ascii ''500 Internal Server Error - boom''))],
                  weekLabel := loi\<rparr>"
    unfolding msg c by simp
  from h u l show ?thesis by simp
qed

subsection \<open>The grouped bars west of Greenwich\<close>

text \<open>
  \<^bold>\<open>C1.\<close> The claim is that the grouped bars are the seven days Monday to Sunday of the
  week of the anchor date, a day whose request failed counting 0, and its example has
  the request for Wednesday fail: pass 5, 10, 0, 3, 8, 2, 1 and fail 1, 2, 0, 0, 1, 0, 0.
  Seven hours east of Greenwich \<^verbatim>\<open>loadDay('2024-01-10')\<close> shows exactly that. Five hours
  west of Greenwich, with the same answers of the service, the bars are those of Tuesday
  9 to Monday 15 January: Monday 8 is missing, Monday 15 is the last bar, and the bar of
  Tuesday 9 is labelled \<^verbatim>\<open>T2\<close>, the label of Monday. The failed request of Wednesday still
  counts 0 and opens no dialog.
\<close>

theorem C1_bars_run_Tuesday_to_Monday_west_of_Greenwich:
  "ch_pass (chartDay (loadDay west_env (ascii ''2024-01-10'') initial_ui))
     = map Fin [10, 0, 3, 8, 2, 1, 4]
   \<and> ch_fail (chartDay (loadDay west_env (ascii ''2024-01-10'') initial_ui))
     = map Fin [2, 0, 0, 1, 0, 0, 1]
   \<and> ch_labels (chartDay (loadDay west_env (ascii ''2024-01-10'') initial_ui))
     = map ascii [''T2 01-09'', ''T3 01-10'', ''T4 01-11'', ''T5 01-12'', ''T6 01-13'',
                  ''T7 01-14'', ''CN 01-15'']
   \<and> weekday_of (ascii ''2024-01-09'') = Some 2
   \<and> alerts (loadDay west_env (ascii ''2024-01-10'') initial_ui) = []
   \<and> ch_pass (chartDay (loadDay east_env (ascii ''2024-01-10'') initial_ui))
     = map Fin [5, 10, 0, 3, 8, 2, 1]
   \<and> ch_fail (chartDay (loadDay east_env (ascii ''2024-01-10'') initial_ui))
     = map Fin [1, 2, 0, 0, 1, 0, 0]
   \<and> ch_labels (chartDay (loadDay east_env (ascii ''2024-01-10'') initial_ui))
     = map ascii [''T2 01-08'', ''T3 01-09'', ''T4 01-10'', ''T5 01-11'', ''T6 01-12'',
                  ''T7 01-13'', ''CN 01-14'']"
proof -
  have w: "chartDay (loadDay west_env (ascii ''2024-01-10'') initial_ui)
      = \<lparr>ch_labels = map ascii [''T2 01-09'', ''T3 01-10'', ''T4 01-11'', ''T5 01-12'', ''T6 01-13'',
                  ''T7 01-14'', ''CN 01-15''],
         ch_pass = map Fin [10, 0, 3, 8, 2, 1, 4], ch_fail = map Fin [2, 0, 0, 1, 0, 0, 1],
         ch_rate = []\<rparr>"
    by code_simp
  have e: "chartDay (loadDay east_env (ascii ''2024-01-10'') initial_ui)
      = \<lparr>ch_labels = map ascii [''T2 01-08'', ''T3 01-09'', ''T4 01-10'', ''T5 01-11'', ''T6 01-12'',
                  ''T7 01-13'', ''CN 01-14''],
         ch_pass = map Fin [5, 10, 0, 3, 8, 2, 1], ch_fail = map Fin [1, 2, 0, 0, 1, 0, 0],
         ch_rate = []\<rparr>"
    by code_simp
  have a: "alerts (loadDay west_env (ascii ''2024-01-10'') initial_ui) = []"
    using loadDay_frame [of west_env "ascii ''2024-01-10''" initial_ui]
    by (simp add: same_controls_def initial_ui_def)
  show ?thesis
    unfolding w e using jan9_tuesday a by simp
qed

subsection \<open>Late answers\<close>

lemma loadWeek_then_complete:
  assumes "j_payload j = Inr p" and "p_labels p = Some labels" and "p_pass p = Some pass"
      and "p_fail p = Some fail"
  shows "loadWeek_then (Inr j) s =
     s\<lparr>chartWeek := (chartWeek s)\<lparr>ch_labels := map (slice_from 5) labels,
                                    ch_pass := map count_of pass, ch_fail := map count_of fail\<rparr>,
       weekLabel := (case p_range p of None \<Rightarrow> [] | Some t \<Rightarrow> t)\<rparr>"
  using assms by (simp add: loadWeek_then_def loadWeek_try_def need_def)

lemma run_snoc: "run a (evs @ [ev]) = step (run a evs) ev"
  by (simp add: run_def)

text \<open>
  \<^bold>\<open>C2.\<close> The claim is that a run of a pipeline that a newer run has overtaken does not
  write its late answer over the newer run's chart. The script keeps no mark of the run
  or the selection an answer belongs to and compares nothing when the answer arrives:
  whenever the answer of a pending \<^verbatim>\<open>loadWeek\<close> arrives with a complete payload, it is
  written to the week chart and the week label, whatever was called or answered before.
  The chart shows the answer that came last, not the answer to the call that came last.
\<close>

theorem C2_late_answer_is_written:
  assumes "k \<in> set (map fst (app_pending (run a evs)))"
      and "fetchJSON_of r = Inr j" and "j_payload j = Inr p"
      and "p_labels p = Some labels" and "p_pass p = Some pass" and "p_fail p = Some fail"
  shows "chartWeek (app_ui (run a (evs @ [Answer k r]))) =
           (chartWeek (app_ui (run a evs)))
             \<lparr>ch_labels := map (slice_from 5) labels, ch_pass := map count_of pass,
              ch_fail := map count_of fail\<rparr>
         \<and> weekLabel (app_ui (run a (evs @ [Answer k r]))) = (case p_range p of None \<Rightarrow> [] | Some t \<Rightarrow> t)
         \<and> k \<notin> set (map fst (app_pending (run a (evs @ [Answer k r]))))"
  using assms(1)
  by (auto simp add: run_snoc assms(2) loadWeek_then_complete [OF assms(3-6)])

lemma race_B:
  "chartWeek (app_ui (run \<lparr>app_ui = initial_ui, app_pending = []\<rparr> race)) =
     \<lparr>ch_labels = [ascii ''01-08''], ch_pass = [Fin 7], ch_fail = [Fin 2], ch_rate = []\<rparr>"
  by code_simp

lemma race_A:
  "chartWeek (app_ui (run \<lparr>app_ui = initial_ui, app_pending = []\<rparr> (race @ [Answer 1 (ok_response week_A)]))) =
     \<lparr>ch_labels = [ascii ''01-01''], ch_pass = [Fin 1], ch_fail = [Fin 0], ch_rate = []\<rparr>"
  by code_simp

lemma race_pending:
  "map fst (app_pending (run \<lparr>app_ui = initial_ui, app_pending = []\<rparr> race)) = [1]"
  by code_simp


theorem C2_late_answer_counterexample:
  "chartWeek (app_ui (run \<lparr>app_ui = initial_ui, app_pending = []\<rparr> race)) =
     \<lparr>ch_labels = [ascii ''01-08''], ch_pass = [Fin 7], ch_fail = [Fin 2], ch_rate = []\<rparr>
   \<and> chartWeek (app_ui (run \<lparr>app_ui = initial_ui, app_pending = []\<rparr>
                          (race @ [Answer 1 (ok_response week_A)]))) =
     \<lparr>ch_labels = [ascii ''01-01''], ch_pass = [Fin 1], ch_fail = [Fin 0], ch_rate = []\<rparr>
   \<and> chartWeek (app_ui (run \<lparr>app_ui = initial_ui, app_pending = []\<rparr>
                          (race @ [Answer 1 (ok_response week_A)])))
     \<noteq> chartWeek (app_ui (run \<lparr>app_ui = initial_ui, app_pending = []\<rparr> race))"
  unfolding race_A race_B by simp

theorem C2_late_answer_witness:
  "1 \<in> set (map fst (app_pending (run \<lparr>app_ui = initial_ui, app_pending = []\<rparr> race)))
   \<and> fetchJSON_of (ok_response week_A) = Inr week_A
   \<and> chartWeek (app_ui (run \<lparr>app_ui = initial_ui, app_pending = []\<rparr>
                          (race @ [Answer 1 (ok_response week_A)]))) =
       (chartWeek (app_ui (run \<lparr>app_ui = initial_ui, app_pending = []\<rparr> race)))
         \<lparr>ch_labels := map (slice_from 5) [ascii ''2024-01-01''], ch_pass := map count_of [JNum 1],
          ch_fail := map count_of [JNum 0]\<rparr>
   \<and> weekLabel (app_ui (run \<lparr>app_ui = initial_ui, app_pending = []\<rparr>
                          (race @ [Answer 1 (ok_response week_A)]))) = ascii ''A''"
proof -
  let ?p = "\<lparr>p_labels = Some [ascii ''2024-01-01''], p_pass = Some [JNum 1],
             p_fail = Some [JNum 0], p_range = Some (ascii ''A''), p_month = None\<rparr>"
  have k: "1 \<in> set (map fst (app_pending (run \<lparr>app_ui = initial_ui, app_pending = []\<rparr> race)))"
    unfolding race_pending by simp
  have f: "fetchJSON_of (ok_response week_A) = Inr week_A"
    by (simp add: fetchJSON_of_def ok_response_def)
  have p: "j_payload week_A = Inr ?p"
    by (simp add: j_payload_def week_A_def)
  from C2_late_answer_is_written [OF k f p, of "[ascii ''2024-01-01'']" "[JNum 1]" "[JNum 0]"] k f
  show ?thesis by simp
qed

subsection \<open>Absent entries\<close>



lemma hour_cell_present:
  "arr = Some xs \<Longrightarrow> h < length xs \<Longrightarrow> xs ! h = JNum n \<Longrightarrow> hour_cell arr h = JNum n"
  by (simp add: hour_cell_def at_index_def)





lemma loadYear_try_complete:
  assumes "p_labels p = Some labels" and "p_pass p = Some pass" and "p_fail p = Some fail"
  shows "loadYear_try y (Inr (JsonObject p)) s =
     (s\<lparr>chartYear := (chartYear s)\<lparr>ch_labels := labels, ch_pass := map count_of pass,
                                    ch_fail := map count_of fail,
                                    ch_rate := loadYear_rate labels pass fail\<rparr>,
        yearLabel := y\<rparr>, None)"
  using assms by (simp add: loadYear_try_def j_payload_def need_def)















subsection \<open>The week-index selector\<close>

lemma loop_indices:
  "st \<le> days + 1 \<Longrightarrow>
   map (\<lambda>b. case b of (i, s, e) \<Rightarrow> i) (buildWeekIndex_loop days st idx) =
     [idx..idx + (days - st + 7) div 7 - 1]"
proof (induction days st idx rule: buildWeekIndex_loop.induct)
  case (1 days st idx)
  show ?case
  proof (cases "st \<le> days")
    case False
    with "1.prems" have "st = days + 1" by simp
    then show ?thesis by (simp add: buildWeekIndex_loop.simps [of days "days + 1" idx])
  next
    case True
    note le = this
    have d: "(days - st + 7) div 7 = (days - (st + 7) + 7) div 7 + 1" by simp
    show ?thesis
    proof (cases "st + 7 \<le> days + 1")
      case True
      have nn: "0 \<le> (days - (st + 7) + 7) div 7" using le by simp
      from le True "1.IH" have
        "map (\<lambda>b. case b of (i, s, e) \<Rightarrow> i) (buildWeekIndex_loop days (st + 7) (idx + 1)) =
           [idx + 1..idx + 1 + (days - (st + 7) + 7) div 7 - 1]" by simp
      with le nn show ?thesis
        by (simp add: buildWeekIndex_loop.simps [of days st idx] d upto_rec1 [of idx])
    next
      case False
      then have e: "buildWeekIndex_loop days (st + 7) (idx + 1) = []"
        by (simp add: buildWeekIndex_loop.simps [of days "st + 7"])
      from le False have "(days - st + 7) div 7 = 1" by simp
      with le e show ?thesis
        by (simp add: buildWeekIndex_loop.simps [of days st idx])
    qed
  qed
qed

lemma weekIndex_options_eq:
  "weekIndex_options (Fin y) (Fin m) = map String_int [1..(daysInMonth y m + 6) div 7]"
proof -
  have "1 \<le> daysInMonth y m + 1" using daysInMonth_bounds [of y m] by simp
  from loop_indices [OF this, of 1]
  have "map (\<lambda>b. case b of (i, s, e) \<Rightarrow> i) (buildWeekIndex_loop (daysInMonth y m) 1 1) =
      [1..(daysInMonth y m + 6) div 7]" by (simp add: add.commute)
  then have "map String_int (map (\<lambda>b. case b of (i, s, e) \<Rightarrow> i) (buildWeekIndex_loop (daysInMonth y m) 1 1)) =
      map String_int [1..(daysInMonth y m + 6) div 7]" by simp
  then show ?thesis
    by (simp add: weekIndex_options_def comp_def case_prod_unfold)
qed

lemma blocks_count: "4 \<le> (daysInMonth y m + 6) div 7 \<and> (daysInMonth y m + 6) div 7 \<le> 5"
  using daysInMonth_bounds [of y m] by arith

lemma set_options_value:
  "sel_value (set_options opts) = [] \<or> sel_value (set_options opts) \<in> set (sel_options (set_options opts))"
  by (cases opts) (simp_all add: set_options_def)

lemma set_value_value:
  "sel_value (set_value v el) = [] \<or> sel_value (set_value v el) \<in> set (sel_options (set_value v el))"
  by (simp add: set_value_def)

lemma set_value_options: "sel_options (set_value v el) = sel_options el"
  by (simp add: set_value_def)

lemma buildWeekIndex_consistent: "weekIndex_consistent (buildWeekIndex s)"
  using set_options_value
  by (simp add: weekIndex_consistent_def buildWeekIndex_def Let_def set_options_def)

lemma consistent_cong:
  assumes "weekIndex_consistent s" and "same_controls s s'"
  shows "weekIndex_consistent s'"
  using assms by (auto simp add: weekIndex_consistent_def same_controls_def)

lemma sync_consistent:
  "weekIndex_consistent s \<Longrightarrow> weekIndex_consistent (syncSelectionsFromDate tz d s)"
proof (cases "new_Date d")
  case None
  then show "weekIndex_consistent s \<Longrightarrow> ?thesis" by (simp add: syncSelectionsFromDate_def)
next
  case (Some t)
  define s1 where "s1 = s\<lparr>dayInput := d,
                     weekYear := set_value (String_int (getFullYear tz t)) (weekYear s),
                     monthYear := set_value (String_int (getFullYear tz t)) (monthYear s),
                     yearSelect := set_value (String_int (getFullYear tz t)) (yearSelect s),
                     weekMonth := set_value (String_int (getMonth tz t + 1)) (weekMonth s),
                     monthSelect := set_value (String_int (getMonth tz t + 1)) (monthSelect s)\<rparr>"
  define s2 where "s2 = buildWeekIndex s1"
  have c: "weekIndex_consistent s2" unfolding s2_def by (rule buildWeekIndex_consistent)
  have w: "weekYear s2 = weekYear s1" "weekMonth s2 = weekMonth s1"
    by (simp_all add: s2_def buildWeekIndex_def Let_def)
  have r: "syncSelectionsFromDate tz d s =
      s2\<lparr>weekIndex := set_value (String_int (weekIdx (getDate tz t))) (weekIndex s2)\<rparr>"
    by (simp add: syncSelectionsFromDate_def Some Let_def s1_def s2_def)
  show ?thesis
    unfolding r using c set_value_value [of "String_int (weekIdx (getDate tz t))" "weekIndex s2"]
    by (simp add: weekIndex_consistent_def set_value_options)
qed


lemma perform_consistent:
  assumes c: "weekIndex_consistent s"
  shows "weekIndex_consistent (perform e s a)"
proof (cases a)
  case (Pick_weekYear v)
  then show ?thesis by (simp add: weekYear_onchange_def buildWeekIndex_consistent)
next
  case (Pick_weekMonth v)
  then show ?thesis by (simp add: weekMonth_onchange_def buildWeekIndex_consistent)
next
  case (Pick_weekIndex v)
  with c set_value_value [of v "weekIndex s"] show ?thesis
    by (simp add: weekIndex_pick_def weekIndex_consistent_def set_value_options)
next
  case (Pick_monthYear v)
  with c show ?thesis by (auto simp add: weekIndex_consistent_def)
next
  case (Pick_monthSelect v)
  with c show ?thesis by (auto simp add: weekIndex_consistent_def)
next
  case (Pick_yearSelect v)
  with c show ?thesis by (auto simp add: weekIndex_consistent_def)
next
  case (Type_dayInput v)
  with c show ?thesis by (auto simp add: weekIndex_consistent_def)
next
  case (Pick_calendar dt)
  from c have "weekIndex_consistent (s\<lparr>dayInput := dt\<rparr>)" by (auto simp add: weekIndex_consistent_def)
  from consistent_cong [OF this] loadDay_frame [of e dt "s\<lparr>dayInput := dt\<rparr>"] Pick_calendar
  show ?thesis by (simp add: calendar_onclick_def)
next
  case Click_btnLoadDay
  show ?thesis
  proof (cases "dayInput s = []")
    case True
    with c Click_btnLoadDay show ?thesis
      by (auto simp add: btnLoadDay_onclick_def weekIndex_consistent_def)
  next
    case False
    from consistent_cong [OF sync_consistent [OF c, of "env_tz e" "dayInput s"]]
      loadDay_frame [of e "dayInput s" "syncSelectionsFromDate (env_tz e) (dayInput s) s"]
      False Click_btnLoadDay
    show ?thesis by (simp add: btnLoadDay_onclick_def Let_def)
  qed
next
  case Click_btnLoadWeek
  from consistent_cong [OF c] loadWeek_frame [of e _ _ _ s] Click_btnLoadWeek
  show ?thesis by (simp add: btnLoadWeek_onclick_def)
next
  case Click_btnLoadMonth
  from consistent_cong [OF c] loadMonth_frame [of e _ _ s] Click_btnLoadMonth
  show ?thesis by (simp add: btnLoadMonth_onclick_def)
next
  case Click_btnLoadYear
  from consistent_cong [OF c] loadYear_frame [of e _ s] Click_btnLoadYear
  show ?thesis by (simp add: btnLoadYear_onclick_def)
next
  case (Click_chartWeek hit)
  have "weekIndex_consistent (loadDay e l (syncSelectionsFromDate (env_tz e) l s))" for l
    using consistent_cong [OF sync_consistent [OF c, of "env_tz e" l]]
      loadDay_frame [of e l "syncSelectionsFromDate (env_tz e) l s"] by simp
  with c Click_chartWeek show ?thesis
    by (simp add: chartWeek_onclick_def Let_def split: option.splits)
next
  case (Click_chartMonth hit)
  have "weekIndex_consistent (loadWeek e y m w (s\<lparr>weekIndex := set_value v (weekIndex s)\<rparr>))" for y m w v
  proof -
    from c set_value_value [of v "weekIndex s"]
    have "weekIndex_consistent (s\<lparr>weekIndex := set_value v (weekIndex s)\<rparr>)"
      by (simp add: weekIndex_consistent_def set_value_options)
    from consistent_cong [OF this] loadWeek_frame [of e y m w "s\<lparr>weekIndex := set_value v (weekIndex s)\<rparr>"]
    show ?thesis by simp
  qed
  with c Click_chartMonth show ?thesis
    by (simp add: chartMonth_onclick_def Let_def split: option.splits)
next
  case (Click_chartYear hit)
  have "weekIndex_consistent (loadMonth e (sel_value (monthYear (buildWeekIndex s'))) m (buildWeekIndex s'))" for m s'
    using consistent_cong [OF buildWeekIndex_consistent [of s']]
      loadMonth_frame [of e "sel_value (monthYear (buildWeekIndex s'))" m "buildWeekIndex s'"] by simp
  with c Click_chartYear show ?thesis
    by (simp add: chartYear_onclick_def Let_def split: option.splits)
qed

lemma performs_consistent:
  "weekIndex_consistent s \<Longrightarrow> weekIndex_consistent (foldl (perform e) s as)"
  by (induction as arbitrary: s) (simp_all add: perform_consistent)

lemma start_selection_consistent: "weekIndex_consistent (start_selection e now)"
proof -
  have "weekIndex_consistent (populateSelects (env_tz e) now initial_ui)"
    by (simp add: populateSelects_def Let_def buildWeekIndex_consistent)
  then have "weekIndex_consistent ((populateSelects (env_tz e) now initial_ui)\<lparr>dayInput := toISODate now\<rparr>)"
    by (auto simp add: weekIndex_consistent_def)
  then show ?thesis
    by (simp add: start_selection_def Let_def sync_consistent)
qed

lemma start_consistent: "weekIndex_consistent (start e now)"
proof -
  define s1 where "s1 = start_selection e now"
  define s2 where "s2 = loadDay e (toISODate now) s1"
  define s3 where "s3 = loadWeek e (sel_value (weekYear s2)) (sel_value (weekMonth s2)) (sel_value (weekIndex s2)) s2"
  define s4 where "s4 = loadMonth e (sel_value (monthYear s3)) (sel_value (monthSelect s3)) s3"
  have st: "start e now = loadYear e (sel_value (yearSelect s4)) s4"
    by (simp add: start_def Let_def s1_def s2_def s3_def s4_def)
  have 1: "weekIndex_consistent s1" unfolding s1_def by (rule start_selection_consistent)
  have 2: "weekIndex_consistent s2"
    unfolding s2_def using consistent_cong [OF 1] loadDay_frame by blast
  have 3: "weekIndex_consistent s3"
    unfolding s3_def using consistent_cong [OF 2] loadWeek_frame by blast
  have 4: "weekIndex_consistent s4"
    unfolding s4_def using consistent_cong [OF 3] loadMonth_frame by blast
  show ?thesis
    unfolding st using consistent_cong [OF 4] loadYear_frame by blast
qed

lemma consistent_in_range:
  assumes "weekIndex_consistent s" and "parseInt (sel_value (weekYear s)) = Fin y"
      and "parseInt (sel_value (weekMonth s)) = Fin m"
  shows "sel_value (weekIndex s) = []
         \<or> (\<exists>k. 1 \<le> k \<and> k \<le> (daysInMonth y m + 6) div 7 \<and> sel_value (weekIndex s) = String_int k)"
proof -
  from assms have "sel_value (weekIndex s) = []
      \<or> sel_value (weekIndex s) \<in> String_int ` {1..(daysInMonth y m + 6) div 7}"
    by (auto simp add: weekIndex_consistent_def weekIndex_options_eq)
  then show ?thesis by fastforce
qed

lemma rebuilt_first:
  assumes "parseInt (sel_value (weekYear s)) = Fin y" and "parseInt (sel_value (weekMonth s)) = Fin m"
  shows "sel_options (weekIndex (buildWeekIndex s)) = map String_int [1..(daysInMonth y m + 6) div 7]
         \<and> sel_value (weekIndex (buildWeekIndex s)) = String_int 1"
proof -
  have "1 \<le> (daysInMonth y m + 6) div 7" using blocks_count [of y m] by simp
  then have "[1..(daysInMonth y m + 6) div 7] = 1 # [2..(daysInMonth y m + 6) div 7]"
    by (simp add: upto_rec1)
  then show ?thesis
    by (simp add: buildWeekIndex_def Let_def assms weekIndex_options_eq set_options_def)
qed


lemma parseInt_empty: "parseInt [] = NaN"
  by (simp add: parseInt_def)

lemma weekIndex_options_NaN: "weekIndex_options NaN m = [] \<and> weekIndex_options y NaN = []"
  by (cases y) (simp_all add: weekIndex_options_def)

lemma consistent_blank:
  assumes "weekIndex_consistent s"
      and "parseInt (sel_value (weekYear s)) = NaN \<or> parseInt (sel_value (weekMonth s)) = NaN"
  shows "sel_options (weekIndex s) = [] \<and> sel_value (weekIndex s) = []"
  using assms weekIndex_options_NaN by (auto simp add: weekIndex_consistent_def)

lemma consistent_options:
  assumes "weekIndex_consistent s" and "parseInt (sel_value (weekYear s)) = Fin y"
      and "parseInt (sel_value (weekMonth s)) = Fin m"
  shows "sel_options (weekIndex s) = map String_int [1..(daysInMonth y m + 6) div 7]"
  using assms by (simp add: weekIndex_consistent_def weekIndex_options_eq)

lemma rebuilt_blank:
  assumes "parseInt (sel_value (weekYear s)) = NaN \<or> parseInt (sel_value (weekMonth s)) = NaN"
  shows "sel_options (weekIndex (buildWeekIndex s)) = [] \<and> sel_value (weekIndex (buildWeekIndex s)) = []"
  using assms weekIndex_options_NaN
  by (auto simp add: buildWeekIndex_def Let_def set_options_def)

lemma set_value_blank:
  "v \<notin> set (sel_options el) \<or> parseInt v = NaN \<Longrightarrow> parseInt (sel_value (set_value v el)) = NaN"
  by (auto simp add: set_value_def parseInt_empty)

text \<open>
  \<^bold>\<open>C9.\<close> The claim is that a week index that a change of month or year leaves out of
  range is clamped to the last block of the new month. \<^verbatim>\<open>buildWeekIndex\<close>, which runs
  on every such change, replaces the options of the selector, and the selector then
  shows its first option: the index is reset to 1, also when the old one would still
  be in range. With week 5 of January 2023 selected, choosing February leaves week 1
  selected, not week 4.

  What holds after \<^verbatim>\<open>start\<close> and after every action of the user: the options of the
  week-index selector are those \<^verbatim>\<open>buildWeekIndex\<close> writes for the values of the week
  view's year and month selectors, and its value is one of them or empty. When both
  selectors hold a number, the options are the blocks \<open>1 \<dots> \<lceil>daysInMonth y m / 7\<rceil>\<close>
  (4 or 5 blocks), and the value is one of them, or empty when an index was written
  that is not among them. When one of the two selectors is empty (as the year selector
  is after a date was loaded whose year is not in its list) there are no options and no
  value. A change of the week view's year or month that leaves both selectors with a
  number selects block 1; any other leaves the week-index selector empty.
  (\<open>\<lceil>d / 7\<rceil>\<close> is \<open>(d + 6) div 7\<close>.)
\<close>

theorem C9_week_index_reset_to_first_block:
  "(weekIndex_consistent s \<longrightarrow>
      weekIndex_consistent (perform e s a) \<and> weekIndex_consistent (foldl (perform e) s as))
   \<and> weekIndex_consistent (start e now)
   \<and> (\<forall>y m. weekIndex_consistent s \<and> parseInt (sel_value (weekYear s)) = Fin y
           \<and> parseInt (sel_value (weekMonth s)) = Fin m \<longrightarrow>
         sel_options (weekIndex s) = map String_int [1..(daysInMonth y m + 6) div 7]
         \<and> (sel_value (weekIndex s) = []
            \<or> (\<exists>k. 1 \<le> k \<and> k \<le> (daysInMonth y m + 6) div 7 \<and> sel_value (weekIndex s) = String_int k)))
   \<and> (weekIndex_consistent s
        \<and> (parseInt (sel_value (weekYear s)) = NaN \<or> parseInt (sel_value (weekMonth s)) = NaN) \<longrightarrow>
         sel_options (weekIndex s) = [] \<and> sel_value (weekIndex s) = [])
   \<and> (\<forall>v y m. v \<in> set (sel_options (weekMonth s)) \<and> parseInt v = Fin m
           \<and> parseInt (sel_value (weekYear s)) = Fin y \<longrightarrow>
         sel_options (weekIndex (perform e s (Pick_weekMonth v)))
           = map String_int [1..(daysInMonth y m + 6) div 7]
         \<and> sel_value (weekIndex (perform e s (Pick_weekMonth v))) = String_int 1)
   \<and> (\<forall>v. v \<notin> set (sel_options (weekMonth s)) \<or> parseInt v = NaN
           \<or> parseInt (sel_value (weekYear s)) = NaN \<longrightarrow>
         sel_options (weekIndex (perform e s (Pick_weekMonth v))) = []
         \<and> sel_value (weekIndex (perform e s (Pick_weekMonth v))) = [])
   \<and> (\<forall>v y m. v \<in> set (sel_options (weekYear s)) \<and> parseInt v = Fin y
           \<and> parseInt (sel_value (weekMonth s)) = Fin m \<longrightarrow>
         sel_options (weekIndex (perform e s (Pick_weekYear v)))
           = map String_int [1..(daysInMonth y m + 6) div 7]
         \<and> sel_value (weekIndex (perform e s (Pick_weekYear v))) = String_int 1)
   \<and> (\<forall>v. v \<notin> set (sel_options (weekYear s)) \<or> parseInt v = NaN
           \<or> parseInt (sel_value (weekMonth s)) = NaN \<longrightarrow>
         sel_options (weekIndex (perform e s (Pick_weekYear v))) = []
         \<and> sel_value (weekIndex (perform e s (Pick_weekYear v))) = [])
   \<and> (\<forall>y m. 4 \<le> (daysInMonth y m + 6) div 7 \<and> (daysInMonth y m + 6) div 7 \<le> 5)"
proof -
  have c1: "weekIndex_consistent s \<longrightarrow>
      weekIndex_consistent (perform e s a) \<and> weekIndex_consistent (foldl (perform e) s as)"
    by (simp add: perform_consistent performs_consistent)
  have c2: "weekIndex_consistent (start e now)" by (rule start_consistent)
  have c3: "\<forall>y m. weekIndex_consistent s \<and> parseInt (sel_value (weekYear s)) = Fin y
           \<and> parseInt (sel_value (weekMonth s)) = Fin m \<longrightarrow>
         sel_options (weekIndex s) = map String_int [1..(daysInMonth y m + 6) div 7]
         \<and> (sel_value (weekIndex s) = []
            \<or> (\<exists>k. 1 \<le> k \<and> k \<le> (daysInMonth y m + 6) div 7 \<and> sel_value (weekIndex s) = String_int k))"
    using consistent_in_range consistent_options by blast
  have c3b: "weekIndex_consistent s
        \<and> (parseInt (sel_value (weekYear s)) = NaN \<or> parseInt (sel_value (weekMonth s)) = NaN) \<longrightarrow>
         sel_options (weekIndex s) = [] \<and> sel_value (weekIndex s) = []"
    using consistent_blank by blast
  have c4: "\<forall>v y m. v \<in> set (sel_options (weekMonth s)) \<and> parseInt v = Fin m
           \<and> parseInt (sel_value (weekYear s)) = Fin y \<longrightarrow>
         sel_options (weekIndex (perform e s (Pick_weekMonth v)))
           = map String_int [1..(daysInMonth y m + 6) div 7]
         \<and> sel_value (weekIndex (perform e s (Pick_weekMonth v))) = String_int 1"
  proof (intro allI impI)
    fix v y m
    assume a: "v \<in> set (sel_options (weekMonth s)) \<and> parseInt v = Fin m
           \<and> parseInt (sel_value (weekYear s)) = Fin y"
    let ?s = "s\<lparr>weekMonth := set_value v (weekMonth s)\<rparr>"
    from a have "parseInt (sel_value (weekYear ?s)) = Fin y" and "parseInt (sel_value (weekMonth ?s)) = Fin m"
      by (simp_all add: set_value_def)
    from rebuilt_first [OF this]
    show "sel_options (weekIndex (perform e s (Pick_weekMonth v)))
           = map String_int [1..(daysInMonth y m + 6) div 7]
         \<and> sel_value (weekIndex (perform e s (Pick_weekMonth v))) = String_int 1"
      by (simp add: weekMonth_onchange_def)
  qed
  have c4b: "\<forall>v. v \<notin> set (sel_options (weekMonth s)) \<or> parseInt v = NaN
           \<or> parseInt (sel_value (weekYear s)) = NaN \<longrightarrow>
         sel_options (weekIndex (perform e s (Pick_weekMonth v))) = []
         \<and> sel_value (weekIndex (perform e s (Pick_weekMonth v))) = []"
  proof (intro allI impI)
    fix v
    assume a: "v \<notin> set (sel_options (weekMonth s)) \<or> parseInt v = NaN
           \<or> parseInt (sel_value (weekYear s)) = NaN"
    let ?s = "s\<lparr>weekMonth := set_value v (weekMonth s)\<rparr>"
    from a set_value_blank [of v "weekMonth s"]
    have "parseInt (sel_value (weekYear ?s)) = NaN \<or> parseInt (sel_value (weekMonth ?s)) = NaN"
      by auto
    from rebuilt_blank [OF this]
    show "sel_options (weekIndex (perform e s (Pick_weekMonth v))) = []
         \<and> sel_value (weekIndex (perform e s (Pick_weekMonth v))) = []"
      by (simp add: weekMonth_onchange_def)
  qed
  have c5: "\<forall>v y m. v \<in> set (sel_options (weekYear s)) \<and> parseInt v = Fin y
           \<and> parseInt (sel_value (weekMonth s)) = Fin m \<longrightarrow>
         sel_options (weekIndex (perform e s (Pick_weekYear v)))
           = map String_int [1..(daysInMonth y m + 6) div 7]
         \<and> sel_value (weekIndex (perform e s (Pick_weekYear v))) = String_int 1"
  proof (intro allI impI)
    fix v y m
    assume a: "v \<in> set (sel_options (weekYear s)) \<and> parseInt v = Fin y
           \<and> parseInt (sel_value (weekMonth s)) = Fin m"
    let ?s = "s\<lparr>weekYear := set_value v (weekYear s)\<rparr>"
    from a have "parseInt (sel_value (weekYear ?s)) = Fin y" and "parseInt (sel_value (weekMonth ?s)) = Fin m"
      by (simp_all add: set_value_def)
    from rebuilt_first [OF this]
    show "sel_options (weekIndex (perform e s (Pick_weekYear v)))
           = map String_int [1..(daysInMonth y m + 6) div 7]
         \<and> sel_value (weekIndex (perform e s (Pick_weekYear v))) = String_int 1"
      by (simp add: weekYear_onchange_def)
  qed
  have c5b: "\<forall>v. v \<notin> set (sel_options (weekYear s)) \<or> parseInt v = NaN
           \<or> parseInt (sel_value (weekMonth s)) = NaN \<longrightarrow>
         sel_options (weekIndex (perform e s (Pick_weekYear v))) = []
         \<and> sel_value (weekIndex (perform e s (Pick_weekYear v))) = []"
  proof (intro allI impI)
    fix v
    assume a: "v \<notin> set (sel_options (weekYear s)) \<or> parseInt v = NaN
           \<or> parseInt (sel_value (weekMonth s)) = NaN"
    let ?s = "s\<lparr>weekYear := set_value v (weekYear s)\<rparr>"
    from a set_value_blank [of v "weekYear s"]
    have "parseInt (sel_value (weekYear ?s)) = NaN \<or> parseInt (sel_value (weekMonth ?s)) = NaN"
      by auto
    from rebuilt_blank [OF this]
    show "sel_options (weekIndex (perform e s (Pick_weekYear v))) = []
         \<and> sel_value (weekIndex (perform e s (Pick_weekYear v))) = []"
      by (simp add: weekYear_onchange_def)
  qed
  have c6: "\<forall>y m. 4 \<le> (daysInMonth y m + 6) div 7 \<and> (daysInMonth y m + 6) div 7 \<le> 5"
    using blocks_count by blast
  show ?thesis by (intro conjI c1 c2 c3 c3b c4 c4b c5 c5b c6)
qed

lemma jan_2023_week_5:
  "sel_value (weekIndex (perform example_env (populateSelects 0 1673740800000 initial_ui) (Pick_weekIndex (ascii ''5'')))) = ascii ''5''
   \<and> sel_options (weekIndex (perform example_env (populateSelects 0 1673740800000 initial_ui) (Pick_weekIndex (ascii ''5'')))) = map ascii [''1'', ''2'', ''3'', ''4'', ''5'']
   \<and> sel_value (weekYear (perform example_env (populateSelects 0 1673740800000 initial_ui) (Pick_weekIndex (ascii ''5'')))) = ascii ''2023'' \<and> sel_value (weekMonth (perform example_env (populateSelects 0 1673740800000 initial_ui) (Pick_weekIndex (ascii ''5'')))) = ascii ''1''
   \<and> sel_options (weekMonth (perform example_env (populateSelects 0 1673740800000 initial_ui) (Pick_weekIndex (ascii ''5'')))) = map String_int [1..12]"
  by code_simp

lemma feb_2023_after_change:
  "sel_value (weekIndex (perform example_env (perform example_env (populateSelects 0 1673740800000 initial_ui) (Pick_weekIndex (ascii ''5''))) (Pick_weekMonth (ascii ''2'')))) = ascii ''1''
   \<and> sel_options (weekIndex (perform example_env (perform example_env (populateSelects 0 1673740800000 initial_ui) (Pick_weekIndex (ascii ''5''))) (Pick_weekMonth (ascii ''2''))))
       = map ascii [''1'', ''2'', ''3'', ''4'']"
  by code_simp

theorem C9_week_index_not_clamped_counterexample:
  "sel_value (weekIndex (perform example_env (populateSelects 0 1673740800000 initial_ui) (Pick_weekIndex (ascii ''5'')))) = ascii ''5''
   \<and> sel_options (weekIndex (perform example_env (perform example_env (populateSelects 0 1673740800000 initial_ui) (Pick_weekIndex (ascii ''5''))) (Pick_weekMonth (ascii ''2''))))
       = map ascii [''1'', ''2'', ''3'', ''4'']
   \<and> sel_value (weekIndex (perform example_env (perform example_env (populateSelects 0 1673740800000 initial_ui) (Pick_weekIndex (ascii ''5''))) (Pick_weekMonth (ascii ''2'')))) = ascii ''1''
   \<and> sel_value (weekIndex (perform example_env (perform example_env (populateSelects 0 1673740800000 initial_ui) (Pick_weekIndex (ascii ''5''))) (Pick_weekMonth (ascii ''2'')))) \<noteq> ascii ''4''"
proof -
  have "ascii ''1'' \<noteq> ascii ''4''" by (simp add: ascii_def)
  with jan_2023_week_5 feb_2023_after_change show ?thesis by simp
qed

lemma may_2019_loaded:
  "weekIndex_consistent (perform example_env (perform example_env (populateSelects 0 1673740800000 initial_ui) (Type_dayInput (ascii ''2019-05-20''))) Click_btnLoadDay)
   \<and> (parseInt (sel_value (weekYear (perform example_env (perform example_env (populateSelects 0 1673740800000 initial_ui) (Type_dayInput (ascii ''2019-05-20''))) Click_btnLoadDay))) = NaN
      \<or> parseInt (sel_value (weekMonth (perform example_env (perform example_env (populateSelects 0 1673740800000 initial_ui) (Type_dayInput (ascii ''2019-05-20''))) Click_btnLoadDay))) = NaN)"
  by code_simp

lemma may_2019_pick:
  "ascii ''2'' \<notin> set (sel_options (weekMonth (perform example_env (perform example_env (populateSelects 0 1673740800000 initial_ui) (Type_dayInput (ascii ''2019-05-20''))) Click_btnLoadDay)))
   \<or> parseInt (ascii ''2'') = NaN
   \<or> parseInt (sel_value (weekYear (perform example_env (perform example_env (populateSelects 0 1673740800000 initial_ui) (Type_dayInput (ascii ''2019-05-20''))) Click_btnLoadDay))) = NaN"
  by code_simp

lemma may_2019_fields:
  "dayInput (perform example_env (perform example_env (populateSelects 0 1673740800000 initial_ui) (Type_dayInput (ascii ''2019-05-20''))) Click_btnLoadDay) = ascii ''2019-05-20''
   \<and> sel_value (weekYear (perform example_env (perform example_env (populateSelects 0 1673740800000 initial_ui) (Type_dayInput (ascii ''2019-05-20''))) Click_btnLoadDay)) = []
   \<and> sel_value (weekMonth (perform example_env (perform example_env (populateSelects 0 1673740800000 initial_ui) (Type_dayInput (ascii ''2019-05-20''))) Click_btnLoadDay)) = ascii ''5''"
  by code_simp

theorem C9_week_index_witness:
  "weekIndex_consistent (perform example_env (populateSelects 0 1673740800000 initial_ui) (Pick_weekIndex (ascii ''5'')))
   \<and> weekIndex_consistent (perform example_env (perform example_env (populateSelects 0 1673740800000 initial_ui) (Pick_weekIndex (ascii ''5''))) (Pick_weekMonth (ascii ''2'')))
   \<and> ascii ''2'' \<in> set (sel_options (weekMonth (perform example_env (populateSelects 0 1673740800000 initial_ui) (Pick_weekIndex (ascii ''5'')))))
   \<and> parseInt (ascii ''2'') = Fin 2 \<and> parseInt (sel_value (weekYear (perform example_env (populateSelects 0 1673740800000 initial_ui) (Pick_weekIndex (ascii ''5''))))) = Fin 2023
   \<and> sel_options (weekIndex (perform example_env (perform example_env (populateSelects 0 1673740800000 initial_ui) (Pick_weekIndex (ascii ''5''))) (Pick_weekMonth (ascii ''2''))))
       = map String_int [1..(daysInMonth 2023 2 + 6) div 7]
   \<and> sel_value (weekIndex (perform example_env (perform example_env (populateSelects 0 1673740800000 initial_ui) (Pick_weekIndex (ascii ''5''))) (Pick_weekMonth (ascii ''2'')))) = String_int 1
   \<and> dayInput (perform example_env (perform example_env (populateSelects 0 1673740800000 initial_ui) (Type_dayInput (ascii ''2019-05-20''))) Click_btnLoadDay) = ascii ''2019-05-20''
   \<and> sel_value (weekYear (perform example_env (perform example_env (populateSelects 0 1673740800000 initial_ui) (Type_dayInput (ascii ''2019-05-20''))) Click_btnLoadDay)) = []
   \<and> sel_value (weekMonth (perform example_env (perform example_env (populateSelects 0 1673740800000 initial_ui) (Type_dayInput (ascii ''2019-05-20''))) Click_btnLoadDay)) = ascii ''5''
   \<and> sel_options (weekIndex (perform example_env (perform example_env (populateSelects 0 1673740800000 initial_ui) (Type_dayInput (ascii ''2019-05-20''))) Click_btnLoadDay)) = []
   \<and> sel_value (weekIndex (perform example_env (perform example_env (populateSelects 0 1673740800000 initial_ui) (Type_dayInput (ascii ''2019-05-20''))) Click_btnLoadDay)) = []
   \<and> sel_options (weekIndex (perform example_env (perform example_env (perform example_env (populateSelects 0 1673740800000 initial_ui) (Type_dayInput (ascii ''2019-05-20''))) Click_btnLoadDay) (Pick_weekMonth (ascii ''2'')))) = []
   \<and> sel_value (weekIndex (perform example_env (perform example_env (perform example_env (populateSelects 0 1673740800000 initial_ui) (Type_dayInput (ascii ''2019-05-20''))) Click_btnLoadDay) (Pick_weekMonth (ascii ''2'')))) = []"
proof -
  have c: "weekIndex_consistent (perform example_env (populateSelects 0 1673740800000 initial_ui) (Pick_weekIndex (ascii ''5'')))" by code_simp
  have v: "ascii ''2'' \<in> set (sel_options (weekMonth (perform example_env (populateSelects 0 1673740800000 initial_ui) (Pick_weekIndex (ascii ''5''))))) \<and> parseInt (ascii ''2'') = Fin 2
      \<and> parseInt (sel_value (weekYear (perform example_env (populateSelects 0 1673740800000 initial_ui) (Pick_weekIndex (ascii ''5''))))) = Fin 2023"
    by code_simp
  note t = C9_week_index_reset_to_first_block [where s = "(perform example_env (populateSelects 0 1673740800000 initial_ui) (Pick_weekIndex (ascii ''5'')))" and e = example_env
      and a = "Pick_weekMonth (ascii ''2'')" and as = "[]"]
  note u = C9_week_index_reset_to_first_block [where s = "perform example_env (perform example_env (populateSelects 0 1673740800000 initial_ui) (Type_dayInput (ascii ''2019-05-20''))) Click_btnLoadDay"
      and e = example_env]
  from t [THEN conjunct1] c
  have 1: "weekIndex_consistent (perform example_env (perform example_env (populateSelects 0 1673740800000 initial_ui) (Pick_weekIndex (ascii ''5''))) (Pick_weekMonth (ascii ''2'')))" by blast
  from t [THEN conjunct2, THEN conjunct2, THEN conjunct2, THEN conjunct2, THEN conjunct1,
      THEN spec, THEN spec, THEN spec, THEN mp, OF v]
  have 2: "sel_options (weekIndex (perform example_env (perform example_env (populateSelects 0 1673740800000 initial_ui) (Pick_weekIndex (ascii ''5''))) (Pick_weekMonth (ascii ''2''))))
       = map String_int [1..(daysInMonth 2023 2 + 6) div 7]
   \<and> sel_value (weekIndex (perform example_env (perform example_env (populateSelects 0 1673740800000 initial_ui) (Pick_weekIndex (ascii ''5''))) (Pick_weekMonth (ascii ''2'')))) = String_int 1" .
  note 3 = u [THEN conjunct2, THEN conjunct2, THEN conjunct2, THEN conjunct1, THEN mp, OF may_2019_loaded]
  note 4 = u [THEN conjunct2, THEN conjunct2, THEN conjunct2, THEN conjunct2, THEN conjunct2,
      THEN conjunct1, THEN spec, THEN mp, OF may_2019_pick]
  from c 1 v 2 may_2019_fields 3 4 show ?thesis by blast
qed

subsection \<open>Clicks on the charts\<close>

lemma digits_val_snoc: "digits_val (ds @ [c]) = 10 * digits_val ds + (c - 48)"
  by (simp add: digits_val_def)

lemma digits_of_ok:
  "0 \<le> n \<Longrightarrow> digits_of n \<noteq> [] \<and> list_all is_digit (digits_of n) \<and> digits_val (digits_of n) = n"
proof (induction n rule: digits_of.induct)
  case (1 n)
  show ?case
  proof (cases "n < 10")
    case True
    with "1.prems" show ?thesis
      by (simp add: digits_of.simps [of n] is_digit_def digits_val_def)
  next
    case False
    with "1.prems" "1.IH" have ih: "list_all is_digit (digits_of (n div 10))"
      "digits_val (digits_of (n div 10)) = n div 10" by simp_all
    have "0 \<le> n mod 10 \<and> n mod 10 < 10" by simp
    then have "is_digit (48 + n mod 10)" by (simp add: is_digit_def)
    with False ih show ?thesis
      by (simp add: digits_of.simps [of n] digits_val_snoc)
  qed
qed

lemma String_int_digits:
  "0 \<le> n \<Longrightarrow> String_int n \<noteq> [] \<and> list_all is_digit (String_int n) \<and> digits_val (String_int n) = n"
  using digits_of_ok [of n] by (simp add: String_int_def)

lemma takeWhile_digits:
  assumes "list_all is_digit ds" and "rest = [] \<or> \<not> is_digit (hd rest)"
  shows "takeWhile is_digit (ds @ rest) = ds"
proof -
  from assms(2) have "takeWhile is_digit rest = []" by (cases rest) auto
  with assms(1) show ?thesis
    by (simp add: takeWhile_append2 list_all_iff)
qed

lemma parseInt_digits: "ds \<noteq> [] \<Longrightarrow> list_all is_digit ds \<Longrightarrow> parseInt ds = Fin (digits_val ds)"
proof -
  assume a: "ds \<noteq> []" "list_all is_digit ds"
  then have tw: "takeWhile is_digit ds = ds" by (simp add: list_all_iff takeWhile_eq_all_conv)
  show ?thesis unfolding parseInt_def Let_def tw using a(1) by simp
qed

lemma digit_not_space: "is_digit c \<Longrightarrow> \<not> is_space c"
  by (simp add: is_digit_def is_space_def)

lemma dropWhile_spaces:
  assumes "list_all is_space ws" and "ds \<noteq> []" and "list_all is_digit ds"
  shows "dropWhile is_space (ws @ ds @ rest) = ds @ rest"
proof -
  from assms(2,3) have "\<not> is_space (hd (ds @ rest))"
    by (cases ds) (simp_all add: digit_not_space)
  moreover from assms(2) have "ds @ rest \<noteq> []" by simp
  ultimately have "dropWhile is_space (ds @ rest) = ds @ rest"
    by (cases "ds @ rest") auto
  with assms(1) show ?thesis
    by (simp add: dropWhile_append2 list_all_iff)
qed

lemma match_word_prefix:
  "list_all2 (\<lambda>c cs. c \<in> set cs) w pat \<Longrightarrow> match_word pat (w @ rest) = Some rest"
  by (induction w pat rule: list_all2_induct) simp_all

lemma find_match_at_start:
  assumes w: "list_all2 (\<lambda>c cs. c \<in> set cs) w pat"
      and ws: "list_all is_space ws"
      and ds: "ds \<noteq> []" "list_all is_digit ds"
      and rest: "rest = [] \<or> \<not> is_digit (hd rest)"
  shows "find_match pat (w @ ws @ ds @ rest) = Some ds"
proof -
  have h: "match_here pat (w @ ws @ ds @ rest) = Some ds"
    using ds by (simp add: match_here_def match_word_prefix [OF w] dropWhile_spaces [OF ws ds]
        takeWhile_digits [OF ds(2) rest])
  show ?thesis
  proof (cases "w @ ws @ ds @ rest")
    case Nil
    with ds show ?thesis by simp
  next
    case (Cons c cs)
    with h show ?thesis by (simp del: append_eq_Cons_conv Cons_eq_append_conv)
  qed
qed


lemma chartWeek_hit:
  assumes "idx < length (ch_labels (chartWeek s))" and "is_day_format (ch_labels (chartWeek s) ! idx)"
  shows "chartWeek_onclick e (Some idx) s
         = loadDay e (ch_labels (chartWeek s) ! idx)
             (syncSelectionsFromDate (env_tz e) (ch_labels (chartWeek s) ! idx) s)"
  using assms by (simp add: chartWeek_onclick_def Let_def)

lemma sync_fields:
  assumes "new_Date d = Some t"
  shows "dayInput (syncSelectionsFromDate tz d s) = d"
    and "weekYear (syncSelectionsFromDate tz d s) = set_value (String_int (getFullYear tz t)) (weekYear s)"
    and "monthYear (syncSelectionsFromDate tz d s) = set_value (String_int (getFullYear tz t)) (monthYear s)"
    and "yearSelect (syncSelectionsFromDate tz d s) = set_value (String_int (getFullYear tz t)) (yearSelect s)"
    and "weekMonth (syncSelectionsFromDate tz d s) = set_value (String_int (getMonth tz t + 1)) (weekMonth s)"
    and "monthSelect (syncSelectionsFromDate tz d s) = set_value (String_int (getMonth tz t + 1)) (monthSelect s)"
  using assms by (simp_all add: syncSelectionsFromDate_def Let_def buildWeekIndex_def)

lemma chartMonth_hit:
  assumes "idx < length (ch_labels (chartMonth s))"
      and "ch_labels (chartMonth s) ! idx = w @ ws @ ds @ rest"
      and "list_all2 (\<lambda>c cs. c \<in> set cs) w tuan" and "list_all is_space ws"
      and "ds \<noteq> []" and "list_all is_digit ds" and "rest = [] \<or> \<not> is_digit (hd rest)"
  shows "chartMonth_onclick e (Some idx) s
         = loadWeek e (sel_value (weekYear s)) (sel_value (weekMonth s)) (String_int (digits_val ds))
             (s\<lparr>weekIndex := set_value (String_int (digits_val ds)) (weekIndex s)\<rparr>)"
proof -
  have f: "find_match tuan (w @ ws @ ds @ rest) = Some ds"
    using assms(3-7) by (rule find_match_at_start)
  from assms(5) have n: "w @ ws @ ds @ rest \<noteq> []" by simp
  show ?thesis
    using assms(1) n
    by (simp add: chartMonth_onclick_def assms(2) f parseInt_digits [OF assms(5,6)] Let_def
        del: append_is_Nil_conv)
qed

lemma chartYear_hit:
  assumes "idx < length (ch_labels (chartYear s))"
      and "ch_labels (chartYear s) ! idx = w @ ws @ ds @ rest"
      and "list_all2 (\<lambda>c cs. c \<in> set cs) w thang" and "list_all is_space ws"
      and "ds \<noteq> []" and "list_all is_digit ds" and "rest = [] \<or> \<not> is_digit (hd rest)"
  shows "chartYear_onclick e (Some idx) s
         = loadMonth e (sel_value (monthYear s)) (String_int (digits_val ds))
             (buildWeekIndex (s\<lparr>monthSelect := set_value (String_int (digits_val ds)) (monthSelect s)\<rparr>))"
proof -
  have f: "find_match thang (w @ ws @ ds @ rest) = Some ds"
    using assms(3-7) by (rule find_match_at_start)
  from assms(5) have n: "w @ ws @ ds @ rest \<noteq> []" by simp
  show ?thesis
    using assms(1) n
    by (simp add: chartYear_onclick_def assms(2) f parseInt_digits [OF assms(5,6)] Let_def
        buildWeekIndex_def del: append_is_Nil_conv)
qed

lemma find_match_empty: "find_match pat [] = None \<or> pat = []"
  by (cases pat) (simp_all add: match_here_def)

lemma week_click_dead:
  "\<not> (idx < length (ch_labels (chartWeek s)) \<and> is_day_format (ch_labels (chartWeek s) ! idx))
   \<Longrightarrow> chartWeek_onclick e (Some idx) s = s"
  by (auto simp add: chartWeek_onclick_def Let_def)

lemma month_click_dead:
  "\<not> (idx < length (ch_labels (chartMonth s)) \<and> find_match tuan (ch_labels (chartMonth s) ! idx) \<noteq> None)
   \<Longrightarrow> chartMonth_onclick e (Some idx) s = s"
  by (auto simp add: chartMonth_onclick_def Let_def)

lemma year_click_dead:
  "\<not> (idx < length (ch_labels (chartYear s)) \<and> find_match thang (ch_labels (chartYear s) ! idx) \<noteq> None)
   \<Longrightarrow> chartYear_onclick e (Some idx) s = s"
  by (auto simp add: chartYear_onclick_def Let_def)

lemma loadWeek_labels:
  assumes "p_labels p = Some ls"
  shows "ch_labels (chartWeek (loadWeek_then (Inr (JsonObject p)) s)) = map (slice_from 5) ls"
  using assms
  by (simp add: loadWeek_then_def loadWeek_try_def j_payload_def need_def Let_def
      split: option.splits)

lemma trimmed_not_day_format: "length l = 10 \<Longrightarrow> \<not> is_day_format (slice_from 5 l)"
  by (simp add: is_day_format_def slice_from_def)

lemma week_chart_click_after_loadWeek:
  assumes "p_labels p = Some ls" and "\<forall>l \<in> set ls. length l = 10"
  shows "chartWeek_onclick e hit (loadWeek_then (Inr (JsonObject p)) s)
         = loadWeek_then (Inr (JsonObject p)) s"
proof (cases hit)
  case None
  then show ?thesis by (simp add: chartWeek_onclick_def)
next
  case (Some idx)
  show ?thesis
    unfolding Some
  proof (rule week_click_dead, rule notI)
    assume a: "idx < length (ch_labels (chartWeek (loadWeek_then (Inr (JsonObject p)) s))) \<and>
      is_day_format (ch_labels (chartWeek (loadWeek_then (Inr (JsonObject p)) s)) ! idx)"
    then have i: "idx < length ls" and d: "is_day_format (slice_from 5 (ls ! idx))"
      by (auto simp add: loadWeek_labels [OF assms(1)])
    from i assms(2) have "length (ls ! idx) = 10" by simp
    with d show False by (simp add: trimmed_not_day_format)
  qed
qed


text \<open>
  The click handlers of the three charts. \<^bold>\<open>Week chart:\<close> on an element whose
  label \<open>d\<close> has the form \<^verbatim>\<open>YYYY-MM-DD\<close> the handler is \<open>syncSelectionsFromDate d\<close>
  followed by \<open>loadDay d\<close>; \<open>loadDay\<close> leaves the selectors and the date field as the
  synchronisation set them, and for a date of the calendar the date field holds \<open>d\<close> and
  the year and month selectors are set to the year and the month of \<open>d\<close> read in local
  time. \<^bold>\<open>Month chart:\<close> on an element whose label starts with the word \<^verbatim>\<open>Tu..n\<close> in
  either case, white space and the digits \<open>ds\<close> of a number \<open>N\<close>, the handler is
  \<open>loadWeek\<close> for week \<open>N\<close> of the year and month the week selectors hold, and the
  week-index selector is set to \<open>N\<close>. \<^bold>\<open>Year chart:\<close> on an element whose label starts
  with \<^verbatim>\<open>Th..ng\<close>, white space and the digits of \<open>M\<close>, the month selector is set to \<open>M\<close>,
  the week-index options are rebuilt, and the handler is \<open>loadMonth\<close> for month \<open>M\<close> of
  the year the month view holds. \<^bold>\<open>Otherwise:\<close> with no element under the pointer, or a
  label that the handler's pattern does not match, the page is left exactly as it was,
  the console and the dialogs included. (\<open>N\<close> and \<open>M\<close> are at most \<open>2\<^sup>5\<^sup>3\<close>, where
  \<^verbatim>\<open>parseInt\<close> is exact.)
\<close>

lemma chart_click_mapping:
  "(\<forall>idx d. idx < length (ch_labels (chartWeek s)) \<and> ch_labels (chartWeek s) ! idx = d
        \<and> is_day_format d \<longrightarrow>
      chartWeek_onclick e (Some idx) s = loadDay e d (syncSelectionsFromDate (env_tz e) d s)
      \<and> same_controls (syncSelectionsFromDate (env_tz e) d s) (chartWeek_onclick e (Some idx) s)
      \<and> (\<forall>t. new_Date d = Some t \<longrightarrow>
            dayInput (chartWeek_onclick e (Some idx) s) = d
            \<and> weekYear (chartWeek_onclick e (Some idx) s)
                = set_value (String_int (getFullYear (env_tz e) t)) (weekYear s)
            \<and> monthYear (chartWeek_onclick e (Some idx) s)
                = set_value (String_int (getFullYear (env_tz e) t)) (monthYear s)
            \<and> yearSelect (chartWeek_onclick e (Some idx) s)
                = set_value (String_int (getFullYear (env_tz e) t)) (yearSelect s)
            \<and> weekMonth (chartWeek_onclick e (Some idx) s)
                = set_value (String_int (getMonth (env_tz e) t + 1)) (weekMonth s)
            \<and> monthSelect (chartWeek_onclick e (Some idx) s)
                = set_value (String_int (getMonth (env_tz e) t + 1)) (monthSelect s)))
   \<and> (\<forall>idx w ws ds rest. idx < length (ch_labels (chartMonth s))
        \<and> ch_labels (chartMonth s) ! idx = w @ ws @ ds @ rest
        \<and> list_all2 (\<lambda>c cs. c \<in> set cs) w tuan \<and> list_all is_space ws
        \<and> ds \<noteq> [] \<and> list_all is_digit ds \<and> (rest = [] \<or> \<not> is_digit (hd rest))
        \<and> digits_val ds \<le> 2 ^ 53 \<longrightarrow>
      chartMonth_onclick e (Some idx) s
        = loadWeek e (sel_value (weekYear s)) (sel_value (weekMonth s)) (String_int (digits_val ds))
            (s\<lparr>weekIndex := set_value (String_int (digits_val ds)) (weekIndex s)\<rparr>)
      \<and> weekIndex (chartMonth_onclick e (Some idx) s)
          = set_value (String_int (digits_val ds)) (weekIndex s))
   \<and> (\<forall>idx w ws ds rest. idx < length (ch_labels (chartYear s))
        \<and> ch_labels (chartYear s) ! idx = w @ ws @ ds @ rest
        \<and> list_all2 (\<lambda>c cs. c \<in> set cs) w thang \<and> list_all is_space ws
        \<and> ds \<noteq> [] \<and> list_all is_digit ds \<and> (rest = [] \<or> \<not> is_digit (hd rest))
        \<and> digits_val ds \<le> 2 ^ 53 \<longrightarrow>
      chartYear_onclick e (Some idx) s
        = loadMonth e (sel_value (monthYear s)) (String_int (digits_val ds))
            (buildWeekIndex (s\<lparr>monthSelect := set_value (String_int (digits_val ds)) (monthSelect s)\<rparr>))
      \<and> monthSelect (chartYear_onclick e (Some idx) s)
          = set_value (String_int (digits_val ds)) (monthSelect s)
      \<and> weekIndex (chartYear_onclick e (Some idx) s)
          = set_options (weekIndex_options (parseInt (sel_value (weekYear s)))
                                           (parseInt (sel_value (weekMonth s)))))
   \<and> chartWeek_onclick e None s = s \<and> chartMonth_onclick e None s = s
   \<and> chartYear_onclick e None s = s
   \<and> (\<forall>idx. \<not> (idx < length (ch_labels (chartWeek s))
                \<and> is_day_format (ch_labels (chartWeek s) ! idx)) \<longrightarrow>
        chartWeek_onclick e (Some idx) s = s)
   \<and> (\<forall>idx. \<not> (idx < length (ch_labels (chartMonth s))
                \<and> find_match tuan (ch_labels (chartMonth s) ! idx) \<noteq> None) \<longrightarrow>
        chartMonth_onclick e (Some idx) s = s)
   \<and> (\<forall>idx. \<not> (idx < length (ch_labels (chartYear s))
                \<and> find_match thang (ch_labels (chartYear s) ! idx) \<noteq> None) \<longrightarrow>
        chartYear_onclick e (Some idx) s = s)"
proof -
  have c1: "\<forall>idx d. idx < length (ch_labels (chartWeek s)) \<and> ch_labels (chartWeek s) ! idx = d
        \<and> is_day_format d \<longrightarrow>
      chartWeek_onclick e (Some idx) s = loadDay e d (syncSelectionsFromDate (env_tz e) d s)
      \<and> same_controls (syncSelectionsFromDate (env_tz e) d s) (chartWeek_onclick e (Some idx) s)
      \<and> (\<forall>t. new_Date d = Some t \<longrightarrow>
            dayInput (chartWeek_onclick e (Some idx) s) = d
            \<and> weekYear (chartWeek_onclick e (Some idx) s)
                = set_value (String_int (getFullYear (env_tz e) t)) (weekYear s)
            \<and> monthYear (chartWeek_onclick e (Some idx) s)
                = set_value (String_int (getFullYear (env_tz e) t)) (monthYear s)
            \<and> yearSelect (chartWeek_onclick e (Some idx) s)
                = set_value (String_int (getFullYear (env_tz e) t)) (yearSelect s)
            \<and> weekMonth (chartWeek_onclick e (Some idx) s)
                = set_value (String_int (getMonth (env_tz e) t + 1)) (weekMonth s)
            \<and> monthSelect (chartWeek_onclick e (Some idx) s)
                = set_value (String_int (getMonth (env_tz e) t + 1)) (monthSelect s))"
  proof (intro allI impI, elim conjE)
    fix idx d
    assume a: "idx < length (ch_labels (chartWeek s))" "ch_labels (chartWeek s) ! idx = d"
      "is_day_format d"
    define s1 where "s1 = syncSelectionsFromDate (env_tz e) d s"
    have h: "chartWeek_onclick e (Some idx) s = loadDay e d s1"
      using chartWeek_hit [of idx s e] a by (simp add: s1_def)
    have k: "same_controls s1 (loadDay e d s1)"
      using loadDay_frame [of e d s1] by simp
    have f: "dayInput (loadDay e d s1) = d
            \<and> weekYear (loadDay e d s1) = set_value (String_int (getFullYear (env_tz e) t)) (weekYear s)
            \<and> monthYear (loadDay e d s1) = set_value (String_int (getFullYear (env_tz e) t)) (monthYear s)
            \<and> yearSelect (loadDay e d s1) = set_value (String_int (getFullYear (env_tz e) t)) (yearSelect s)
            \<and> weekMonth (loadDay e d s1) = set_value (String_int (getMonth (env_tz e) t + 1)) (weekMonth s)
            \<and> monthSelect (loadDay e d s1) = set_value (String_int (getMonth (env_tz e) t + 1)) (monthSelect s)"
      if "new_Date d = Some t" for t
      using k sync_fields [OF that, of "env_tz e" s] by (simp add: same_controls_def s1_def)
    show "chartWeek_onclick e (Some idx) s = loadDay e d (syncSelectionsFromDate (env_tz e) d s)
      \<and> same_controls (syncSelectionsFromDate (env_tz e) d s) (chartWeek_onclick e (Some idx) s)
      \<and> (\<forall>t. new_Date d = Some t \<longrightarrow>
            dayInput (chartWeek_onclick e (Some idx) s) = d
            \<and> weekYear (chartWeek_onclick e (Some idx) s)
                = set_value (String_int (getFullYear (env_tz e) t)) (weekYear s)
            \<and> monthYear (chartWeek_onclick e (Some idx) s)
                = set_value (String_int (getFullYear (env_tz e) t)) (monthYear s)
            \<and> yearSelect (chartWeek_onclick e (Some idx) s)
                = set_value (String_int (getFullYear (env_tz e) t)) (yearSelect s)
            \<and> weekMonth (chartWeek_onclick e (Some idx) s)
                = set_value (String_int (getMonth (env_tz e) t + 1)) (weekMonth s)
            \<and> monthSelect (chartWeek_onclick e (Some idx) s)
                = set_value (String_int (getMonth (env_tz e) t + 1)) (monthSelect s))"
      unfolding h using k f by (simp add: s1_def)
  qed
  have c2: "\<forall>idx w ws ds rest. idx < length (ch_labels (chartMonth s))
        \<and> ch_labels (chartMonth s) ! idx = w @ ws @ ds @ rest
        \<and> list_all2 (\<lambda>c cs. c \<in> set cs) w tuan \<and> list_all is_space ws
        \<and> ds \<noteq> [] \<and> list_all is_digit ds \<and> (rest = [] \<or> \<not> is_digit (hd rest))
        \<and> digits_val ds \<le> 2 ^ 53 \<longrightarrow>
      chartMonth_onclick e (Some idx) s
        = loadWeek e (sel_value (weekYear s)) (sel_value (weekMonth s)) (String_int (digits_val ds))
            (s\<lparr>weekIndex := set_value (String_int (digits_val ds)) (weekIndex s)\<rparr>)
      \<and> weekIndex (chartMonth_onclick e (Some idx) s)
          = set_value (String_int (digits_val ds)) (weekIndex s)"
  proof (intro allI impI, elim conjE)
    fix idx w ws ds rest
    assume a: "idx < length (ch_labels (chartMonth s))"
      "ch_labels (chartMonth s) ! idx = w @ ws @ ds @ rest"
      "list_all2 (\<lambda>c cs. c \<in> set cs) w tuan" "list_all is_space ws"
      "ds \<noteq> []" "list_all is_digit ds" "rest = [] \<or> \<not> is_digit (hd rest)"
    define s1 where "s1 = s\<lparr>weekIndex := set_value (String_int (digits_val ds)) (weekIndex s)\<rparr>"
    have h: "chartMonth_onclick e (Some idx) s
        = loadWeek e (sel_value (weekYear s)) (sel_value (weekMonth s)) (String_int (digits_val ds)) s1"
      unfolding s1_def using a by (rule chartMonth_hit)
    have k: "same_controls s1 (loadWeek e (sel_value (weekYear s)) (sel_value (weekMonth s))
                                 (String_int (digits_val ds)) s1)"
      using loadWeek_frame [of e _ _ _ s1] by simp
    show "chartMonth_onclick e (Some idx) s
        = loadWeek e (sel_value (weekYear s)) (sel_value (weekMonth s)) (String_int (digits_val ds))
            (s\<lparr>weekIndex := set_value (String_int (digits_val ds)) (weekIndex s)\<rparr>)
      \<and> weekIndex (chartMonth_onclick e (Some idx) s)
          = set_value (String_int (digits_val ds)) (weekIndex s)"
      unfolding h using k by (simp add: same_controls_def s1_def)
  qed
  have c3: "\<forall>idx w ws ds rest. idx < length (ch_labels (chartYear s))
        \<and> ch_labels (chartYear s) ! idx = w @ ws @ ds @ rest
        \<and> list_all2 (\<lambda>c cs. c \<in> set cs) w thang \<and> list_all is_space ws
        \<and> ds \<noteq> [] \<and> list_all is_digit ds \<and> (rest = [] \<or> \<not> is_digit (hd rest))
        \<and> digits_val ds \<le> 2 ^ 53 \<longrightarrow>
      chartYear_onclick e (Some idx) s
        = loadMonth e (sel_value (monthYear s)) (String_int (digits_val ds))
            (buildWeekIndex (s\<lparr>monthSelect := set_value (String_int (digits_val ds)) (monthSelect s)\<rparr>))
      \<and> monthSelect (chartYear_onclick e (Some idx) s)
          = set_value (String_int (digits_val ds)) (monthSelect s)
      \<and> weekIndex (chartYear_onclick e (Some idx) s)
          = set_options (weekIndex_options (parseInt (sel_value (weekYear s)))
                                           (parseInt (sel_value (weekMonth s))))"
  proof (intro allI impI, elim conjE)
    fix idx w ws ds rest
    assume a: "idx < length (ch_labels (chartYear s))"
      "ch_labels (chartYear s) ! idx = w @ ws @ ds @ rest"
      "list_all2 (\<lambda>c cs. c \<in> set cs) w thang" "list_all is_space ws"
      "ds \<noteq> []" "list_all is_digit ds" "rest = [] \<or> \<not> is_digit (hd rest)"
    define s1 where
      "s1 = buildWeekIndex (s\<lparr>monthSelect := set_value (String_int (digits_val ds)) (monthSelect s)\<rparr>)"
    have h: "chartYear_onclick e (Some idx) s
        = loadMonth e (sel_value (monthYear s)) (String_int (digits_val ds)) s1"
      unfolding s1_def using a by (rule chartYear_hit)
    have k: "same_controls s1 (loadMonth e (sel_value (monthYear s)) (String_int (digits_val ds)) s1)"
      using loadMonth_frame [of e _ _ s1] by simp
    show "chartYear_onclick e (Some idx) s
        = loadMonth e (sel_value (monthYear s)) (String_int (digits_val ds))
            (buildWeekIndex (s\<lparr>monthSelect := set_value (String_int (digits_val ds)) (monthSelect s)\<rparr>))
      \<and> monthSelect (chartYear_onclick e (Some idx) s)
          = set_value (String_int (digits_val ds)) (monthSelect s)
      \<and> weekIndex (chartYear_onclick e (Some idx) s)
          = set_options (weekIndex_options (parseInt (sel_value (weekYear s)))
                                           (parseInt (sel_value (weekMonth s))))"
      unfolding h using k by (simp add: same_controls_def s1_def buildWeekIndex_def Let_def)
  qed
  have c4: "chartWeek_onclick e None s = s" by (simp add: chartWeek_onclick_def)
  have c5: "chartMonth_onclick e None s = s" by (simp add: chartMonth_onclick_def)
  have c6: "chartYear_onclick e None s = s" by (simp add: chartYear_onclick_def)
  have c7: "\<forall>idx. \<not> (idx < length (ch_labels (chartWeek s))
                \<and> is_day_format (ch_labels (chartWeek s) ! idx)) \<longrightarrow>
        chartWeek_onclick e (Some idx) s = s"
    using week_click_dead by blast
  have c8: "\<forall>idx. \<not> (idx < length (ch_labels (chartMonth s))
                \<and> find_match tuan (ch_labels (chartMonth s) ! idx) \<noteq> None) \<longrightarrow>
        chartMonth_onclick e (Some idx) s = s"
    using month_click_dead by blast
  have c9: "\<forall>idx. \<not> (idx < length (ch_labels (chartYear s))
                \<and> find_match thang (ch_labels (chartYear s) ! idx) \<noteq> None) \<longrightarrow>
        chartYear_onclick e (Some idx) s = s"
    using year_click_dead by blast
  show ?thesis by (intro conjI c1 c2 c3 c4 c5 c6 c7 c8 c9)
qed


lemma drill_week_label:
  "0 < length (ch_labels (chartWeek drill_page))
   \<and> ch_labels (chartWeek drill_page) ! 0 = ascii ''2024-01-10''
   \<and> is_day_format (ascii ''2024-01-10'')"
  by code_simp

lemma drill_date: "new_Date (ascii ''2024-01-10'') = Some 1704844800000"
  by code_simp

lemma drill_month_label:
  "0 < length (ch_labels (chartMonth drill_page))
   \<and> ch_labels (chartMonth drill_page) ! 0 = [84, 117, 7847, 110] @ [32] @ [51] @ []
   \<and> list_all2 (\<lambda>c cs. c \<in> set cs) [84, 117, 7847, 110] tuan \<and> list_all is_space [32]
   \<and> [51] \<noteq> ([] :: int list) \<and> list_all is_digit [51]
   \<and> (([] :: int list) = [] \<or> \<not> is_digit (hd []))
   \<and> digits_val [51] \<le> 2 ^ 53"
  by code_simp

lemma drill_year_label:
  "0 < length (ch_labels (chartYear drill_page))
   \<and> ch_labels (chartYear drill_page) ! 0 = [84, 104, 225, 110, 103] @ [32] @ [55] @ []
   \<and> list_all2 (\<lambda>c cs. c \<in> set cs) [84, 104, 225, 110, 103] thang \<and> list_all is_space [32]
   \<and> [55] \<noteq> ([] :: int list) \<and> list_all is_digit [55]
   \<and> (([] :: int list) = [] \<or> \<not> is_digit (hd []))
   \<and> digits_val [55] \<le> 2 ^ 53"
  by code_simp

lemma drill_values:
  "env_tz example_env = 420"
  "sel_value (weekYear drill_page) = ascii ''2024''"
  "sel_value (weekMonth drill_page) = ascii ''1''"
  "sel_value (monthYear drill_page) = ascii ''2024''"
  "String_int (digits_val [51]) = ascii ''3''"
  "String_int (digits_val [55]) = ascii ''7''"
  "sel_value (set_value (String_int (getMonth 420 1704844800000 + 1)) (weekMonth drill_page)) = ascii ''1''"
  "sel_value (set_value (ascii ''3'') (weekIndex drill_page)) = ascii ''3''"
  "sel_value (set_value (ascii ''7'') (monthSelect drill_page)) = ascii ''7''"
  by code_simp+

lemma drill_other_labels:
  "\<not> (1 < length (ch_labels (chartWeek drill_page))
       \<and> is_day_format (ch_labels (chartWeek drill_page) ! 1))"
  "\<not> (1 < length (ch_labels (chartMonth drill_page))
       \<and> find_match tuan (ch_labels (chartMonth drill_page) ! 1) \<noteq> None)"
  "\<not> (1 < length (ch_labels (chartYear drill_page))
       \<and> find_match thang (ch_labels (chartYear drill_page) ! 1) \<noteq> None)"
  by code_simp+

lemma chart_click_example:
  "chartWeek_onclick example_env (Some 0) drill_page
     = loadDay example_env (ascii ''2024-01-10'')
         (syncSelectionsFromDate 420 (ascii ''2024-01-10'') drill_page)
   \<and> dayInput (chartWeek_onclick example_env (Some 0) drill_page) = ascii ''2024-01-10''
   \<and> sel_value (weekMonth (chartWeek_onclick example_env (Some 0) drill_page)) = ascii ''1''
   \<and> chartMonth_onclick example_env (Some 0) drill_page
     = loadWeek example_env (ascii ''2024'') (ascii ''1'') (ascii ''3'')
         (drill_page\<lparr>weekIndex := set_value (ascii ''3'') (weekIndex drill_page)\<rparr>)
   \<and> sel_value (weekIndex (chartMonth_onclick example_env (Some 0) drill_page)) = ascii ''3''
   \<and> chartYear_onclick example_env (Some 0) drill_page
     = loadMonth example_env (ascii ''2024'') (ascii ''7'')
         (buildWeekIndex (drill_page\<lparr>monthSelect := set_value (ascii ''7'') (monthSelect drill_page)\<rparr>))
   \<and> sel_value (monthSelect (chartYear_onclick example_env (Some 0) drill_page)) = ascii ''7''
   \<and> chartWeek_onclick example_env None drill_page = drill_page
   \<and> chartWeek_onclick example_env (Some 1) drill_page = drill_page
   \<and> chartMonth_onclick example_env (Some 1) drill_page = drill_page
   \<and> chartYear_onclick example_env (Some 1) drill_page = drill_page"
proof -
  note t = chart_click_mapping [of drill_page example_env]
  note w = t [THEN conjunct1, rule_format, OF drill_week_label]
  note wd = w [THEN conjunct2, THEN conjunct2, rule_format, OF drill_date]
  note m = t [THEN conjunct2, THEN conjunct1, rule_format, OF drill_month_label]
  note y = t [THEN conjunct2, THEN conjunct2, THEN conjunct1, rule_format, OF drill_year_label]
  have a1: "chartWeek_onclick example_env (Some 0) drill_page
     = loadDay example_env (ascii ''2024-01-10'')
         (syncSelectionsFromDate 420 (ascii ''2024-01-10'') drill_page)"
    using w [THEN conjunct1] by (simp only: drill_values)
  have a2: "dayInput (chartWeek_onclick example_env (Some 0) drill_page) = ascii ''2024-01-10''"
    using wd [THEN conjunct1] .
  have a3: "sel_value (weekMonth (chartWeek_onclick example_env (Some 0) drill_page)) = ascii ''1''"
    using wd [THEN conjunct2, THEN conjunct2, THEN conjunct2, THEN conjunct2, THEN conjunct1]
    by (simp only: drill_values)
  have a4: "chartMonth_onclick example_env (Some 0) drill_page
     = loadWeek example_env (ascii ''2024'') (ascii ''1'') (ascii ''3'')
         (drill_page\<lparr>weekIndex := set_value (ascii ''3'') (weekIndex drill_page)\<rparr>)"
    using m [THEN conjunct1] by (simp only: drill_values)
  have a5: "sel_value (weekIndex (chartMonth_onclick example_env (Some 0) drill_page)) = ascii ''3''"
    using m [THEN conjunct2] by (simp only: drill_values)
  have a6: "chartYear_onclick example_env (Some 0) drill_page
     = loadMonth example_env (ascii ''2024'') (ascii ''7'')
         (buildWeekIndex (drill_page\<lparr>monthSelect := set_value (ascii ''7'') (monthSelect drill_page)\<rparr>))"
    using y [THEN conjunct1] by (simp only: drill_values)
  have a7: "sel_value (monthSelect (chartYear_onclick example_env (Some 0) drill_page)) = ascii ''7''"
    using y [THEN conjunct2, THEN conjunct1] by (simp only: drill_values)
  note a8 = t [THEN conjunct2, THEN conjunct2, THEN conjunct2, THEN conjunct1]
  note a9 = t [THEN conjunct2, THEN conjunct2, THEN conjunct2, THEN conjunct2, THEN conjunct2,
      THEN conjunct2, THEN conjunct1, rule_format, OF drill_other_labels(1)]
  note a10 = t [THEN conjunct2, THEN conjunct2, THEN conjunct2, THEN conjunct2, THEN conjunct2,
      THEN conjunct2, THEN conjunct2, THEN conjunct1, rule_format, OF drill_other_labels(2)]
  note a11 = t [THEN conjunct2, THEN conjunct2, THEN conjunct2, THEN conjunct2, THEN conjunct2,
      THEN conjunct2, THEN conjunct2, THEN conjunct2, rule_format, OF drill_other_labels(3)]
  show ?thesis by (intro conjI a1 a2 a3 a4 a5 a6 a7 a8 a9 a10 a11)
qed

text \<open>
  The two writers of the labels of the week chart: what \<^verbatim>\<open>loadWeek\<close> and \<^verbatim>\<open>loadDay\<close>
  leave there is what was there, or \<^verbatim>\<open>l.slice(5)\<close> of the labels of a payload; and such a
  label has the form of a date only if the payload's label has 15 characters.
\<close>

lemma loadWeek_writes_trimmed:
  "ch_labels (chartWeek (loadWeek e y m w s)) = ch_labels (chartWeek s)
   \<or> (\<exists>ls. ch_labels (chartWeek (loadWeek e y m w s)) = map (slice_from 5) ls)"
proof -
  define r where "r = fetchJSON e (week_url e s y m w)"
  have h: "ch_labels (chartWeek (fst (loadWeek_try r s))) = ch_labels (chartWeek s)
      \<or> (\<exists>ls. ch_labels (chartWeek (fst (loadWeek_try r s))) = map (slice_from 5) ls)"
    by (auto simp add: loadWeek_try_def Let_def split: sum.splits)
  obtain s1 r1 where 1: "loadWeek_try r s = (s1, r1)" by (cases "loadWeek_try r s")
  with h have "ch_labels (chartWeek s1) = ch_labels (chartWeek s)
      \<or> (\<exists>ls. ch_labels (chartWeek s1) = map (slice_from 5) ls)" by simp
  then show ?thesis
    using 1 by (cases r1) (simp_all add: loadWeek_def loadWeek_then_def r_def)
qed

lemma loadDay_writes_trimmed:
  "ch_labels (chartWeek (loadDay e d s)) = ch_labels (chartWeek s)
   \<or> (\<exists>ls. ch_labels (chartWeek (loadDay e d s)) = map (slice_from 5) ls)"
proof -
  have r: "chartWeek (fst (renderDayLog d j s)) = chartWeek s" for j s
    by (simp add: renderDayLog_def Let_def split: sum.splits)
  have g: "chartWeek (fst (loadDay_grouped e d s)) = chartWeek s" for s
    by (simp add: loadDay_grouped_def Let_def split: sum.splits prod.splits)
  have w: "ch_labels (chartWeek (fst (loadDay_growth e d s))) = ch_labels (chartWeek s)
      \<or> (\<exists>ls. ch_labels (chartWeek (fst (loadDay_growth e d s))) = map (slice_from 5) ls)" for s
    by (auto simp add: loadDay_growth_def growth_week_def Let_def
        split: sum.splits prod.splits if_splits)
  have t: "ch_labels (chartWeek (fst (loadDay_try e d s))) = ch_labels (chartWeek s)
      \<or> (\<exists>ls. ch_labels (chartWeek (fst (loadDay_try e d s))) = map (slice_from 5) ls)"
  proof (cases "fetchJSON e (day_url e s d)")
    case (Inl err)
    then show ?thesis by (simp add: loadDay_try_def)
  next
    case (Inr hourly)
    obtain s1 r1 where 1: "renderDayLog d hourly s = (s1, r1)" by (cases "renderDayLog d hourly s")
    obtain s2 r2 where 2: "loadDay_grouped e d s1 = (s2, r2)" by (cases "loadDay_grouped e d s1")
    obtain s3 r3 where 3: "loadDay_growth e d s2 = (s3, r3)" by (cases "loadDay_growth e d s2")
    from r [of hourly s] g [of s1] w [of s2] 1 2 3
    have "chartWeek s1 = chartWeek s" and "chartWeek s2 = chartWeek s"
      and "ch_labels (chartWeek s3) = ch_labels (chartWeek s)
           \<or> (\<exists>ls. ch_labels (chartWeek s3) = map (slice_from 5) ls)"
      by simp_all
    then show ?thesis
      using Inr 1 2 3 by (cases r1; cases r2) (simp_all add: loadDay_try_def)
  qed
  then show ?thesis
    by (cases "loadDay_try e d s"; cases "snd (loadDay_try e d s)")
       (simp_all add: loadDay_def)
qed

lemma trimmed_day_format: "is_day_format (slice_from 5 l) \<Longrightarrow> length l = 15"
  by (auto simp add: is_day_format_def slice_from_def)

lemma started_page:
  "started =
     \<lparr>chartDay = \<lparr>ch_labels = map ascii [''T2 01-08'', ''T3 01-09'', ''T4 01-10'', ''T5 01-11'',
                                         ''T6 01-12'', ''T7 01-13'', ''CN 01-14''],
                   ch_pass = map Fin [5, 10, 0, 3, 8, 2, 1], ch_fail = map Fin [1, 2, 0, 0, 1, 0, 0],
                   ch_rate = []\<rparr>,
      chartWeek = \<lparr>ch_labels = map ascii [''01-08'', ''01-09'', ''01-10'', ''01-11'', ''01-12'',
                                          ''01-13'', ''01-14''],
                    ch_pass = map Fin [5, 10, 0, 3, 8, 2, 1], ch_fail = map Fin [1, 2, 0, 0, 1, 0, 0],
                    ch_rate = []\<rparr>,
      chartMonth = empty_chart, chartYear = empty_chart,
      weekLabel = ascii ''08/01 - 14/01'', monthLabel = loi, yearLabel = loi,
      logSummary = (ascii ''2024-01-10'', Fin 3, Fin 1),
      logTable = (0, JNum 1, JNum 0) # (1, JNum 2, JNum 1) # map (\<lambda>h. (h, JNum 0, JNum 0)) [2..<24],
      dayInput = ascii ''2024-01-10'',
      weekYear = \<lparr>sel_options = map ascii [''2022'', ''2023'', ''2024'', ''2025''],
                   sel_value = ascii ''2024''\<rparr>,
      monthYear = \<lparr>sel_options = map ascii [''2022'', ''2023'', ''2024'', ''2025''],
                    sel_value = ascii ''2024''\<rparr>,
      yearSelect = \<lparr>sel_options = map ascii [''2022'', ''2023'', ''2024'', ''2025''],
                     sel_value = ascii ''2024''\<rparr>,
      weekMonth = \<lparr>sel_options = map String_int [1..12], sel_value = ascii ''1''\<rparr>,
      monthSelect = \<lparr>sel_options = map String_int [1..12], sel_value = ascii ''1''\<rparr>,
      weekIndex = \<lparr>sel_options = map String_int [1..5], sel_value = ascii ''2''\<rparr>,
      selectedDevice = ascii ''all'',
      console = [Warn (ascii ''logs/day failed'') (ascii ''2024-01-10'')
                   (JsError (ascii ''500 Internal Server Error - boom'')),
                 Err (ascii ''loadMonth'') (JsError (ascii ''500 Internal Server Error - boom'')),
                 Err (ascii ''loadYear'') (JsError (ascii ''500 Internal Server Error - boom''))],
      alerts = []\<rparr>"
  by code_simp

lemma started_week_labels:
  "ch_labels (chartWeek started)
     = map ascii [''01-08'', ''01-09'', ''01-10'', ''01-11'', ''01-12'', ''01-13'', ''01-14'']"
  by (simp add: started_page)

lemma started_day: "dayInput started = ascii ''2024-01-10''"
  by (simp add: started_page)

lemma no_day_format_left:
  "list_all (\<lambda>l. \<not> is_day_format l)
     (map ascii [''01-08'', ''01-09'', ''01-10'', ''01-11'', ''01-12'', ''01-13'', ''01-14''])"
  by code_simp

lemma sent_labels:
  "list_all is_day_format (case p_labels week2_jan of Some ls \<Rightarrow> ls | None \<Rightarrow> [])"
  by code_simp

lemma started_week_click: "chartWeek_onclick east_env hit started = started"
proof (cases hit)
  case None
  then show ?thesis by (simp add: chartWeek_onclick_def)
next
  case (Some idx)
  have "\<not> (idx < length (ch_labels (chartWeek started))
            \<and> is_day_format (ch_labels (chartWeek started) ! idx))"
    unfolding started_week_labels using no_day_format_left by (auto simp add: list_all_length)
  then show ?thesis unfolding Some by (rule week_click_dead)
qed

lemma year_2022_request:
  "sel_value (set_value (ascii ''2022'') (yearSelect started)) = ascii ''2022''
   \<and> fetchJSON east_env (year_url east_env (started\<lparr>yearSelect := set_value (ascii ''2022'') (yearSelect started)\<rparr>)
                           (ascii ''2022''))
       = Inr (JsonObject year_2022)"
  unfolding started_page by code_simp

lemma year_2022_shown_eq:
  "year_2022_shown =
     (started\<lparr>yearSelect := set_value (ascii ''2022'') (yearSelect started)\<rparr>)
       \<lparr>chartYear := (chartYear started)
          \<lparr>ch_labels := map (\<lambda>m. [84, 104, 225, 110, 103, 32] @ String_int m) [1..12],
           ch_pass := map count_of (map JNum [30, 28, 31, 30, 31, 30, 31, 31, 30, 31, 30, 31]),
           ch_fail := map count_of (map JNum [1, 0, 2, 0, 1, 0, 3, 0, 1, 0, 2, 0]),
           ch_rate := loadYear_rate (map (\<lambda>m. [84, 104, 225, 110, 103, 32] @ String_int m) [1..12])
                        (map JNum [30, 28, 31, 30, 31, 30, 31, 31, 30, 31, 30, 31])
                        (map JNum [1, 0, 2, 0, 1, 0, 3, 0, 1, 0, 2, 0])\<rparr>,
        yearLabel := ascii ''2022''\<rparr>"
proof -
  define s' where "s' = started\<lparr>yearSelect := set_value (ascii ''2022'') (yearSelect started)\<rparr>"
  have p: "p_labels year_2022 = Some (map (\<lambda>m. [84, 104, 225, 110, 103, 32] @ String_int m) [1..12])"
    "p_pass year_2022 = Some (map JNum [30, 28, 31, 30, 31, 30, 31, 31, 30, 31, 30, 31])"
    "p_fail year_2022 = Some (map JNum [1, 0, 2, 0, 1, 0, 3, 0, 1, 0, 2, 0])"
    by (simp_all only: year_2022_def payload.simps)
  have v: "sel_value (yearSelect s') = ascii ''2022''"
    using year_2022_request by (simp add: s'_def)
  have f: "fetchJSON east_env (year_url east_env s' (ascii ''2022'')) = Inr (JsonObject year_2022)"
    using year_2022_request by (simp only: s'_def)
  have "year_2022_shown = loadYear east_env (sel_value (yearSelect s')) s'"
    by (simp only: year_2022_shown_def perform.simps btnLoadYear_onclick_def s'_def)
  also have "\<dots> = loadYear_then (ascii ''2022'') (Inr (JsonObject year_2022)) s'"
    by (simp only: loadYear_def v f)
  also have "\<dots> = s'\<lparr>chartYear := (chartYear s')
          \<lparr>ch_labels := map (\<lambda>m. [84, 104, 225, 110, 103, 32] @ String_int m) [1..12],
           ch_pass := map count_of (map JNum [30, 28, 31, 30, 31, 30, 31, 31, 30, 31, 30, 31]),
           ch_fail := map count_of (map JNum [1, 0, 2, 0, 1, 0, 3, 0, 1, 0, 2, 0]),
           ch_rate := loadYear_rate (map (\<lambda>m. [84, 104, 225, 110, 103, 32] @ String_int m) [1..12])
                        (map JNum [30, 28, 31, 30, 31, 30, 31, 31, 30, 31, 30, 31])
                        (map JNum [1, 0, 2, 0, 1, 0, 3, 0, 1, 0, 2, 0])\<rparr>,
        yearLabel := ascii ''2022''\<rparr>"
    by (simp only: loadYear_then_def loadYear_try_complete [OF p] prod.case option.case)
  finally show ?thesis by (simp only: s'_def) simp
qed

lemma year_2022_labels:
  "6 < length (map (\<lambda>m. [84, 104, 225, 110, 103, 32] @ String_int m) [1..12])
   \<and> map (\<lambda>m. [84, 104, 225, 110, 103, 32] @ String_int m) [1..12] ! 6
       = [84, 104, 225, 110, 103] @ [32] @ [55] @ []
   \<and> list_all2 (\<lambda>c cs. c \<in> set cs) [84, 104, 225, 110, 103] thang \<and> list_all is_space [32]
   \<and> [55] \<noteq> ([] :: int list) \<and> list_all is_digit [55]
   \<and> (([] :: int list) = [] \<or> \<not> is_digit (hd []))"
  by code_simp

lemma year_2022_label:
  "6 < length (ch_labels (chartYear year_2022_shown))
   \<and> ch_labels (chartYear year_2022_shown) ! 6 = [84, 104, 225, 110, 103] @ [32] @ [55] @ []
   \<and> list_all2 (\<lambda>c cs. c \<in> set cs) [84, 104, 225, 110, 103] thang \<and> list_all is_space [32]
   \<and> [55] \<noteq> ([] :: int list) \<and> list_all is_digit [55]
   \<and> (([] :: int list) = [] \<or> \<not> is_digit (hd []))"
proof -
  have "ch_labels (chartYear year_2022_shown)
      = map (\<lambda>m. [84, 104, 225, 110, 103, 32] @ String_int m) [1..12]"
    by (simp add: year_2022_shown_eq)
  then show ?thesis using year_2022_labels by simp
qed

lemma year_2022_url:
  "month_url east_env year_2022_shown (ascii ''2024'') (ascii ''7'') = ascii ''http://host/data/month/2024/7''"
proof -
  have "selectedDevice year_2022_shown = ascii ''all''"
    by (simp add: year_2022_shown_eq started_page)
  then have d: "deviceParam year_2022_shown = []" by (simp add: deviceParam_def)
  have u: "env_api east_env @ ascii ''/data/month/'' @ ascii ''2024'' @ ascii ''/'' @ ascii ''7'' @ []
      = ascii ''http://host/data/month/2024/7''"
    by code_simp
  show ?thesis by (simp only: month_url_def d u)
qed

lemma year_2022_facts:
  "sel_value (yearSelect year_2022_shown) = ascii ''2022''"
  "yearLabel year_2022_shown = ascii ''2022''"
  "sel_value (monthYear year_2022_shown) = ascii ''2024''"
  "String_int (digits_val [55]) = ascii ''7''"
  "month_url east_env year_2022_shown (ascii ''2024'') (ascii ''7'') = ascii ''http://host/data/month/2024/7''"
proof -
  show "sel_value (yearSelect year_2022_shown) = ascii ''2022''"
    using year_2022_request by (simp add: year_2022_shown_eq)
  show "yearLabel year_2022_shown = ascii ''2022''" by (simp add: year_2022_shown_eq)
  show "sel_value (monthYear year_2022_shown) = ascii ''2024''"
    by (simp add: year_2022_shown_eq started_page)
  show "String_int (digits_val [55]) = ascii ''7''" by code_simp
  show "month_url east_env year_2022_shown (ascii ''2024'') (ascii ''7'') = ascii ''http://host/data/month/2024/7''"
    by (rule year_2022_url)
qed

text \<open>
  \<^bold>\<open>C5.\<close> The claim is that a click on an element of the week chart whose label is a date
  opens the day view of that date, and that a click on a month of the year chart opens
  that month of the year shown. The service labels the days of a week with their dates,
  \<^verbatim>\<open>2024-01-08\<close> to \<^verbatim>\<open>2024-01-14\<close>; both writers of the week chart, \<^verbatim>\<open>loadDay\<close> and
  \<^verbatim>\<open>loadWeek\<close>, store \<^verbatim>\<open>l.slice(5)\<close>, and \<^verbatim>\<open>labelsFull\<close>, which the handler would fall
  back to, is never assigned. So after \<^verbatim>\<open>start\<close> the labels are \<^verbatim>\<open>01-08\<close> to \<^verbatim>\<open>01-14\<close>
  and a click on any element of the week chart leaves the page as it is: the day view
  stays on 10 January. And with the year chart showing 2022, a click on \<^verbatim>\<open>Th..ng 7\<close>
  loads July of 2024, the year of the month view's own selector.
\<close>

theorem C5_week_chart_click_does_nothing:
  "list_all is_day_format (case p_labels week2_jan of Some ls \<Rightarrow> ls | None \<Rightarrow> [])
   \<and> ch_labels (chartWeek started)
       = map ascii [''01-08'', ''01-09'', ''01-10'', ''01-11'', ''01-12'', ''01-13'', ''01-14'']
   \<and> dayInput started = ascii ''2024-01-10''
   \<and> (\<forall>hit. chartWeek_onclick east_env hit started = started)
   \<and> sel_value (yearSelect year_2022_shown) = ascii ''2022''
   \<and> yearLabel year_2022_shown = ascii ''2022''
   \<and> ch_labels (chartYear year_2022_shown) ! 6 = [84, 104, 225, 110, 103, 32, 55]
   \<and> chartYear_onclick east_env (Some 6) year_2022_shown
       = loadMonth east_env (ascii ''2024'') (ascii ''7'')
           (buildWeekIndex (year_2022_shown\<lparr>monthSelect := set_value (ascii ''7'') (monthSelect year_2022_shown)\<rparr>))
   \<and> month_url east_env year_2022_shown (ascii ''2024'') (ascii ''7'')
       = ascii ''http://host/data/month/2024/7''"
proof -
  note c1 = sent_labels
  have c4: "\<forall>hit. chartWeek_onclick east_env hit started = started"
    using started_week_click by simp
  have c7: "ch_labels (chartYear year_2022_shown) ! 6 = [84, 104, 225, 110, 103, 32, 55]"
    using year_2022_label by simp
  have h: "6 < length (ch_labels (chartYear year_2022_shown))"
    "ch_labels (chartYear year_2022_shown) ! 6 = [84, 104, 225, 110, 103] @ [32] @ [55] @ []"
    "list_all2 (\<lambda>c cs. c \<in> set cs) [84, 104, 225, 110, 103] thang" "list_all is_space [32]"
    "[55] \<noteq> ([] :: int list)" "list_all is_digit [55]"
    "([] :: int list) = [] \<or> \<not> is_digit (hd [])"
    using year_2022_label by blast+
  have c8: "chartYear_onclick east_env (Some 6) year_2022_shown
       = loadMonth east_env (ascii ''2024'') (ascii ''7'')
           (buildWeekIndex (year_2022_shown\<lparr>monthSelect := set_value (ascii ''7'') (monthSelect year_2022_shown)\<rparr>))"
    using chartYear_hit [OF h, of east_env] by (simp only: year_2022_facts)
  show ?thesis
    by (intro conjI c1 started_week_labels started_day c4 year_2022_facts(1) year_2022_facts(2)
        c7 c8 year_2022_facts(5))
qed

end
